theory Spec2Isabelle
  imports Complex_Main
begin

section \<open>PyQMRI: the IRGN reconstruction driver and its signal models\<close>

text \<open>
  A shallow embedding of \<^verbatim>\<open>src/pyqmri/irgn/reco.py\<close> (class \<^verbatim>\<open>ModelReco\<close>),
  \<^verbatim>\<open>src/pyqmri/models/DiffdirLL.py\<close>, \<^verbatim>\<open>src/mbpq/_models/Diffdir.py\<close> and
  \<^verbatim>\<open>src/IRLL_Model.py\<close>.

  Conventions of the embedding:
  \<^item> in the driver (step sizes, regularisation parameters, line search) single and
    double precision numbers are idealised as \<open>real\<close> and \<open>complex\<close>, with exact
    arithmetic; where the program computes on the entries of single precision arrays
    (\<^verbatim>\<open>_balance_model_gradients\<close>, the signal models), the operations have the range
    of single precision, so that a result can overflow or underflow; the rounding of a
    result within the normal range is left out throughout;
  \<^item> an array is a list, flattened in C order where the source reshapes or reduces over
    all of its entries; \<^verbatim>\<open>np.zeros\<close> of a shape is \<open>replicate n 0\<close> with the number of
    entries \<open>n\<close>;
  \<^item> a buffer allocated with \<^verbatim>\<open>clarray.empty_like\<close> has no defined content: it is
    \<open>None\<close> until a kernel or an operator writes it;
  \<^item> the OpenCL kernels (\<^verbatim>\<open>kernels/OpenCL_Kernels.c\<close>) and the linear operators
    (\<^verbatim>\<open>pyqmri.operator\<close>) are not part of the sources at hand: they are parameters;
  \<^item> a Python exception is a value of type \<open>error\<close>.
\<close>

datatype error =
    NotImplementedError
  | AttributeError
  | IndexError
  | ValueError
  | UnboundLocalError
  | NonFinite

subsection \<open>Configuration and the state of \<^verbatim>\<open>ModelReco\<close>\<close>

text \<open>The dictionary \<^verbatim>\<open>irgn_par\<close>, with the keys the driver reads and writes.\<close>

record irgn_par =
  start_iters :: nat
  max_iters :: nat
  max_gn_it :: nat
  tol :: real
  stag :: real
  lambd :: real
  gamma :: real
  gamma_min :: real
  gamma_dec :: real
  omega :: real
  omega_min :: real
  omega_dec :: real
  delta :: real
  delta_max :: real
  delta_inc :: real
  display_iterations :: bool

text \<open>
  The attributes of a \<^verbatim>\<open>ModelReco\<close> object that the functions below touch.
  \<open>self_v\<close> and \<open>self_z2\<close> are \<open>None\<close> while the attribute does not exist
  (\<^verbatim>\<open>_setup_reg_tmp_arrays\<close> creates them only for \<^verbatim>\<open>TV != 1\<close>).
\<close>

record reco =
  irgn :: irgn_par
  SNR_est :: real
  unknowns :: nat
  unknowns_TGV :: nat
  NSlice :: nat
  dimY :: nat
  dimX :: nat
  data :: "complex list"
  self_delta :: real
  self_delta_max :: real
  self_gamma :: real
  self_omega :: real
  self_tau :: real
  self_beta_line :: real
  self_theta_line :: real
  self_r :: "complex list"
  self_z1 :: "complex list"
  self_v :: "complex list option"
  self_z2 :: "complex list option"

subsection \<open>\<^verbatim>\<open>_setup_reg_tmp_arrays\<close>\<close>

definition setup_reg_tmp_arrays :: "int \<Rightarrow> reco \<Rightarrow> reco" where
  "setup_reg_tmp_arrays TV st =
    (let st1 = st\<lparr>self_r := replicate (length (data st)) 0,
                  self_z1 := replicate (unknowns st * NSlice st * dimY st * dimX st * 4) 0\<rparr>
     in if TV = 1 then
          st1\<lparr>self_tau := 1 / sqrt 8,
              self_beta_line := 400,
              self_theta_line := 1\<rparr>
        else if TV = 0 then
          (let L = 0.5 * (18 + sqrt 33)
           in st1\<lparr>self_tau := 1 / sqrt L,
                  self_beta_line := 400,
                  self_theta_line := 1,
                  self_v := Some (replicate
                    (unknowns_TGV st * NSlice st * dimY st * dimX st * 4) 0),
                  self_z2 := Some (replicate
                    (unknowns_TGV st * NSlice st * dimY st * dimX st * 8) 0)\<rparr>)
        else
          (let L = 0.5 * (18 + sqrt 33)
           in st1\<lparr>self_tau := 1 / sqrt L,
                  self_beta_line := 1,
                  self_theta_line := 1,
                  self_v := Some (replicate
                    (unknowns st * NSlice st * dimY st * dimX st * 4) 0),
                  self_z2 := Some (replicate
                    (unknowns st * NSlice st * dimY st * dimX st * 8) 0)\<rparr>))"

subsection \<open>Entry of the inner solvers\<close>

text \<open>
  The linear operators of \<^verbatim>\<open>pyqmri.operator\<close> that the TGV and the TV solver apply,
  with the coil and gradient buffers fixed, and the kernel \<^verbatim>\<open>update_Kyk2\<close>.
\<close>

record ops =
  op_fwd :: "complex list \<Rightarrow> complex list"
  op_adjKyk1 :: "complex list \<Rightarrow> complex list \<Rightarrow> complex list"
  grad_op_fwd :: "complex list \<Rightarrow> complex list"
  symgrad_op_fwd :: "complex list \<Rightarrow> complex list"
  update_Kyk2 :: "complex list \<Rightarrow> complex list \<Rightarrow> complex list"

text \<open>
  The local variables of a solver when its \<^verbatim>\<open>for i in range(iters)\<close> loop is
  reached. A buffer that the variant does not have, or that is still uninitialised, is
  \<open>None\<close>. \<open>pd_mu\<close> is \<^verbatim>\<open>1 / delta\<close>, \<open>None\<close> when \<open>delta\<close> is zero (numpy
  yields an infinity there).
\<close>

record pd_state =
  pd_alpha :: real
  pd_beta :: real
  pd_tau :: real
  pd_tau_new :: real
  pd_x :: "complex list"
  pd_xk :: "complex list"
  pd_x_new :: "complex list option"
  pd_r :: "complex list option"
  pd_r_new :: "complex list option"
  pd_z1 :: "complex list option"
  pd_z1_new :: "complex list option"
  pd_z2 :: "complex list option"
  pd_z2_new :: "complex list option"
  pd_v :: "complex list option"
  pd_v_new :: "complex list option"
  pd_res :: "complex list"
  pd_delta :: real
  pd_omega :: real
  pd_mu :: "real option"
  pd_theta_line :: real
  pd_beta_line :: real
  pd_mu_line :: real
  pd_delta_line :: real
  pd_Kyk1 :: "complex list option"
  pd_Kyk1_new :: "complex list option"
  pd_Kyk2 :: "complex list option"
  pd_Kyk2_new :: "complex list option"
  pd_gradx :: "complex list option"
  pd_gradx_xold :: "complex list option"
  pd_symgrad_v :: "complex list option"
  pd_symgrad_v_vold :: "complex list option"
  pd_Axold :: "complex list option"
  pd_Ax :: "complex list option"

definition zeros_like :: "complex list \<Rightarrow> complex list" where
  "zeros_like a = replicate (length a) 0"

definition inv_delta :: "real \<Rightarrow> real option" where
  "inv_delta d = (if d = 0 then None else Some (1 / d))"

text \<open>\<^verbatim>\<open>tgv_solve_3D\<close>, lines 484 to 543.\<close>

definition tgv_solve_3D_entry ::
  "ops \<Rightarrow> reco \<Rightarrow> complex list \<Rightarrow> complex list \<Rightarrow> error + pd_state" where
  "tgv_solve_3D_entry K st x res =
    (case self_z2 st of
       None \<Rightarrow> Inl AttributeError
     | Some sz2 \<Rightarrow>
      (case self_v st of
         None \<Rightarrow> Inl AttributeError
       | Some sv \<Rightarrow>
          (let r = zeros_like (self_r st);
               z1 = zeros_like (self_z1 st);
               z2 = zeros_like sz2;
               v = zeros_like sv
           in Inr \<lparr>pd_alpha = gamma (irgn st),
                   pd_beta = gamma (irgn st) * 2,
                   pd_tau = self_tau st,
                   pd_tau_new = 0,
                   pd_x = x,
                   pd_xk = x,
                   pd_x_new = None,
                   pd_r = Some r,
                   pd_r_new = None,
                   pd_z1 = Some z1,
                   pd_z1_new = None,
                   pd_z2 = Some z2,
                   pd_z2_new = None,
                   pd_v = Some v,
                   pd_v_new = None,
                   pd_res = res,
                   pd_delta = delta (irgn st),
                   pd_omega = omega (irgn st),
                   pd_mu = inv_delta (delta (irgn st)),
                   pd_theta_line = self_theta_line st,
                   pd_beta_line = self_beta_line st,
                   pd_mu_line = 0.5,
                   pd_delta_line = 1,
                   pd_Kyk1 = Some (op_adjKyk1 K r z1),
                   pd_Kyk1_new = None,
                   pd_Kyk2 = Some (update_Kyk2 K z2 z1),
                   pd_Kyk2_new = None,
                   pd_gradx = None,
                   pd_gradx_xold = Some (grad_op_fwd K x),
                   pd_symgrad_v = None,
                   pd_symgrad_v_vold = Some (symgrad_op_fwd K v),
                   pd_Axold = Some (op_fwd K x),
                   pd_Ax = None\<rparr>)))"

text \<open>
  \<^verbatim>\<open>tgv_solve_3D_explicit\<close>. After the assignments of \<^verbatim>\<open>alpha\<close>, \<^verbatim>\<open>beta\<close>,
  \<^verbatim>\<open>tau\<close> and \<^verbatim>\<open>tau_new\<close>, line 698 calls \<^verbatim>\<open>self._set_scale(x)\<close>. The class
  \<^verbatim>\<open>ModelReco\<close> has no base class, defines no method of that name, and no statement
  assigns the attribute: the lookup raises \<^verbatim>\<open>AttributeError\<close>, for every object and
  every argument. Nothing is uploaded and no iteration is run; lines 699 to 865 are never
  reached.
\<close>

definition tgv_solve_3D_explicit_entry ::
  "ops \<Rightarrow> reco \<Rightarrow> complex list \<Rightarrow> complex list \<Rightarrow> error + pd_state" where
  "tgv_solve_3D_explicit_entry K st x res = Inl AttributeError"

text \<open>\<^verbatim>\<open>tv_solve_3D\<close>, lines 868 to 914: no \<open>z2\<close>, no \<open>v\<close>, no \<open>Kyk2\<close>.\<close>

definition tv_solve_3D_entry ::
  "ops \<Rightarrow> reco \<Rightarrow> complex list \<Rightarrow> complex list \<Rightarrow> error + pd_state" where
  "tv_solve_3D_entry K st x res =
    (let r = zeros_like (self_r st);
         z1 = zeros_like (self_z1 st)
     in Inr \<lparr>pd_alpha = gamma (irgn st),
             pd_beta = 0,
             pd_tau = self_tau st,
             pd_tau_new = 0,
             pd_x = x,
             pd_xk = x,
             pd_x_new = None,
             pd_r = Some r,
             pd_r_new = None,
             pd_z1 = Some z1,
             pd_z1_new = None,
             pd_z2 = None,
             pd_z2_new = None,
             pd_v = None,
             pd_v_new = None,
             pd_res = res,
             pd_delta = delta (irgn st),
             pd_omega = omega (irgn st),
             pd_mu = inv_delta (delta (irgn st)),
             pd_theta_line = self_theta_line st,
             pd_beta_line = self_beta_line st,
             pd_mu_line = 0.5,
             pd_delta_line = 1,
             pd_Kyk1 = Some (op_adjKyk1 K r z1),
             pd_Kyk1_new = None,
             pd_Kyk2 = None,
             pd_Kyk2_new = None,
             pd_gradx = None,
             pd_gradx_xold = None,
             pd_symgrad_v = None,
             pd_symgrad_v_vold = None,
             pd_Axold = Some (op_fwd K x),
             pd_Ax = None\<rparr>)"

text \<open>
  The dispatch on \<open>TV\<close>, after the residual is computed. In \<^verbatim>\<open>_irgn_solve_3D_kspace\<close>
  (lines 327 to 333) \<open>1\<close> enters the TV solver and \<open>0\<close> the TGV solver; for any other
  value the argument \<^verbatim>\<open>x.get()\<close> of line 332 is evaluated on \<open>x\<close>, which line 324
  has made a numpy array: it raises \<^verbatim>\<open>AttributeError\<close> before
  \<^verbatim>\<open>tgv_solve_3D_explicit\<close> is called. \<^verbatim>\<open>_irgn_solve_3D_imagespace\<close> (lines 422 to
  426) has the first two branches only: for any other value no solver is entered
  (\<open>None\<close>) and \<open>x\<close> is returned as it is. \<open>imagespace\<close> is the argument of the
  constructor that selects one of the two functions.
\<close>

definition solver_entry ::
  "bool \<Rightarrow> int \<Rightarrow> ops \<Rightarrow> reco \<Rightarrow> complex list \<Rightarrow> complex list
    \<Rightarrow> error + pd_state option" where
  "solver_entry imagespace TV K st x res =
    (if TV = 1 then map_sum id Some (tv_solve_3D_entry K st x res)
     else if TV = 0 then map_sum id Some (tgv_solve_3D_entry K st x res)
     else if imagespace then Inr None
     else Inl AttributeError)"

text \<open>
  The buffers that an iteration of \<^verbatim>\<open>tv_solve_3D\<close> writes before its line search
  (lines 916 to 928), for the new primal \<open>x_new\<close> that the kernel \<^verbatim>\<open>update_primal\<close>
  returns: \<open>gradx\<close> from \<open>x_new\<close>, \<open>gradx_xold\<close> from the current \<open>x\<close>, \<open>Ax\<close>
  from \<open>x_new\<close>. The step sizes of lines 919 to 921 are \<open>step_sizes\<close> below.
\<close>

definition tv_iteration_buffers :: "ops \<Rightarrow> complex list \<Rightarrow> pd_state \<Rightarrow> pd_state" where
  "tv_iteration_buffers K x_new s =
     s\<lparr>pd_x_new := Some x_new,
       pd_gradx := Some (grad_op_fwd K x_new),
       pd_gradx_xold := Some (grad_op_fwd K (pd_x s)),
       pd_Ax := Some (op_fwd K x_new)\<rparr>"

subsection \<open>\<^verbatim>\<open>_update_reg_par\<close> and \<^verbatim>\<open>execute\<close>\<close>

text \<open>
  The Euclidean norm of the entries of an array, the value of \<^verbatim>\<open>np.linalg.norm\<close> in
  exact arithmetic.
\<close>

definition l2norm :: "complex list \<Rightarrow> real" where
  "l2norm a = sqrt (\<Sum>z\<leftarrow>a. (cmod z)\<^sup>2)"

text \<open>
  The estimate \<open>result\<close> has one row per unknown; each assignment of the source is one
  update of the dictionary, in the source's order.
\<close>

definition update_reg_par :: "complex list list \<Rightarrow> nat \<Rightarrow> reco \<Rightarrow> reco" where
  "update_reg_par result ign st =
    (let p1 = (irgn st)\<lparr>delta_max := self_delta_max st / 1000 * l2norm (concat result)\<rparr>;
         p2 = p1\<lparr>delta := min (self_delta st / 1000 * l2norm (concat result)
                                  * delta_inc p1 ^ ign)
                               (delta_max p1)\<rparr>;
         p3 = p2\<lparr>gamma := max (self_gamma st * gamma_dec p2 ^ ign) (gamma_min p2)\<rparr>;
         p4 = p3\<lparr>omega := max (self_omega st * omega_dec p3 ^ ign) (omega_min p3)\<rparr>
     in st\<lparr>irgn := p4\<rparr>)"

text \<open>The assignments of \<^verbatim>\<open>execute\<close> before it calls \<^verbatim>\<open>_execute_3D\<close>.\<close>

definition execute_stores :: "reco \<Rightarrow> reco" where
  "execute_stores st =
    (let st1 = st\<lparr>irgn := (irgn st)\<lparr>lambd := lambd (irgn st) * SNR_est st\<rparr>\<rparr>
     in st1\<lparr>self_delta := delta (irgn st1),
            self_delta_max := delta_max (irgn st1),
            self_gamma := gamma (irgn st1),
            self_omega := omega (irgn st1)\<rparr>)"

text \<open>
  What an inner solver leaves behind: the new estimate and the arrays it writes back to
  the object when it returns (\<^verbatim>\<open>self.v\<close>, \<^verbatim>\<open>self.r\<close>, \<^verbatim>\<open>self.z1\<close>, \<^verbatim>\<open>self.z2\<close>).
  The TV solver writes \<open>r\<close> and \<open>z1\<close>, the TGV solver all four. For another \<open>TV\<close>
  no solver returns, and nothing is written back.
\<close>

record solver_out =
  out_x :: "complex list list"
  out_v :: "complex list"
  out_r :: "complex list"
  out_z1 :: "complex list"
  out_z2 :: "complex list"

definition store_duals :: "int \<Rightarrow> solver_out \<Rightarrow> reco \<Rightarrow> reco" where
  "store_duals TV out st =
    (if TV = 1 then st\<lparr>self_r := out_r out, self_z1 := out_z1 out\<rparr>
     else if TV = 0 then
       st\<lparr>self_v := Some (out_v out), self_r := out_r out,
          self_z1 := out_z1 out, self_z2 := Some (out_z2 out)\<rparr>
     else st)"

text \<open>
  The numerical components that \<^verbatim>\<open>_execute_3D\<close> calls, as parameters over a state
  \<open>'h\<close> of everything they own (the model and its scales, the device buffers, the
  output file):
  \<^item> \<open>model_guess\<close>: \<^verbatim>\<open>self.model.guess\<close>;
  \<^item> \<open>linearize\<close>: lines 180 to 188 (Jacobian, balancing, ratio update, forward
    evaluation), which rescale \<open>result\<close> in place;
  \<^item> \<open>calc_residual\<close>: the objective value that \<^verbatim>\<open>calc_residual\<close> stores in
    \<^verbatim>\<open>self._fval\<close>;
  \<^item> \<open>inner_solve\<close>: the solver that \<^verbatim>\<open>irgn_solve_3D\<close> dispatches to;
  \<^item> \<open>savetofile\<close>: \<^verbatim>\<open>self.savetofile(ign, self.model.rescale(result), TV)\<close>.
  \<open>calc_residual\<close> and \<open>inner_solve\<close> read the object, and so the dictionary
  \<^verbatim>\<open>irgn_par\<close>, as it is when they are called.
\<close>

record 'h numerics =
  model_guess :: "'h \<Rightarrow> complex list list"
  linearize :: "nat \<Rightarrow> complex list list \<Rightarrow> 'h \<Rightarrow> complex list list \<times> 'h"
  calc_residual :: "reco \<Rightarrow> int \<Rightarrow> nat \<Rightarrow> complex list list \<Rightarrow> 'h \<Rightarrow> real"
  inner_solve ::
    "reco \<Rightarrow> real \<Rightarrow> int \<Rightarrow> nat \<Rightarrow> complex list list \<Rightarrow> 'h \<Rightarrow> solver_out \<times> 'h"
  savetofile :: "nat \<Rightarrow> complex list list \<Rightarrow> real \<Rightarrow> int \<Rightarrow> 'h \<Rightarrow> 'h"

text \<open>
  The object and the local variables of \<^verbatim>\<open>_execute_3D\<close>. \<open>gn_ign\<close> is the loop
  variable \<open>ign\<close>, \<open>None\<close> before the first iteration. \<open>gn_log\<close> is not in the
  source: it lists the value of \<^verbatim>\<open>irgn_par["lambd"]\<close> that each call of
  \<open>calc_residual\<close> and of \<open>inner_solve\<close> finds, in call order.
\<close>

record 'h gn_state =
  gn_reco :: reco
  gn_hidden :: 'h
  gn_result :: "complex list list"
  gn_iters :: nat
  gn_ign :: "nat option"
  gn_fval :: real
  gn_fval_old :: real
  gn_fval_init :: real
  gn_res :: "real list"
  gn_log :: "real list"

text \<open>
  \<^verbatim>\<open>calc_residual\<close>: stores the objective value, and the initial value at
  \<^verbatim>\<open>GN_it == 0\<close>.
\<close>

definition do_calc_residual ::
  "'h numerics \<Rightarrow> int \<Rightarrow> nat \<Rightarrow> complex list list \<Rightarrow> 'h gn_state \<Rightarrow> 'h gn_state" where
  "do_calc_residual N TV GN_it x g =
    (let fv = calc_residual N (gn_reco g) TV GN_it x (gn_hidden g)
     in g\<lparr>gn_fval := fv,
          gn_fval_init := (if GN_it = 0 then fv else gn_fval_init g),
          gn_log := gn_log g @ [lambd (irgn (gn_reco g))]\<rparr>)"

text \<open>
  \<^verbatim>\<open>irgn_solve_3D\<close>: the objective value at the linearisation point, then the inner
  solver, whose result replaces \<open>result\<close>.
\<close>

definition irgn_solve_3D ::
  "'h numerics \<Rightarrow> int \<Rightarrow> nat \<Rightarrow> 'h gn_state \<Rightarrow> 'h gn_state" where
  "irgn_solve_3D N TV GN_it g =
    (let g1 = do_calc_residual N TV GN_it (gn_result g) g;
         (out, h) = inner_solve N (gn_reco g1) (gn_fval_init g1) TV (gn_iters g1)
                      (gn_result g1) (gn_hidden g1)
     in g1\<lparr>gn_reco := store_duals TV out (gn_reco g1),
           gn_hidden := h,
           gn_result := out_x out,
           gn_log := gn_log g1 @ [lambd (irgn (gn_reco g1))]\<rparr>)"

text \<open>
  The test of line 201. The quotient by \<^verbatim>\<open>self._fval_init\<close> is a numpy quotient: for
  a zero divisor it is an infinity or NaN, and the comparison is false.
\<close>

definition energy_stalled :: "'h gn_state \<Rightarrow> bool" where
  "energy_stalled g \<longleftrightarrow>
     gn_fval_init g \<noteq> 0 \<and>
     \<bar>gn_fval_old g - gn_fval g\<bar> / gn_fval_init g < tol (irgn (gn_reco g))"

definition do_savetofile :: "'h numerics \<Rightarrow> int \<Rightarrow> nat \<Rightarrow> 'h gn_state \<Rightarrow> 'h gn_state" where
  "do_savetofile N TV myit g =
    g\<lparr>gn_hidden := savetofile N myit (gn_result g) (gn_fval g) TV (gn_hidden g)\<rparr>"

text \<open>
  The loop \<^verbatim>\<open>for ign in range(max_gn_it)\<close> of \<^verbatim>\<open>_execute_3D\<close>, over the indices
  still to run; the \<^verbatim>\<open>break\<close> drops them.
\<close>

fun gn_loop :: "'h numerics \<Rightarrow> int \<Rightarrow> nat list \<Rightarrow> 'h gn_state \<Rightarrow> 'h gn_state" where
  "gn_loop N TV [] g = g"
| "gn_loop N TV (ign # rest) g =
    (let (res1, h1) = linearize N ign (gn_result g) (gn_hidden g);
         g1 = g\<lparr>gn_ign := Some ign, gn_result := res1, gn_hidden := h1\<rparr>;
         g2 = g1\<lparr>gn_reco := update_reg_par (gn_result g1) ign (gn_reco g1)\<rparr>;
         g3 = irgn_solve_3D N TV ign g2;
         g4 = g3\<lparr>gn_iters := min (gn_iters g3 * 2) (max_iters (irgn (gn_reco g3)))\<rparr>;
         g5 = g4\<lparr>gn_res := gn_res g4 @ [gn_fval g4]\<rparr>
     in if energy_stalled g5 then
          do_savetofile N TV ign (do_calc_residual N TV (ign + 1) (gn_result g5) g5)
        else
          gn_loop N TV rest
            (do_savetofile N TV ign (g5\<lparr>gn_fval_old := gn_fval g5\<rparr>)))"

text \<open>
  \<^verbatim>\<open>_execute_3D\<close>: the statements before the loop (\<open>gn_enter\<close>), the loop, and the
  call of \<^verbatim>\<open>calc_residual\<close> after it, which reads \<open>ign\<close>; \<open>ign\<close> is unbound
  when the loop has not run.
\<close>

definition gn_enter :: "'h numerics \<Rightarrow> int \<Rightarrow> 'h gn_state \<Rightarrow> 'h gn_state" where
  "gn_enter N TV g =
    (let g1 = g\<lparr>gn_iters := start_iters (irgn (gn_reco g)),
                gn_result := model_guess N (gn_hidden g),
                gn_ign := None\<rparr>
     in g1\<lparr>gn_reco := setup_reg_tmp_arrays TV (gn_reco g1)\<rparr>)"

definition execute_3D :: "'h numerics \<Rightarrow> int \<Rightarrow> 'h gn_state \<Rightarrow> error option \<times> 'h gn_state" where
  "execute_3D N TV g =
    (let g2 = gn_enter N TV g;
         g3 = gn_loop N TV [0 ..< max_gn_it (irgn (gn_reco g2))] g2
     in case gn_ign g3 of
          None \<Rightarrow> (Some UnboundLocalError, g3)
        | Some ign \<Rightarrow> (None, do_calc_residual N TV (ign + 1) (gn_result g3) g3))"

text \<open>
  \<^verbatim>\<open>execute\<close>. The result pairs the exception raised, if any, with the object as the
  call leaves it.
\<close>

definition execute ::
  "'h numerics \<Rightarrow> int \<Rightarrow> int \<Rightarrow> int \<Rightarrow> 'h gn_state \<Rightarrow> error option \<times> 'h gn_state" where
  "execute N TV imagespace reco_2D g =
    (if reco_2D \<noteq> 0 then (Some NotImplementedError, g)
     else execute_3D N TV (g\<lparr>gn_reco := execute_stores (gn_reco g)\<rparr>))"

subsection \<open>The line search of the inner solvers\<close>

text \<open>
  The wrappers of the dual-update kernels, with the arguments of the Python methods
  \<^verbatim>\<open>update_z1\<close>, \<^verbatim>\<open>update_z1_tv\<close>, \<^verbatim>\<open>update_z2\<close> and \<^verbatim>\<open>update_r\<close> (the output
  buffer is the result).
\<close>

record kernels =
  update_z1 ::
    "complex list \<Rightarrow> complex list \<Rightarrow> complex list \<Rightarrow> complex list \<Rightarrow> complex list
      \<Rightarrow> real \<Rightarrow> real \<Rightarrow> real \<Rightarrow> real \<Rightarrow> complex list"
  update_z1_tv ::
    "complex list \<Rightarrow> complex list \<Rightarrow> complex list
      \<Rightarrow> real \<Rightarrow> real \<Rightarrow> real \<Rightarrow> real \<Rightarrow> complex list"
  update_z2 ::
    "complex list \<Rightarrow> complex list \<Rightarrow> complex list \<Rightarrow> real \<Rightarrow> real \<Rightarrow> real \<Rightarrow> complex list"
  update_r ::
    "complex list \<Rightarrow> complex list \<Rightarrow> complex list \<Rightarrow> complex list
      \<Rightarrow> real \<Rightarrow> real \<Rightarrow> real \<Rightarrow> complex list"

text \<open>
  What the \<^verbatim>\<open>while True\<close> loop reads and does not change: the step size \<open>tau\<close> of
  the last iteration, \<open>beta_line\<close> as the iteration has just updated it, the weights,
  and the buffers. All buffers are written before the loop starts. \<open>tau\<close> is not zero
  (it starts at a positive constant and is only multiplied by positive numbers).
\<close>

record ls_env =
  ls_tau :: real
  ls_beta_line :: real
  ls_alpha :: real
  ls_beta :: real
  ls_omega :: real
  ls_lambd :: real
  ls_r :: "complex list"
  ls_z1 :: "complex list"
  ls_z2 :: "complex list"
  ls_gradx :: "complex list"
  ls_gradx_xold :: "complex list"
  ls_v_new :: "complex list"
  ls_v :: "complex list"
  ls_symgrad_v :: "complex list"
  ls_symgrad_v_vold :: "complex list"
  ls_Ax :: "complex list"
  ls_Axold :: "complex list"
  ls_res :: "complex list"
  ls_Kyk1 :: "complex list"
  ls_Kyk2 :: "complex list"

text \<open>What one pass of the loop body computes from the tentative step \<open>tau_new\<close>.\<close>

record ls_vars =
  lv_tau_new :: real
  lv_theta_line :: real
  lv_z1_new :: "complex list"
  lv_z2_new :: "complex list"
  lv_r_new :: "complex list"
  lv_Kyk1_new :: "complex list"
  lv_Kyk2_new :: "complex list"
  lv_ynorm :: real
  lv_lhs :: real

text \<open>
  \<^verbatim>\<open>clarray.vdot(a, b)\<close> conjugates its first argument; \<open>asub\<close> is the difference
  of two arrays of one shape.
\<close>

definition vdot :: "complex list \<Rightarrow> complex list \<Rightarrow> complex" where
  "vdot a b = (\<Sum>(p, q)\<leftarrow>zip a b. cnj p * q)"

definition asub :: "complex list \<Rightarrow> complex list \<Rightarrow> complex list" where
  "asub a b = map2 (-) a b"

text \<open>\<open>z ** (1 / 2)\<close> is the principal square root.\<close>

definition tgv_trial :: "ops \<Rightarrow> kernels \<Rightarrow> ls_env \<Rightarrow> real \<Rightarrow> ls_vars" where
  "tgv_trial K P e tau_new =
    (let theta_line = tau_new / ls_tau e;
         z1_new = update_z1 P (ls_z1 e) (ls_gradx e) (ls_gradx_xold e) (ls_v_new e) (ls_v e)
                    (ls_beta_line e * tau_new) theta_line (ls_alpha e) (ls_omega e);
         z2_new = update_z2 P (ls_z2 e) (ls_symgrad_v e) (ls_symgrad_v_vold e)
                    (ls_beta_line e * tau_new) theta_line (ls_beta e);
         r_new = update_r P (ls_r e) (ls_Ax e) (ls_Axold e) (ls_res e)
                    (ls_beta_line e * tau_new) theta_line (ls_lambd e);
         Kyk1_new = op_adjKyk1 K r_new z1_new;
         Kyk2_new = update_Kyk2 K z2_new z1_new;
         ynorm = Re (csqrt
                   (vdot (asub r_new (ls_r e)) (asub r_new (ls_r e)) +
                    vdot (asub z1_new (ls_z1 e)) (asub z1_new (ls_z1 e)) +
                    vdot (asub z2_new (ls_z2 e)) (asub z2_new (ls_z2 e))));
         lhs = sqrt (ls_beta_line e) * tau_new * Re (csqrt
                   (vdot (asub Kyk1_new (ls_Kyk1 e)) (asub Kyk1_new (ls_Kyk1 e)) +
                    vdot (asub Kyk2_new (ls_Kyk2 e)) (asub Kyk2_new (ls_Kyk2 e))))
     in \<lparr>lv_tau_new = tau_new, lv_theta_line = theta_line, lv_z1_new = z1_new,
         lv_z2_new = z2_new, lv_r_new = r_new, lv_Kyk1_new = Kyk1_new,
         lv_Kyk2_new = Kyk2_new, lv_ynorm = ynorm, lv_lhs = lhs\<rparr>)"

text \<open>The TV solver has no \<open>z2\<close> and no \<open>Kyk2\<close>.\<close>

definition tv_trial :: "ops \<Rightarrow> kernels \<Rightarrow> ls_env \<Rightarrow> real \<Rightarrow> ls_vars" where
  "tv_trial K P e tau_new =
    (let theta_line = tau_new / ls_tau e;
         z1_new = update_z1_tv P (ls_z1 e) (ls_gradx e) (ls_gradx_xold e)
                    (ls_beta_line e * tau_new) theta_line (ls_alpha e) (ls_omega e);
         r_new = update_r P (ls_r e) (ls_Ax e) (ls_Axold e) (ls_res e)
                    (ls_beta_line e * tau_new) theta_line (ls_lambd e);
         Kyk1_new = op_adjKyk1 K r_new z1_new;
         ynorm = Re (csqrt
                   (vdot (asub r_new (ls_r e)) (asub r_new (ls_r e)) +
                    vdot (asub z1_new (ls_z1 e)) (asub z1_new (ls_z1 e))));
         lhs = sqrt (ls_beta_line e) * tau_new * Re (csqrt
                   (vdot (asub Kyk1_new (ls_Kyk1 e)) (asub Kyk1_new (ls_Kyk1 e))))
     in \<lparr>lv_tau_new = tau_new, lv_theta_line = theta_line, lv_z1_new = z1_new,
         lv_z2_new = ls_z2 e, lv_r_new = r_new, lv_Kyk1_new = Kyk1_new,
         lv_Kyk2_new = ls_Kyk2 e, lv_ynorm = ynorm, lv_lhs = lhs\<rparr>)"

text \<open>The constants \<^verbatim>\<open>mu_line = np.float32(0.5)\<close> and \<^verbatim>\<open>delta_line = np.float32(1)\<close>.\<close>

definition mu_line :: real where
  "mu_line = 0.5"

definition delta_line :: real where
  "delta_line = 1"

text \<open>
  The test \<^verbatim>\<open>lhs <= ynorm * delta_line\<close>. For a negative \<open>beta_line\<close> numpy's
  square root is NaN and the comparison is false.
\<close>

definition ls_accept :: "ls_env \<Rightarrow> ls_vars \<Rightarrow> bool" where
  "ls_accept e s \<longleftrightarrow> 0 \<le> ls_beta_line e \<and> lv_lhs s \<le> lv_ynorm s * delta_line"

text \<open>
  The loop \<^verbatim>\<open>while True\<close>, the same in the two solvers but for the body \<open>trial\<close>;
  \<open>None\<close> is the loop that never leaves.
\<close>

partial_function (option) line_search ::
  "(ls_env \<Rightarrow> real \<Rightarrow> ls_vars) \<Rightarrow> ls_env \<Rightarrow> real \<Rightarrow> ls_vars option" where
  "line_search trial e tau_new =
    (let s = trial e tau_new
     in if ls_accept e s then Some s
        else line_search trial e (tau_new * mu_line))"

text \<open>
  The step sizes of one iteration before the line search (lines 549 to 551): the new
  \<open>beta_line\<close> and the first tentative \<open>tau_new\<close>.
\<close>

definition step_sizes :: "real \<Rightarrow> real \<Rightarrow> real \<Rightarrow> real \<Rightarrow> real \<times> real" where
  "step_sizes mu tau theta_line beta_line =
    (let beta_new = beta_line * (1 + mu * tau);
         tau_new = tau * sqrt (beta_line / beta_new * (1 + theta_line))
     in (beta_new, tau_new))"

text \<open>
  The line search of one iteration of \<^verbatim>\<open>tgv_solve_3D\<close> and of \<^verbatim>\<open>tv_solve_3D\<close>,
  started at the tentative step \<open>tau_new\<close>.
\<close>

definition tgv_line_search :: "ops \<Rightarrow> kernels \<Rightarrow> ls_env \<Rightarrow> real \<Rightarrow> ls_vars option" where
  "tgv_line_search K P = line_search (tgv_trial K P)"

definition tv_line_search :: "ops \<Rightarrow> kernels \<Rightarrow> ls_env \<Rightarrow> real \<Rightarrow> ls_vars option" where
  "tv_line_search K P = line_search (tv_trial K P)"

text \<open>
  The acceptance test as the specification words it:
  \<open>sqrt beta_line * tau' * \<parallel>K (y_new - y_old)\<parallel> \<le> delta_line * \<parallel>y_new - y_old\<parallel>\<close>,
  the left norm taken over the change of the buffers \<open>Kyk1\<close> and \<open>Kyk2\<close>, the right
  norm over the change of the dual variables. A variable that a variant does not have
  does not change.
\<close>

definition adjoint_change :: "ls_env \<Rightarrow> ls_vars \<Rightarrow> real" where
  "adjoint_change e s =
     l2norm (asub (lv_Kyk1_new s) (ls_Kyk1 e) @ asub (lv_Kyk2_new s) (ls_Kyk2 e))"

definition dual_change :: "ls_env \<Rightarrow> ls_vars \<Rightarrow> real" where
  "dual_change e s =
     l2norm (asub (lv_r_new s) (ls_r e) @ asub (lv_z1_new s) (ls_z1 e)
             @ asub (lv_z2_new s) (ls_z2 e))"

definition spec_accept :: "ls_env \<Rightarrow> ls_vars \<Rightarrow> bool" where
  "spec_accept e s \<longleftrightarrow>
     sqrt (ls_beta_line e) * lv_tau_new s * adjoint_change e s \<le> delta_line * dual_change e s"

subsection \<open>Numbers that may be infinite or NaN\<close>

text \<open>
  Where the source divides by a norm or a scale that can be zero, numpy does not raise:
  the quotient is an infinity or NaN and the computation goes on. \<open>xreal\<close> is a real
  scalar with the IEEE special values, zero being unsigned. \<open>cval\<close> is a complex array
  entry, \<open>NonFinite\<close> when one of its parts is an infinity or NaN.
\<close>

datatype xreal = Fin real | PInf | MInf | NaN

datatype cval = CFin complex | CNonFinite

fun xmul :: "xreal \<Rightarrow> xreal \<Rightarrow> xreal" where
  "xmul NaN _ = NaN"
| "xmul _ NaN = NaN"
| "xmul (Fin a) (Fin b) = Fin (a * b)"
| "xmul (Fin a) PInf = (if a = 0 then NaN else if 0 < a then PInf else MInf)"
| "xmul (Fin a) MInf = (if a = 0 then NaN else if 0 < a then MInf else PInf)"
| "xmul PInf (Fin b) = (if b = 0 then NaN else if 0 < b then PInf else MInf)"
| "xmul MInf (Fin b) = (if b = 0 then NaN else if 0 < b then MInf else PInf)"
| "xmul PInf PInf = PInf"
| "xmul PInf MInf = MInf"
| "xmul MInf PInf = MInf"
| "xmul MInf MInf = PInf"

fun xdiv :: "xreal \<Rightarrow> xreal \<Rightarrow> xreal" where
  "xdiv NaN _ = NaN"
| "xdiv _ NaN = NaN"
| "xdiv (Fin a) (Fin b) =
     (if b = 0 then (if a = 0 then NaN else if 0 < a then PInf else MInf)
      else Fin (a / b))"
| "xdiv (Fin a) PInf = Fin 0"
| "xdiv (Fin a) MInf = Fin 0"
| "xdiv PInf (Fin b) = (if 0 \<le> b then PInf else MInf)"
| "xdiv MInf (Fin b) = (if 0 \<le> b then MInf else PInf)"
| "xdiv PInf PInf = NaN"
| "xdiv PInf MInf = NaN"
| "xdiv MInf PInf = NaN"
| "xdiv MInf MInf = NaN"

text \<open>The product of an array entry and a real scalar.\<close>

fun cmulx :: "cval \<Rightarrow> xreal \<Rightarrow> cval" where
  "cmulx (CFin z) (Fin a) = CFin (z * of_real a)"
| "cmulx _ _ = CNonFinite"

text \<open>The norm of a row: \<open>None\<close> when an entry is not finite.\<close>

fun finite_part :: "cval list \<Rightarrow> complex list option" where
  "finite_part [] = Some []"
| "finite_part (CFin z # zs) = map_option ((#) z) (finite_part zs)"
| "finite_part (CNonFinite # zs) = None"

definition cnorm :: "cval list \<Rightarrow> real option" where
  "cnorm row = map_option l2norm (finite_part row)"

subsection \<open>The range of single precision\<close>

text \<open>
  The arrays of the package are single precision (\<^verbatim>\<open>DTYPE = complex64\<close>,
  \<^verbatim>\<open>DTYPE_real = float32\<close>). Where a function works on such arrays entry by entry
  (\<^verbatim>\<open>_balance_model_gradients\<close>, the signal models), the model follows the
  operations of the source one by one and gives each result the range of single
  precision: a result beyond the largest number \<open>float32_max\<close> is an infinity, and a
  result below the smallest normal number \<open>float32_tiny\<close> is rounded to a multiple of
  \<open>1 / 2 ^ 149\<close> (to zero when it is small enough). The rounding of a result within
  the normal range, a relative error of at most \<open>1 / 2 ^ 24\<close>, is left out.

  numpy carries an operation out in double precision when one of its operands is a
  double precision array, as the attributes \<^verbatim>\<open>self.b\<close>, \<^verbatim>\<open>self.dir\<close> and
  \<^verbatim>\<open>self.phase\<close> of a model may be, and converts the result to single precision where
  it is stored (\<^verbatim>\<open>astype(DTYPE)\<close>, \<^verbatim>\<open>dtype=DTYPE\<close>, an assignment in place). The model
  carries every operation out in single precision. A computation in which no operation
  of the model leaves the normal range is the same in both, up to rounding; the
  statements on computed values are made for such computations.
\<close>

definition float32_max :: real where
  "float32_max = (2 - 1 / 2 ^ 23) * 2 ^ 127"

definition float32_tiny :: real where
  "float32_tiny = 1 / 2 ^ 126"

definition normal32 :: "real \<Rightarrow> bool" where
  "normal32 r \<longleftrightarrow> r = 0 \<or> (float32_tiny \<le> \<bar>r\<bar> \<and> \<bar>r\<bar> \<le> float32_max)"

text \<open>Rounding to the nearest integer, a tie to the even one.\<close>

definition rne :: "real \<Rightarrow> int" where
  "rne r =
    (let f = \<lfloor>r\<rfloor>
     in if r - of_int f < 1 / 2 then f
        else if 1 / 2 < r - of_int f then f + 1
        else if even f then f else f + 1)"

definition denorm32 :: "real \<Rightarrow> real" where
  "denorm32 r = of_int (rne (r * 2 ^ 149)) / 2 ^ 149"

definition f32 :: "real \<Rightarrow> xreal" where
  "f32 r =
    (if float32_max < \<bar>r\<bar> then (if 0 < r then PInf else MInf)
     else if \<bar>r\<bar> < float32_tiny then Fin (denorm32 r)
     else Fin r)"

fun xneg :: "xreal \<Rightarrow> xreal" where
  "xneg (Fin a) = Fin (- a)"
| "xneg PInf = MInf"
| "xneg MInf = PInf"
| "xneg NaN = NaN"

fun xadd :: "xreal \<Rightarrow> xreal \<Rightarrow> xreal" where
  "xadd NaN _ = NaN"
| "xadd _ NaN = NaN"
| "xadd (Fin a) (Fin b) = Fin (a + b)"
| "xadd (Fin a) PInf = PInf"
| "xadd (Fin a) MInf = MInf"
| "xadd PInf (Fin b) = PInf"
| "xadd MInf (Fin b) = MInf"
| "xadd PInf PInf = PInf"
| "xadd MInf MInf = MInf"
| "xadd PInf MInf = NaN"
| "xadd MInf PInf = NaN"

text \<open>
  A single precision number as the program holds it, \<open>fl_val\<close>, with a mark that is
  not in the program: \<open>fl_ok\<close> says that the number was computed from finite numbers
  and that no operation on the way to it left the normal range, by overflow, by
  underflow or by a division by zero. \<open>rnd r\<close> is the result of an operation whose
  exact value is \<open>r\<close>.
\<close>

datatype fl = Fl (fl_val: xreal) (fl_ok: bool)

definition rnd :: "real \<Rightarrow> fl" where
  "rnd r = Fl (f32 r) (normal32 r)"

definition also_ok :: "bool \<Rightarrow> fl \<Rightarrow> fl" where
  "also_ok k a = Fl (fl_val a) (k \<and> fl_ok a)"

definition fl_of :: "real \<Rightarrow> fl" where
  "fl_of r = Fl (Fin r) True"

instantiation fl :: "{plus, minus, uminus, times, inverse}"
begin

definition plus_fl :: "fl \<Rightarrow> fl \<Rightarrow> fl" where
  "plus_fl a b =
    (case (fl_val a, fl_val b) of
       (Fin p, Fin q) \<Rightarrow> also_ok (fl_ok a \<and> fl_ok b) (rnd (p + q))
     | (u, v) \<Rightarrow> Fl (xadd u v) False)"

definition minus_fl :: "fl \<Rightarrow> fl \<Rightarrow> fl" where
  "minus_fl a b =
    (case (fl_val a, fl_val b) of
       (Fin p, Fin q) \<Rightarrow> also_ok (fl_ok a \<and> fl_ok b) (rnd (p - q))
     | (u, v) \<Rightarrow> Fl (xadd u (xneg v)) False)"

definition uminus_fl :: "fl \<Rightarrow> fl" where
  "uminus_fl a = Fl (xneg (fl_val a)) (fl_ok a)"

definition times_fl :: "fl \<Rightarrow> fl \<Rightarrow> fl" where
  "times_fl a b =
    (case (fl_val a, fl_val b) of
       (Fin p, Fin q) \<Rightarrow> also_ok (fl_ok a \<and> fl_ok b) (rnd (p * q))
     | (u, v) \<Rightarrow> Fl (xmul u v) False)"

definition divide_fl :: "fl \<Rightarrow> fl \<Rightarrow> fl" where
  "divide_fl a b =
    (case (fl_val a, fl_val b) of
       (Fin p, Fin q) \<Rightarrow>
         if q = 0 then Fl (xdiv (Fin p) (Fin q)) False
         else also_ok (fl_ok a \<and> fl_ok b) (rnd (p / q))
     | (u, v) \<Rightarrow> Fl (xdiv u v) False)"

definition inverse_fl :: "fl \<Rightarrow> fl" where
  "inverse_fl a =
    (case fl_val a of
       Fin q \<Rightarrow>
         if q = 0 then Fl PInf False
         else also_ok (fl_ok a) (rnd (1 / q))
     | v \<Rightarrow> Fl (xdiv (Fin 1) v) False)"

instance ..

end

definition fl_sqrt :: "fl \<Rightarrow> fl" where
  "fl_sqrt a =
    (case fl_val a of
       Fin p \<Rightarrow> if p < 0 then Fl NaN False else also_ok (fl_ok a) (rnd (sqrt p))
     | PInf \<Rightarrow> Fl PInf False
     | _ \<Rightarrow> Fl NaN False)"

text \<open>
  A \<^verbatim>\<open>complex64\<close> number: its two parts. The product is the one of numpy's loop,
  \<open>(ar * br - ai * bi, ar * bi + ai * br)\<close>, each operation in single precision; a
  real factor is first converted to a complex number with the imaginary part zero
  (\<open>c64_of_fl\<close>), so that an infinite part times that zero is NaN.
\<close>

datatype c64 = C64 (re64: fl) (im64: fl)

instantiation c64 :: "{plus, uminus, times}"
begin

definition plus_c64 :: "c64 \<Rightarrow> c64 \<Rightarrow> c64" where
  "plus_c64 z w = C64 (re64 z + re64 w) (im64 z + im64 w)"

definition uminus_c64 :: "c64 \<Rightarrow> c64" where
  "uminus_c64 z = C64 (- re64 z) (- im64 z)"

definition times_c64 :: "c64 \<Rightarrow> c64 \<Rightarrow> c64" where
  "times_c64 z w =
     C64 (re64 z * re64 w - im64 z * im64 w) (re64 z * im64 w + im64 z * re64 w)"

instance ..

end

definition c64_of_fl :: "fl \<Rightarrow> c64" where
  "c64_of_fl a = C64 a (fl_of 0)"

text \<open>An entry of an array of finite numbers, and a real scalar as a factor.\<close>

definition cin :: "complex \<Rightarrow> c64" where
  "cin z = C64 (fl_of (Re z)) (fl_of (Im z))"

definition rin :: "real \<Rightarrow> c64" where
  "rin r = c64_of_fl (fl_of r)"

text \<open>\<^verbatim>\<open>a ** 2\<close> on an array is numpy's \<^verbatim>\<open>square\<close>, the product \<open>a * a\<close>.\<close>

definition sq :: "c64 \<Rightarrow> c64" where
  "sq a = a * a"

text \<open>
  \<^verbatim>\<open>np.exp\<close> of a complex number: \<open>(exp a * cos b, exp a * sin b)\<close>. The C library
  scales the computation, so that a part overflows only when the product does; minus
  infinity gives zero.
\<close>

definition cexp64 :: "c64 \<Rightarrow> c64" where
  "cexp64 z =
    (case (fl_val (re64 z), fl_val (im64 z)) of
       (Fin p, Fin q) \<Rightarrow>
         (let k = fl_ok (re64 z) \<and> fl_ok (im64 z) \<and> normal32 (exp p)
          in C64 (also_ok k (rnd (exp p * cos q))) (also_ok k (rnd (exp p * sin q))))
     | (MInf, Fin q) \<Rightarrow> C64 (Fl (Fin 0) False) (Fl (Fin 0) False)
     | _ \<Rightarrow> C64 (Fl NaN False) (Fl NaN False))"

text \<open>
  The quotient of a complex number by a real scalar, which numpy converts to a complex
  number first: the loop of the complex quotient with the imaginary part of the divisor
  zero. It multiplies by the reciprocal \<open>scl\<close> of the divisor.
\<close>

definition cdivr :: "c64 \<Rightarrow> fl \<Rightarrow> c64" where
  "cdivr z s =
    (if fl_val s = NaN then C64 (Fl NaN False) (Fl NaN False)
     else if fl_val s = Fin 0 then C64 (re64 z / s) (im64 z / s)
     else (let rat = fl_of 0 / s;
               scl = fl_of 1 / (s + fl_of 0 * rat)
           in C64 ((re64 z + im64 z * rat) * scl) ((im64 z - re64 z * rat) * scl)))"

text \<open>The two parts are finite: \<^verbatim>\<open>np.isfinite\<close>; and the entry as a value.\<close>

definition c_ok :: "c64 \<Rightarrow> bool" where
  "c_ok z \<longleftrightarrow> fl_ok (re64 z) \<and> fl_ok (im64 z)"

definition cval_of :: "c64 \<Rightarrow> cval" where
  "cval_of z =
    (case (fl_val (re64 z), fl_val (im64 z)) of
       (Fin p, Fin q) \<Rightarrow> CFin (Complex p q)
     | _ \<Rightarrow> CNonFinite)"

definition c64_of_cval :: "cval \<Rightarrow> c64" where
  "c64_of_cval a = (case a of CFin z \<Rightarrow> cin z | CNonFinite \<Rightarrow> C64 (Fl NaN False) (Fl NaN False))"

text \<open>
  \<open>tracks a r\<close>: when no operation has left the normal range, the number is \<open>r\<close>.
\<close>

definition tracks :: "fl \<Rightarrow> real \<Rightarrow> bool" where
  "tracks a r \<longleftrightarrow> (fl_ok a \<longrightarrow> fl_val a = Fin r)"

definition ctracks :: "c64 \<Rightarrow> complex \<Rightarrow> bool" where
  "ctracks t z \<longleftrightarrow> tracks (re64 t) (Re z) \<and> tracks (im64 t) (Im z)"

subsection \<open>\<^verbatim>\<open>_balance_model_gradients\<close>\<close>

text \<open>The class \<^verbatim>\<open>constraints\<close>; a bound may be infinite.\<close>

record constraint =
  c_min :: xreal
  c_max :: xreal
  c_real :: bool

definition constraint_update :: "xreal \<Rightarrow> constraint \<Rightarrow> constraint" where
  "constraint_update scale c = c\<lparr>c_min := xdiv (c_min c) scale, c_max := xdiv (c_max c) scale\<rparr>"

text \<open>
  The arrays the function works on: the estimate \<open>result\<close> and the Jacobian
  \<^verbatim>\<open>self.grad_x\<close>, one row per unknown, the scales \<^verbatim>\<open>self.model.uk_scale\<close> and the
  constraints. When the function is called the record holds the numbers of the program:
  the Jacobian comes out of \<^verbatim>\<open>np.nan_to_num\<close> (line 180), so its entries are finite
  (type \<open>complex\<close>); an entry of the estimate and a scale need not be (types \<open>cval\<close> and
  \<open>xreal\<close>). While the function runs, and when it returns, the record holds single
  precision numbers with their marks (types \<open>c64\<close> and \<open>fl\<close>).
\<close>

record ('x, 'g, 's) bal_state =
  b_result :: "'x list list"
  b_grad_x :: "'g list list"
  b_uk_scale :: "'s list"
  b_constraints :: "constraint list"

text \<open>A number of the program that was not computed here: it is marked when finite.\<close>

definition fl_in :: "xreal \<Rightarrow> fl" where
  "fl_in v = Fl v (case v of Fin r \<Rightarrow> True | _ \<Rightarrow> False)"

text \<open>\<^verbatim>\<open>np.reshape(a, (rows, n))\<close> of the entries \<open>a\<close> in C order.\<close>

definition reshape2 :: "nat \<Rightarrow> nat \<Rightarrow> 'a list \<Rightarrow> 'a list list" where
  "reshape2 rows n a = map (\<lambda>i. take n (drop (i * n) a)) [0 ..< rows]"

text \<open>
  \<^verbatim>\<open>np.linalg.norm(a, axis=-1)\<close> of one row of a \<^verbatim>\<open>complex64\<close> array: numpy computes
  \<^verbatim>\<open>sqrt(add.reduce((a.conj() * a).real))\<close>, the products, the sum and the root in
  single precision. The sum is taken from the left; numpy adds in blocks, which gives
  the same sum while no partial sum leaves the normal range.
\<close>

definition cconj :: "c64 \<Rightarrow> c64" where
  "cconj z = C64 (re64 z) (- im64 z)"

definition norm_complex64 :: "c64 list \<Rightarrow> fl" where
  "norm_complex64 row = fl_sqrt (foldl (+) (fl_of 0) (map (\<lambda>z. re64 (cconj z * z)) row))"

text \<open>
  The six statements of the body of \<^verbatim>\<open>for uk in range(self.par["unknowns"])\<close>,
  in the source's order: the constraint, then \<open>result[uk] *= uk_scale[uk]\<close>,
  \<open>grad_x[uk] /= uk_scale[uk]\<close>, \<open>uk_scale[uk] *= scale[uk]\<close>,
  \<open>result[uk] /= uk_scale[uk]\<close> and \<open>grad_x[uk] *= uk_scale[uk]\<close>. The products and
  the quotients of the arrays are those of \<^verbatim>\<open>complex64\<close> numbers, the scale being
  converted first.
\<close>

definition balance_unknown ::
  "fl \<Rightarrow> nat \<Rightarrow> (c64, c64, fl) bal_state \<Rightarrow> (c64, c64, fl) bal_state" where
  "balance_unknown scale_uk uk st =
    (let st1 = st\<lparr>b_constraints :=
                (b_constraints st)[uk :=
                   constraint_update (fl_val scale_uk) (b_constraints st ! uk)]\<rparr>;
         st2 = st1\<lparr>b_result :=
                (b_result st1)[uk :=
                   map (\<lambda>z. z * c64_of_fl (b_uk_scale st1 ! uk)) (b_result st1 ! uk)]\<rparr>;
         st3 = st2\<lparr>b_grad_x :=
                (b_grad_x st2)[uk := map (\<lambda>z. cdivr z (b_uk_scale st2 ! uk)) (b_grad_x st2 ! uk)]\<rparr>;
         st4 = st3\<lparr>b_uk_scale :=
                (b_uk_scale st3)[uk := b_uk_scale st3 ! uk * scale_uk]\<rparr>;
         st5 = st4\<lparr>b_result :=
                (b_result st4)[uk := map (\<lambda>z. cdivr z (b_uk_scale st4 ! uk)) (b_result st4 ! uk)]\<rparr>
     in st5\<lparr>b_grad_x :=
                (b_grad_x st5)[uk :=
                   map (\<lambda>z. z * c64_of_fl (b_uk_scale st5 ! uk)) (b_grad_x st5 ! uk)]\<rparr>)"

text \<open>
  The loop, over the indices left. An index beyond one of the arrays raises at the
  first access.
\<close>

fun balance_loop ::
  "fl list \<Rightarrow> nat list \<Rightarrow> (c64, c64, fl) bal_state \<Rightarrow> error + (c64, c64, fl) bal_state" where
  "balance_loop scale [] st = Inr st"
| "balance_loop scale (uk # uks) st =
    (if length scale \<le> uk \<or> length (b_constraints st) \<le> uk \<or> length (b_result st) \<le> uk
        \<or> length (b_uk_scale st) \<le> uk \<or> length (b_grad_x st) \<le> uk
     then Inl IndexError
     else balance_loop scale uks (balance_unknown (scale ! uk) uk st))"

text \<open>
  \<^verbatim>\<open>_balance_model_gradients(result, ind)\<close> for \<open>U\<close> unknowns and \<open>n\<close> entries
  (\<^verbatim>\<open>NScan * NSlice * dimY * dimX\<close>) in each slice of the Jacobian. The reshape raises
  when the sizes do not agree. \<open>scale\<close> is \<^verbatim>\<open>1e3 / np.sqrt(unknowns) / scale\<close>, a
  single precision array. The prints, and the norms computed for the last of them, are
  left out.
\<close>

definition balance_model_gradients ::
  "nat \<Rightarrow> nat \<Rightarrow> nat \<Rightarrow> (cval, complex, xreal) bal_state
    \<Rightarrow> error + (c64, c64, fl) bal_state" where
  "balance_model_gradients U n ind st =
    (if length (concat (b_grad_x st)) \<noteq> U * n then Inl ValueError
     else
      (let norms = map (\<lambda>row. norm_complex64 (map cin row))
                     (reshape2 U n (concat (b_grad_x st)));
           scale = map (\<lambda>nrm. fl_of 1000 / fl_sqrt (fl_of (real U)) / nrm) norms;
           st0 = \<lparr>b_result = map (map c64_of_cval) (b_result st),
                  b_grad_x = map (map cin) (b_grad_x st),
                  b_uk_scale = map fl_in (b_uk_scale st),
                  b_constraints = b_constraints st\<rparr>
       in if ind mod 1 = 0 then balance_loop scale [0 ..< U] st0 else Inr st0))"

subsection \<open>The diffusion tensor models\<close>

text \<open>
  One diffusion weighting: the entry of \<^verbatim>\<open>self.b\<close> and the row of \<^verbatim>\<open>self.dir\<close> of a
  scan. The formulas below are those of one scan and one voxel; \<open>x\<close> lists the seven
  unknowns at the voxel, \<open>uk\<close> is \<^verbatim>\<open>self.uk_scale\<close>, \<open>ph\<close> the entry of
  \<^verbatim>\<open>self.phase\<close>. Each formula of the source is given twice: first as the function
  of complex numbers that it denotes (\<open>Diffdir_signal\<close>, \<open>Diffdir_grad\<close>, ...), then
  as the program evaluates it in single precision (\<open>Diffdir_forward_c64\<close>,
  \<open>Diffdir_grad_c64\<close>, ...). The arrays that the program returns are built from the
  second.
\<close>

record scan =
  sc_b :: real
  sc_dir0 :: real
  sc_dir1 :: real
  sc_dir2 :: real

text \<open>
  The entries of \<open>uk\<close>, \<open>self.dir\<close> and \<open>self.b\<close> are real numbers; in a
  product with an unknown they are converted to complex numbers.
\<close>

definition ukc :: "real list \<Rightarrow> nat \<Rightarrow> complex" where
  "ukc uk u = complex_of_real (uk ! u)"

definition dir0 :: "scan \<Rightarrow> complex" where
  "dir0 s = complex_of_real (sc_dir0 s)"

definition dir1 :: "scan \<Rightarrow> complex" where
  "dir1 s = complex_of_real (sc_dir1 s)"

definition dir2 :: "scan \<Rightarrow> complex" where
  "dir2 s = complex_of_real (sc_dir2 s)"

definition bval :: "scan \<Rightarrow> complex" where
  "bval s = complex_of_real (sc_b s)"

text \<open>\<^verbatim>\<open>src/mbpq/_models/Diffdir.py\<close>: the tensor entries are the unknowns.\<close>

definition Diffdir_ADC :: "real list \<Rightarrow> scan \<Rightarrow> complex list \<Rightarrow> complex" where
  "Diffdir_ADC uk s x =
     x ! 1 * ukc uk 1 * (dir0 s)\<^sup>2 + x ! 3 * ukc uk 3 * (dir1 s)\<^sup>2
     + x ! 5 * ukc uk 5 * (dir2 s)\<^sup>2
     + 2 * x ! 2 * ukc uk 2 * dir0 s * dir1 s
     + 2 * x ! 4 * ukc uk 4 * dir0 s * dir2 s
     + 2 * x ! 6 * ukc uk 6 * dir1 s * dir2 s"

definition Diffdir_signal :: "real list \<Rightarrow> scan \<Rightarrow> complex list \<Rightarrow> complex" where
  "Diffdir_signal uk s x = x ! 0 * ukc uk 0 * exp (- Diffdir_ADC uk s x * bval s)"

definition Diffdir_grad :: "real list \<Rightarrow> scan \<Rightarrow> complex \<Rightarrow> complex list \<Rightarrow> complex list" where
  "Diffdir_grad uk s ph x =
    (let grad_M0 = ukc uk 0 * exp (- Diffdir_ADC uk s x * bval s) * ph;
         grad_ADC_x = x ! 0 * grad_M0 * (- ukc uk 1 * (dir0 s)\<^sup>2 * bval s);
         grad_ADC_xy = x ! 0 * grad_M0 * (- 2 * ukc uk 2 * dir0 s * dir1 s * bval s);
         grad_ADC_y = x ! 0 * grad_M0 * (- ukc uk 3 * (dir1 s)\<^sup>2 * bval s);
         grad_ADC_xz = x ! 0 * grad_M0 * (- 2 * ukc uk 4 * dir0 s * dir2 s * bval s);
         grad_ADC_z = x ! 0 * grad_M0 * (- ukc uk 5 * (dir2 s)\<^sup>2 * bval s);
         grad_ADC_yz = x ! 0 * grad_M0 * (- 2 * ukc uk 6 * dir1 s * dir2 s * bval s)
     in [grad_M0, grad_ADC_x, grad_ADC_xy, grad_ADC_y, grad_ADC_xz, grad_ADC_z, grad_ADC_yz])"

text \<open>
  \<^verbatim>\<open>src/pyqmri/models/DiffdirLL.py\<close>: the unknowns are the entries of a Cholesky
  factor of the tensor.
\<close>

definition DiffdirLL_ADC :: "real list \<Rightarrow> scan \<Rightarrow> complex list \<Rightarrow> complex" where
  "DiffdirLL_ADC uk s x =
     (x ! 1)\<^sup>2 * (ukc uk 1)\<^sup>2 * (dir0 s)\<^sup>2
     + ((x ! 2)\<^sup>2 * (ukc uk 2)\<^sup>2 + (x ! 3)\<^sup>2 * (ukc uk 3)\<^sup>2) * (dir1 s)\<^sup>2
     + ((x ! 4)\<^sup>2 * (ukc uk 4)\<^sup>2 + (x ! 5)\<^sup>2 * (ukc uk 5)\<^sup>2 + (x ! 6)\<^sup>2 * (ukc uk 6)\<^sup>2)
       * (dir2 s)\<^sup>2
     + 2 * (x ! 2 * ukc uk 2 * x ! 1 * ukc uk 1) * dir0 s * dir1 s
     + 2 * (x ! 4 * ukc uk 4 * x ! 1 * ukc uk 1) * dir0 s * dir2 s
     + 2 * (x ! 2 * ukc uk 2 * x ! 4 * ukc uk 4 + x ! 6 * ukc uk 6 * x ! 3 * ukc uk 3)
       * dir1 s * dir2 s"

definition DiffdirLL_signal :: "real list \<Rightarrow> scan \<Rightarrow> complex list \<Rightarrow> complex" where
  "DiffdirLL_signal uk s x = x ! 0 * ukc uk 0 * exp (- DiffdirLL_ADC uk s x * bval s)"

definition DiffdirLL_grad ::
  "real list \<Rightarrow> scan \<Rightarrow> complex \<Rightarrow> complex list \<Rightarrow> complex list" where
  "DiffdirLL_grad uk s ph x =
    (let grad_M0 = ukc uk 0 * exp (- DiffdirLL_ADC uk s x * bval s) * ph;
         grad_ADC_x = - x ! 0 * bval s * grad_M0 *
           (2 * x ! 1 * (ukc uk 1)\<^sup>2 * (dir0 s)\<^sup>2
            + 2 * ukc uk 1 * x ! 2 * ukc uk 2 * dir0 s * dir1 s
            + 2 * ukc uk 1 * x ! 4 * ukc uk 4 * dir0 s * dir2 s);
         grad_ADC_xy = - x ! 0 * bval s * grad_M0 *
           (2 * x ! 1 * ukc uk 1 * ukc uk 2 * dir0 s * dir1 s
            + 2 * x ! 2 * (ukc uk 2)\<^sup>2 * (dir1 s)\<^sup>2
            + 2 * ukc uk 2 * x ! 4 * ukc uk 4 * dir1 s * dir2 s);
         grad_ADC_y = - x ! 0 * bval s * grad_M0 *
           (2 * x ! 3 * (ukc uk 3)\<^sup>2 * (dir1 s)\<^sup>2
            + 2 * ukc uk 3 * x ! 6 * ukc uk 6 * dir1 s * dir2 s);
         grad_ADC_xz = - x ! 0 * bval s * grad_M0 *
           (2 * x ! 1 * ukc uk 1 * ukc uk 4 * dir0 s * dir2 s
            + 2 * x ! 2 * ukc uk 2 * ukc uk 4 * dir1 s * dir2 s
            + 2 * x ! 4 * (ukc uk 4)\<^sup>2 * (dir2 s)\<^sup>2);
         grad_ADC_z = - 2 * x ! 5 * (ukc uk 5)\<^sup>2 * x ! 0 * bval s * (dir2 s)\<^sup>2 * grad_M0;
         grad_ADC_yz = - x ! 0 * bval s * grad_M0 *
           (2 * x ! 3 * ukc uk 3 * ukc uk 6 * dir1 s * dir2 s
            + 2 * x ! 6 * (ukc uk 6)\<^sup>2 * (dir2 s)\<^sup>2)
     in [grad_M0, grad_ADC_x, grad_ADC_xy, grad_ADC_y, grad_ADC_xz, grad_ADC_z, grad_ADC_yz])"

text \<open>
  \<^verbatim>\<open>Model.rescale\<close> of \<^verbatim>\<open>DiffdirLL.py\<close> at one voxel: \<open>M0\<close> and the six tensor
  entries, in the order of the returned array.
\<close>

definition DiffdirLL_rescale :: "real list \<Rightarrow> complex list \<Rightarrow> complex list" where
  "DiffdirLL_rescale uk x =
    (let M0 = x ! 0 * ukc uk 0;
         ADC_x = Re ((x ! 1)\<^sup>2) * (uk ! 1)\<^sup>2;
         ADC_xy = Re (x ! 2 * ukc uk 2 * x ! 1 * ukc uk 1);
         ADC_y = Re ((x ! 2)\<^sup>2 * (ukc uk 2)\<^sup>2 + (x ! 3)\<^sup>2 * (ukc uk 3)\<^sup>2);
         ADC_xz = Re (x ! 4 * ukc uk 4 * x ! 1 * ukc uk 1);
         ADC_z = Re ((x ! 4)\<^sup>2 * (ukc uk 4)\<^sup>2 + (x ! 5)\<^sup>2 * (ukc uk 5)\<^sup>2
                     + (x ! 6)\<^sup>2 * (ukc uk 6)\<^sup>2);
         ADC_yz = Re (x ! 2 * ukc uk 2 * x ! 4 * ukc uk 4 + x ! 6 * ukc uk 6 * x ! 3 * ukc uk 3)
     in [M0, complex_of_real ADC_x, complex_of_real ADC_xy, complex_of_real ADC_y,
         complex_of_real ADC_xz, complex_of_real ADC_z, complex_of_real ADC_yz])"

text \<open>
  The same formulas as the program evaluates them, operation by operation in the order
  of the source, each result with the range of single precision. \<open>x\<close>, \<open>ph\<close>,
  \<open>uk\<close>, the direction and the b-value are the finite numbers the arrays and
  attributes hold. \<^verbatim>\<open>astype(DTYPE)\<close> and \<^verbatim>\<open>dtype=DTYPE\<close> convert to the precision
  the results already have.
\<close>

definition Diffdir_ADC_c64 :: "real list \<Rightarrow> scan \<Rightarrow> complex list \<Rightarrow> c64" where
  "Diffdir_ADC_c64 uk s x =
     cin (x ! 1) * rin (uk ! 1) * sq (rin (sc_dir0 s))
     + cin (x ! 3) * rin (uk ! 3) * sq (rin (sc_dir1 s))
     + cin (x ! 5) * rin (uk ! 5) * sq (rin (sc_dir2 s))
     + rin 2 * cin (x ! 2) * rin (uk ! 2) * rin (sc_dir0 s) * rin (sc_dir1 s)
     + rin 2 * cin (x ! 4) * rin (uk ! 4) * rin (sc_dir0 s) * rin (sc_dir2 s)
     + rin 2 * cin (x ! 6) * rin (uk ! 6) * rin (sc_dir1 s) * rin (sc_dir2 s)"

text \<open>\<^verbatim>\<open>_execute_forward_3D\<close> of \<^verbatim>\<open>Diffdir.py\<close> before line 117: \<open>S\<close> times the phase.\<close>

definition Diffdir_forward_c64 :: "real list \<Rightarrow> scan \<Rightarrow> complex \<Rightarrow> complex list \<Rightarrow> c64" where
  "Diffdir_forward_c64 uk s ph x =
     cin (x ! 0) * rin (uk ! 0) * cexp64 (- Diffdir_ADC_c64 uk s x * rin (sc_b s)) * cin ph"

text \<open>\<^verbatim>\<open>_execute_gradient_3D\<close> of \<^verbatim>\<open>Diffdir.py\<close> before line 154.\<close>

definition Diffdir_grad_c64 ::
  "real list \<Rightarrow> scan \<Rightarrow> complex \<Rightarrow> complex list \<Rightarrow> c64 list" where
  "Diffdir_grad_c64 uk s ph x =
    (let grad_M0 = rin (uk ! 0) * cexp64 (- Diffdir_ADC_c64 uk s x * rin (sc_b s)) * cin ph;
         grad_ADC_x = cin (x ! 0) * grad_M0 *
           (- rin (uk ! 1) * sq (rin (sc_dir0 s)) * rin (sc_b s));
         grad_ADC_xy = cin (x ! 0) * grad_M0 *
           (- rin 2 * rin (uk ! 2) * rin (sc_dir0 s) * rin (sc_dir1 s) * rin (sc_b s));
         grad_ADC_y = cin (x ! 0) * grad_M0 *
           (- rin (uk ! 3) * sq (rin (sc_dir1 s)) * rin (sc_b s));
         grad_ADC_xz = cin (x ! 0) * grad_M0 *
           (- rin 2 * rin (uk ! 4) * rin (sc_dir0 s) * rin (sc_dir2 s) * rin (sc_b s));
         grad_ADC_z = cin (x ! 0) * grad_M0 *
           (- rin (uk ! 5) * sq (rin (sc_dir2 s)) * rin (sc_b s));
         grad_ADC_yz = cin (x ! 0) * grad_M0 *
           (- rin 2 * rin (uk ! 6) * rin (sc_dir1 s) * rin (sc_dir2 s) * rin (sc_b s))
     in [grad_M0, grad_ADC_x, grad_ADC_xy, grad_ADC_y, grad_ADC_xz, grad_ADC_z, grad_ADC_yz])"

text \<open>\<^verbatim>\<open>DiffdirLL.py\<close>, lines 143 to 164 and 169 to 231.\<close>

definition DiffdirLL_ADC_c64 :: "real list \<Rightarrow> scan \<Rightarrow> complex list \<Rightarrow> c64" where
  "DiffdirLL_ADC_c64 uk s x =
     sq (cin (x ! 1)) * sq (rin (uk ! 1)) * sq (rin (sc_dir0 s))
     + (sq (cin (x ! 2)) * sq (rin (uk ! 2)) + sq (cin (x ! 3)) * sq (rin (uk ! 3)))
       * sq (rin (sc_dir1 s))
     + (sq (cin (x ! 4)) * sq (rin (uk ! 4)) + sq (cin (x ! 5)) * sq (rin (uk ! 5))
        + sq (cin (x ! 6)) * sq (rin (uk ! 6)))
       * sq (rin (sc_dir2 s))
     + rin 2 * (cin (x ! 2) * rin (uk ! 2) * cin (x ! 1) * rin (uk ! 1))
       * rin (sc_dir0 s) * rin (sc_dir1 s)
     + rin 2 * (cin (x ! 4) * rin (uk ! 4) * cin (x ! 1) * rin (uk ! 1))
       * rin (sc_dir0 s) * rin (sc_dir2 s)
     + rin 2 * (cin (x ! 2) * rin (uk ! 2) * cin (x ! 4) * rin (uk ! 4)
                + cin (x ! 6) * rin (uk ! 6) * cin (x ! 3) * rin (uk ! 3))
       * rin (sc_dir1 s) * rin (sc_dir2 s)"

definition DiffdirLL_forward_c64 ::
  "real list \<Rightarrow> scan \<Rightarrow> complex \<Rightarrow> complex list \<Rightarrow> c64" where
  "DiffdirLL_forward_c64 uk s ph x =
     cin (x ! 0) * rin (uk ! 0) * cexp64 (- DiffdirLL_ADC_c64 uk s x * rin (sc_b s)) * cin ph"

definition DiffdirLL_grad_c64 ::
  "real list \<Rightarrow> scan \<Rightarrow> complex \<Rightarrow> complex list \<Rightarrow> c64 list" where
  "DiffdirLL_grad_c64 uk s ph x =
    (let grad_M0 = rin (uk ! 0) * cexp64 (- DiffdirLL_ADC_c64 uk s x * rin (sc_b s)) * cin ph;
         grad_ADC_x = - cin (x ! 0) * rin (sc_b s) * grad_M0 *
           (rin 2 * cin (x ! 1) * sq (rin (uk ! 1)) * sq (rin (sc_dir0 s))
            + rin 2 * rin (uk ! 1) * cin (x ! 2) * rin (uk ! 2) * rin (sc_dir0 s) * rin (sc_dir1 s)
            + rin 2 * rin (uk ! 1) * cin (x ! 4) * rin (uk ! 4) * rin (sc_dir0 s) * rin (sc_dir2 s));
         grad_ADC_xy = - cin (x ! 0) * rin (sc_b s) * grad_M0 *
           (rin 2 * cin (x ! 1) * rin (uk ! 1) * rin (uk ! 2) * rin (sc_dir0 s) * rin (sc_dir1 s)
            + rin 2 * cin (x ! 2) * sq (rin (uk ! 2)) * sq (rin (sc_dir1 s))
            + rin 2 * rin (uk ! 2) * cin (x ! 4) * rin (uk ! 4) * rin (sc_dir1 s) * rin (sc_dir2 s));
         grad_ADC_y = - cin (x ! 0) * rin (sc_b s) * grad_M0 *
           (rin 2 * cin (x ! 3) * sq (rin (uk ! 3)) * sq (rin (sc_dir1 s))
            + rin 2 * rin (uk ! 3) * cin (x ! 6) * rin (uk ! 6) * rin (sc_dir1 s) * rin (sc_dir2 s));
         grad_ADC_xz = - cin (x ! 0) * rin (sc_b s) * grad_M0 *
           (rin 2 * cin (x ! 1) * rin (uk ! 1) * rin (uk ! 4) * rin (sc_dir0 s) * rin (sc_dir2 s)
            + rin 2 * cin (x ! 2) * rin (uk ! 2) * rin (uk ! 4) * rin (sc_dir1 s) * rin (sc_dir2 s)
            + rin 2 * cin (x ! 4) * sq (rin (uk ! 4)) * sq (rin (sc_dir2 s)));
         grad_ADC_z = - rin 2 * cin (x ! 5) * sq (rin (uk ! 5)) * cin (x ! 0) * rin (sc_b s)
                        * sq (rin (sc_dir2 s)) * grad_M0;
         grad_ADC_yz = - cin (x ! 0) * rin (sc_b s) * grad_M0 *
           (rin 2 * cin (x ! 3) * rin (uk ! 3) * rin (uk ! 6) * rin (sc_dir1 s) * rin (sc_dir2 s)
            + rin 2 * cin (x ! 6) * sq (rin (uk ! 6)) * sq (rin (sc_dir2 s)))
     in [grad_M0, grad_ADC_x, grad_ADC_xy, grad_ADC_y, grad_ADC_xz, grad_ADC_z, grad_ADC_yz])"

text \<open>
  The conversion of a number to \<^verbatim>\<open>complex64\<close>: a part beyond the largest single
  precision number becomes an infinity.
\<close>

definition astype_complex64 :: "complex \<Rightarrow> cval" where
  "astype_complex64 z =
    (if \<bar>Re z\<bar> \<le> float32_max \<and> \<bar>Im z\<bar> \<le> float32_max then CFin z else CNonFinite)"

text \<open>\<^verbatim>\<open>S[~np.isfinite(S)] = 0\<close>, for one entry.\<close>

fun zero_nonfinite :: "cval \<Rightarrow> cval" where
  "zero_nonfinite (CFin z) = CFin z"
| "zero_nonfinite CNonFinite = CFin 0"

text \<open>
  The arrays: \<open>x\<close> has one row per unknown and one column per voxel, \<open>phase\<close> one
  row per scan. A row index out of range raises; rows of different lengths are no array.
\<close>

definition is_array :: "nat \<Rightarrow> 'a list list \<Rightarrow> bool" where
  "is_array V a \<longleftrightarrow> list_all (\<lambda>row. length row = V) a"

definition voxel :: "complex list list \<Rightarrow> nat \<Rightarrow> complex list" where
  "voxel x v = map (\<lambda>u. x ! u ! v) [0 ..< 7]"

text \<open>
  One entry of the array that the forward evaluation returns, and one entry of the
  Jacobian: the computed number, zeroed where it is not finite. \<open>fwd\<close> and \<open>grad\<close>
  are the computations of one of the two models.
\<close>

definition forward_entry ::
  "(real list \<Rightarrow> scan \<Rightarrow> complex \<Rightarrow> complex list \<Rightarrow> c64) \<Rightarrow> real list \<Rightarrow> scan \<Rightarrow> complex
    \<Rightarrow> complex list \<Rightarrow> cval" where
  "forward_entry fwd uk s ph x = zero_nonfinite (cval_of (fwd uk s ph x))"

definition gradient_entry ::
  "(real list \<Rightarrow> scan \<Rightarrow> complex \<Rightarrow> complex list \<Rightarrow> c64 list) \<Rightarrow> real list \<Rightarrow> scan
    \<Rightarrow> complex \<Rightarrow> complex list \<Rightarrow> nat \<Rightarrow> cval" where
  "gradient_entry grad uk s ph x u = zero_nonfinite (cval_of (grad uk s ph x ! u))"

definition model_forward ::
  "(real list \<Rightarrow> scan \<Rightarrow> complex \<Rightarrow> complex list \<Rightarrow> c64) \<Rightarrow> real list \<Rightarrow> scan list
    \<Rightarrow> complex list list \<Rightarrow> complex list list \<Rightarrow> error + cval list list" where
  "model_forward fwd uk scans phase x =
    (if length x < 7 \<or> length uk < 7 then Inl IndexError
     else if \<not> is_array (length (x ! 0)) x \<or> \<not> is_array (length (x ! 0)) phase
             \<or> length phase \<noteq> length scans then Inl ValueError
     else Inr (map (\<lambda>(s, ph_row).
                 map (\<lambda>v. forward_entry fwd uk s (ph_row ! v) (voxel x v))
                   [0 ..< length (x ! 0)])
               (zip scans phase)))"

definition model_gradient ::
  "(real list \<Rightarrow> scan \<Rightarrow> complex \<Rightarrow> complex list \<Rightarrow> c64 list) \<Rightarrow> real list \<Rightarrow> scan list
    \<Rightarrow> complex list list \<Rightarrow> complex list list \<Rightarrow> error + cval list list list" where
  "model_gradient grad uk scans phase x =
    (if length x < 7 \<or> length uk < 7 then Inl IndexError
     else if \<not> is_array (length (x ! 0)) x \<or> \<not> is_array (length (x ! 0)) phase
             \<or> length phase \<noteq> length scans then Inl ValueError
     else Inr (map (\<lambda>u.
                 map (\<lambda>(s, ph_row).
                   map (\<lambda>v. gradient_entry grad uk s (ph_row ! v) (voxel x v) u)
                     [0 ..< length (x ! 0)])
                 (zip scans phase))
               [0 ..< 7]))"

text \<open>\<^verbatim>\<open>_execute_forward_3D\<close> and \<^verbatim>\<open>_execute_gradient_3D\<close> of the two models.\<close>

definition Diffdir_execute_forward_3D ::
  "real list \<Rightarrow> scan list \<Rightarrow> complex list list \<Rightarrow> complex list list \<Rightarrow> error + cval list list" where
  "Diffdir_execute_forward_3D = model_forward Diffdir_forward_c64"

definition Diffdir_execute_gradient_3D ::
  "real list \<Rightarrow> scan list \<Rightarrow> complex list list \<Rightarrow> complex list list
    \<Rightarrow> error + cval list list list" where
  "Diffdir_execute_gradient_3D = model_gradient Diffdir_grad_c64"

definition DiffdirLL_execute_forward_3D ::
  "real list \<Rightarrow> scan list \<Rightarrow> complex list list \<Rightarrow> complex list list \<Rightarrow> error + cval list list" where
  "DiffdirLL_execute_forward_3D = model_forward DiffdirLL_forward_c64"

definition DiffdirLL_execute_gradient_3D ::
  "real list \<Rightarrow> scan list \<Rightarrow> complex list list \<Rightarrow> complex list list
    \<Rightarrow> error + cval list list list" where
  "DiffdirLL_execute_gradient_3D = model_gradient DiffdirLL_grad_c64"

subsection \<open>The inversion-recovery Look-Locker model\<close>

text \<open>
  Arithmetic on array entries that may be non-finite. A non-finite operand gives a
  non-finite sum, difference and product (also \<open>inf * 0\<close>, which is NaN), and a
  quotient by zero is an infinity or NaN. A quotient by a non-finite number is taken as
  non-finite: in \<^verbatim>\<open>execute_forward_3D\<close> a divisor is built from powers of finite
  numbers, so it is not finite only when it is NaN.
\<close>

instantiation cval :: "{plus, minus, uminus, times, inverse}"
begin

definition plus_cval :: "cval \<Rightarrow> cval \<Rightarrow> cval" where
  "plus_cval a b = (case (a, b) of (CFin p, CFin q) \<Rightarrow> CFin (p + q) | _ \<Rightarrow> CNonFinite)"

definition minus_cval :: "cval \<Rightarrow> cval \<Rightarrow> cval" where
  "minus_cval a b = (case (a, b) of (CFin p, CFin q) \<Rightarrow> CFin (p - q) | _ \<Rightarrow> CNonFinite)"

definition uminus_cval :: "cval \<Rightarrow> cval" where
  "uminus_cval a = (case a of CFin p \<Rightarrow> CFin (- p) | CNonFinite \<Rightarrow> CNonFinite)"

definition times_cval :: "cval \<Rightarrow> cval \<Rightarrow> cval" where
  "times_cval a b = (case (a, b) of (CFin p, CFin q) \<Rightarrow> CFin (p * q) | _ \<Rightarrow> CNonFinite)"

definition divide_cval :: "cval \<Rightarrow> cval \<Rightarrow> cval" where
  "divide_cval a b =
    (case (a, b) of
       (CFin p, CFin q) \<Rightarrow> if q = 0 then CNonFinite else CFin (p / q)
     | _ \<Rightarrow> CNonFinite)"

definition inverse_cval :: "cval \<Rightarrow> cval" where
  "inverse_cval a =
    (case a of CFin q \<Rightarrow> if q = 0 then CNonFinite else CFin (1 / q) | CNonFinite \<Rightarrow> CNonFinite)"

instance ..

end

text \<open>
  The power \<open>a ** p\<close> of a complex number for a real exponent, as numpy and numexpr
  compute it: \<open>1\<close> for the exponent zero, for the base zero \<open>0\<close> when the exponent is
  positive and NaN when it is negative, the principal value otherwise.
\<close>

definition cpow :: "cval \<Rightarrow> real \<Rightarrow> cval" where
  "cpow a p =
    (if p = 0 then CFin 1
     else case a of
       CNonFinite \<Rightarrow> CNonFinite
     | CFin z \<Rightarrow>
        if z = 0 then (if 0 < p then CFin 0 else CNonFinite)
        else CFin (exp (complex_of_real p * Complex (ln (cmod z)) (Arg z))))"

text \<open>An assignment into, or a conversion to, a \<^verbatim>\<open>complex64\<close> array.\<close>

fun to_complex64 :: "cval \<Rightarrow> cval" where
  "to_complex64 (CFin z) = astype_complex64 z"
| "to_complex64 CNonFinite = CNonFinite"

text \<open>\<^verbatim>\<open>np.mean\<close> along an axis; the mean of no entries is NaN.\<close>

definition cmean :: "cval list \<Rightarrow> cval" where
  "cmean zs =
    (if zs = [] then CNonFinite
     else foldl (+) (CFin 0) zs / CFin (of_nat (length zs)))"

text \<open>
  The attributes of \<^verbatim>\<open>IRLL_Model\<close> that \<^verbatim>\<open>execute_forward_3D\<close> reads;
  \<^verbatim>\<open>self.scale\<close> is the constant 100.
\<close>

record IRLL_par =
  irll_TR :: real
  irll_tau :: real
  irll_td :: real
  irll_Nproj_measured :: int
  irll_NLL :: nat
  irll_Nproj :: nat
  irll_T1_sc :: real
  irll_M0_sc :: real

definition IRLL_scale :: real where
  "IRLL_scale = 100"

text \<open>
  \<^verbatim>\<open>execute_forward_3D\<close> at one voxel: \<open>x0\<close> and \<open>x1\<close> are the two unknowns,
  \<open>sin_phi\<close> and \<open>cos_phi\<close> the entries of \<^verbatim>\<open>self.sin_phi\<close> and
  \<^verbatim>\<open>self.cos_phi\<close>. The result lists the entries of the returned array for
  \<open>i = 0, ..., NLL - 1\<close>. The function returns the mean as it is: it has no filter for
  non-finite entries.
\<close>

definition IRLL_forward_voxel ::
  "IRLL_par \<Rightarrow> complex \<Rightarrow> complex \<Rightarrow> complex \<Rightarrow> complex \<Rightarrow> cval list" where
  "IRLL_forward_voxel P sin_phi0 cos_phi0 x0 x1 =
    (let sin_phi = CFin sin_phi0;
         cos_phi = CFin cos_phi0;
         N = irll_Nproj_measured P;
         Efit = CFin (x1 * complex_of_real (irll_T1_sc P));
         Etau = cpow Efit (irll_tau P / IRLL_scale);
         Etr = cpow Efit (irll_TR P / IRLL_scale);
         Etd = cpow Efit (irll_td P / IRLL_scale);
         M0 = CFin x0;
         M0_sc = CFin (complex_of_real (irll_M0_sc P));
         F = (CFin 1 - Etau) / (CFin 1 - Etau * cos_phi);
         Q = (- Etr * Etd * F * (- cpow (Etau * cos_phi) (real_of_int (N - 1)) + CFin 1) * cos_phi
              + Etr * Etd - CFin 2 * Etd + CFin 1)
             / (Etr * Etd * cpow (Etau * cos_phi) (real_of_int (N - 1)) * cos_phi + CFin 1);
         Q_F = Q - F
     in map (\<lambda>i.
          to_complex64 (cmean (map (\<lambda>j.
            to_complex64
              (M0 * M0_sc * (cpow (Etau * cos_phi) (real (i * irll_Nproj P + j + 1) - 1) * Q_F + F)
                * sin_phi))
            [0 ..< irll_Nproj P])))
          [0 ..< irll_NLL P])"

text \<open>
  The array: \<open>x\<close> has the two unknowns as rows and one column per voxel, the result
  one row per \<open>i\<close>.
\<close>

definition IRLL_execute_forward_3D ::
  "IRLL_par \<Rightarrow> complex list \<Rightarrow> complex list \<Rightarrow> complex list list \<Rightarrow> error + cval list list" where
  "IRLL_execute_forward_3D P sin_phi cos_phi x =
    (if length x < 2 then Inl IndexError
     else if \<not> is_array (length (x ! 0)) x \<or> length sin_phi \<noteq> length (x ! 0)
             \<or> length cos_phi \<noteq> length (x ! 0) then Inl ValueError
     else Inr (map (\<lambda>i.
                 map (\<lambda>v. IRLL_forward_voxel P (sin_phi ! v) (cos_phi ! v) (x ! 0 ! v) (x ! 1 ! v) ! i)
                   [0 ..< length (x ! 0)])
               [0 ..< irll_NLL P]))"

subsection \<open>The object between two inner solves\<close>

text \<open>
  The states of the object in which \<^verbatim>\<open>irgn_solve_3D\<close> can be called during
  \<^verbatim>\<open>_execute_3D(TV)\<close>: the one that \<^verbatim>\<open>_setup_reg_tmp_arrays(TV)\<close> leaves, changed
  by \<^verbatim>\<open>_update_reg_par\<close> and by the arrays that earlier solves of the TGV and of the TV
  solver have written back. For another \<open>TV\<close> no solver returns, and nothing is written
  back.
\<close>

inductive gn_reachable :: "int \<Rightarrow> reco \<Rightarrow> bool" for TV :: int where
  gr_setup: "gn_reachable TV (setup_reg_tmp_arrays TV st)"
| gr_reg: "gn_reachable TV st \<Longrightarrow> gn_reachable TV (update_reg_par result ign st)"
| gr_solve: "gn_reachable TV st \<Longrightarrow> TV = 0 \<or> TV = 1 \<Longrightarrow>
     gn_reachable TV (store_duals TV out st)"

text \<open>
  The entry state as the specification words it: \<open>xk\<close> is the incoming \<open>x\<close>, the
  variables \<open>r\<close>, \<open>z1\<close>, \<open>z2\<close> and \<open>v\<close> are zero, and \<open>Axold\<close>,
  \<open>gradx_xold\<close> and \<open>symgrad_v_vold\<close> hold the operators applied to the initial
  \<open>x\<close> and \<open>v\<close>.
\<close>

definition is_zeros :: "complex list option \<Rightarrow> bool" where
  "is_zeros b = (case b of None \<Rightarrow> False | Some a \<Rightarrow> a = zeros_like a)"

definition spec_entry_state :: "ops \<Rightarrow> complex list \<Rightarrow> pd_state \<Rightarrow> bool" where
  "spec_entry_state K x s \<longleftrightarrow>
     pd_x s = x \<and> pd_xk s = x \<and>
     is_zeros (pd_r s) \<and> is_zeros (pd_z1 s) \<and> is_zeros (pd_z2 s) \<and> is_zeros (pd_v s) \<and>
     pd_Axold s = Some (op_fwd K x) \<and>
     pd_gradx_xold s = Some (grad_op_fwd K x) \<and>
     pd_symgrad_v_vold s = map_option (symgrad_op_fwd K) (pd_v s)"

subsection \<open>Concrete inputs\<close>

text \<open>A configuration, an object with one unknown and one voxel, and operators.\<close>

definition irgn_par0 :: irgn_par where
  "irgn_par0 =
    \<lparr>start_iters = 10, max_iters = 100, max_gn_it = 2, tol = 1 / 1000, stag = 1,
     lambd = 2, gamma = 1, gamma_min = 1 / 10, gamma_dec = 1 / 2,
     omega = 1, omega_min = 1 / 10, omega_dec = 1 / 2,
     delta = 1, delta_max = 10, delta_inc = 2, display_iterations = False\<rparr>"

definition reco0 :: reco where
  "reco0 =
    \<lparr>irgn = irgn_par0, SNR_est = 3, unknowns = 1, unknowns_TGV = 1,
     NSlice = 1, dimY = 1, dimX = 1, data = [1],
     self_delta = 0, self_delta_max = 0, self_gamma = 0, self_omega = 0,
     self_tau = 0, self_beta_line = 0, self_theta_line = 0,
     self_r = [], self_z1 = [], self_v = None, self_z2 = None\<rparr>"

definition ops0 :: ops where
  "ops0 =
    \<lparr>op_fwd = (\<lambda>x. x), op_adjKyk1 = (\<lambda>r z1. r),
     grad_op_fwd = (\<lambda>x. x), symgrad_op_fwd = (\<lambda>v. v),
     update_Kyk2 = (\<lambda>z2 z1. z1)\<rparr>"

text \<open>What a solve has written back.\<close>

definition out0 :: solver_out where
  "out0 = \<lparr>out_x = [[1]], out_v = [0, 0, 0, 0], out_r = [0],
           out_z1 = [1, 0, 0, 0], out_z2 = [0, 0, 0, 0, 0, 0, 0, 0]\<rparr>"

text \<open>
  Numerical components that leave the estimate as it is and report the objective value
  1, and a state of \<^verbatim>\<open>_execute_3D\<close> around the object \<open>reco0\<close>.
\<close>

definition numerics0 :: "unit numerics" where
  "numerics0 =
    \<lparr>model_guess = (\<lambda>h. [[1]]),
     linearize = (\<lambda>ign result h. (result, h)),
     calc_residual = (\<lambda>st TV GN_it x h. 1),
     inner_solve = (\<lambda>st fval_init TV iters x h. (out0, h)),
     savetofile = (\<lambda>myit result fv TV h. h)\<rparr>"

definition gn0 :: "unit gn_state" where
  "gn0 =
    \<lparr>gn_reco = reco0, gn_hidden = (), gn_result = [], gn_iters = 0, gn_ign = None,
     gn_fval = 0, gn_fval_old = 0, gn_fval_init = 0, gn_res = [], gn_log = []\<rparr>"

subsection \<open>What the Gauss-Newton loop leaves alone\<close>

text \<open>
  Two states of the object agree on the values that \<^verbatim>\<open>execute\<close> stores and on the
  entries of \<^verbatim>\<open>irgn_par\<close> that only \<^verbatim>\<open>execute\<close> writes or nothing writes.
\<close>

definition same_config :: "reco \<Rightarrow> reco \<Rightarrow> bool" where
  "same_config a b \<longleftrightarrow>
     self_delta b = self_delta a \<and> self_delta_max b = self_delta_max a \<and>
     self_gamma b = self_gamma a \<and> self_omega b = self_omega a \<and>
     SNR_est b = SNR_est a \<and>
     lambd (irgn b) = lambd (irgn a) \<and> delta_inc (irgn b) = delta_inc (irgn a) \<and>
     gamma_dec (irgn b) = gamma_dec (irgn a) \<and> gamma_min (irgn b) = gamma_min (irgn a) \<and>
     omega_dec (irgn b) = omega_dec (irgn a) \<and> omega_min (irgn b) = omega_min (irgn a)"

text \<open>
  Dual-update kernels that take the ascent step \<open>z + sigma * g\<close>, operators whose
  adjoint multiplies by \<open>c\<close>, and the buffers of a line search over one entry each.
\<close>

definition kernels0 :: kernels where
  "kernels0 =
    \<lparr>update_z1 = (\<lambda>z gx gx_old vx vx_old sigma theta alpha omega.
        map2 (\<lambda>a b. a + complex_of_real sigma * b) z gx),
     update_z1_tv = (\<lambda>z gx gx_old sigma theta alpha omega.
        map2 (\<lambda>a b. a + complex_of_real sigma * b) z gx),
     update_z2 = (\<lambda>z gx gx_old sigma theta beta.
        map2 (\<lambda>a b. a + complex_of_real sigma * b) z gx),
     update_r = (\<lambda>r A A_old res sigma theta l.
        map2 (\<lambda>a b. a + complex_of_real sigma * b) r A)\<rparr>"

definition ops_scaled :: "real \<Rightarrow> ops" where
  "ops_scaled c =
    \<lparr>op_fwd = (\<lambda>x. x),
     op_adjKyk1 = (\<lambda>r z1. map (\<lambda>z. complex_of_real c * z) z1),
     grad_op_fwd = (\<lambda>x. x),
     symgrad_op_fwd = (\<lambda>v. v),
     update_Kyk2 = (\<lambda>z2 z1. z2)\<rparr>"

definition env0 :: ls_env where
  "env0 =
    \<lparr>ls_tau = 1, ls_beta_line = 1, ls_alpha = 1, ls_beta = 2, ls_omega = 1, ls_lambd = 1,
     ls_r = [0], ls_z1 = [0], ls_z2 = [0],
     ls_gradx = [1], ls_gradx_xold = [1], ls_v_new = [0], ls_v = [0],
     ls_symgrad_v = [0], ls_symgrad_v_vold = [0],
     ls_Ax = [0], ls_Axold = [0], ls_res = [0],
     ls_Kyk1 = [0], ls_Kyk2 = [0]\<rparr>"

subsection \<open>The tensor of the Cholesky-parametrised model\<close>

text \<open>
  The symmetric matrix assembled from the maps that \<^verbatim>\<open>rescale\<close> returns (in the
  order \<open>M0\<close>, \<open>ADC_x\<close>, \<open>ADC_xy\<close>, \<open>ADC_y\<close>, \<open>ADC_xz\<close>, \<open>ADC_z\<close>,
  \<open>ADC_yz\<close>), and the lower triangular matrix of the scaled unknowns.
\<close>

definition tensor_of_maps :: "complex list \<Rightarrow> real list list" where
  "tensor_of_maps m =
    [[Re (m ! 1), Re (m ! 2), Re (m ! 4)],
     [Re (m ! 2), Re (m ! 3), Re (m ! 6)],
     [Re (m ! 4), Re (m ! 6), Re (m ! 5)]]"

definition cholesky_factor :: "real list \<Rightarrow> complex list \<Rightarrow> real list list" where
  "cholesky_factor uk x =
    [[Re (x ! 1) * uk ! 1, 0, 0],
     [Re (x ! 2) * uk ! 2, Re (x ! 3) * uk ! 3, 0],
     [Re (x ! 4) * uk ! 4, Re (x ! 6) * uk ! 6, Re (x ! 5) * uk ! 5]]"

definition dot :: "real list \<Rightarrow> real list \<Rightarrow> real" where
  "dot a b = (\<Sum>(p, q)\<leftarrow>zip a b. p * q)"

definition mat_mul :: "real list list \<Rightarrow> real list list \<Rightarrow> real list list" where
  "mat_mul A B = map (\<lambda>row. map (\<lambda>col. dot row col) (transpose B)) A"

definition quad_form :: "real list list \<Rightarrow> real list \<Rightarrow> real" where
  "quad_form A w = dot w (map (\<lambda>row. dot row w) A)"

text \<open>The initial guess of the model at a voxel with \<open>M0 = 1\<close>, and unit scales.\<close>

definition x_guess :: "complex list" where
  "x_guess = [1, 1, 0, 1, 0, 1, 0]"

definition uk_ones :: "real list" where
  "uk_ones = [1, 1, 1, 1, 1, 1, 1]"

subsection \<open>Finite entries\<close>

fun is_finite :: "cval \<Rightarrow> bool" where
  "is_finite (CFin z) = True"
| "is_finite CNonFinite = False"

text \<open>
  A Look-Locker acquisition with the timings of the specification's scenario E2, two
  images of two projections each, and unit scales.
\<close>

definition irll_par0 :: IRLL_par where
  "irll_par0 =
    \<lparr>irll_TR = 5, irll_tau = 30, irll_td = 200, irll_Nproj_measured = 13,
     irll_NLL = 2, irll_Nproj = 2, irll_T1_sc = 1, irll_M0_sc = 1\<rparr>"

text \<open>One diffusion weighting along the first axis.\<close>

definition scan0 :: scan where
  "scan0 = \<lparr>sc_b = 1, sc_dir0 = 1, sc_dir1 = 0, sc_dir2 = 0\<rparr>"

text \<open>
  An estimate over one voxel whose first unknown is large, the others being zero, and
  scales for which the product \<open>x[0] * uk_scale[0]\<close> is beyond the single precision
  range.
\<close>

definition x_large :: "complex list list" where
  "x_large = [[2 ^ 127], [0], [0], [0], [0], [0], [0]]"

definition uk_two :: "real list" where
  "uk_two = [2, 1, 1, 1, 1, 1, 1]"

subsection \<open>Inputs of the balancing\<close>

text \<open>
  One unknown over one voxel and one scan, with a Jacobian slice that is zero, as it is
  for an off-diagonal tensor entry when every diffusion direction lies along one axis.
\<close>

definition constraint0 :: constraint where
  "constraint0 = \<lparr>c_min = Fin 0, c_max = Fin 10, c_real = False\<rparr>"

definition bal_zero_slice :: "(cval, complex, xreal) bal_state" where
  "bal_zero_slice =
    \<lparr>b_result = [[CFin 1]], b_grad_x = [[0]], b_uk_scale = [Fin 1],
     b_constraints = [constraint0]\<rparr>"

text \<open>The same with the Jacobian slice \<open>[2]\<close>.\<close>

definition bal_unit :: "(cval, complex, xreal) bal_state" where
  "bal_unit =
    \<lparr>b_result = [[CFin 1]], b_grad_x = [[2]], b_uk_scale = [Fin 1],
     b_constraints = [constraint0]\<rparr>"

text \<open>The same with the Jacobian slice \<open>[2 ^ 64]\<close>, whose square overflows.\<close>

definition bal_large :: "(cval, complex, xreal) bal_state" where
  "bal_large =
    \<lparr>b_result = [[CFin 1]], b_grad_x = [[2 ^ 64]], b_uk_scale = [Fin 1],
     b_constraints = [constraint0]\<rparr>"

subsection \<open>First-order agreement\<close>

text \<open>
  \<open>first_order f x g\<close>: for perturbations \<open>d\<close> of the unknowns at a voxel,
  \<open>f (x + d) = f x + \<Sum>\<^sub>u g[u] * d[u] + o(\<parallel>d\<parallel>)\<close>, the norm being the sum of the
  moduli of the entries.
\<close>

definition pnorm :: "complex list \<Rightarrow> real" where
  "pnorm d = (\<Sum>e\<leftarrow>d. cmod e)"

definition first_order :: "(complex list \<Rightarrow> complex) \<Rightarrow> complex list \<Rightarrow> complex list \<Rightarrow> bool" where
  "first_order f x g \<longleftrightarrow>
    (\<forall>eps>0. \<exists>del>0. \<forall>d. length d = length x \<longrightarrow> pnorm d < del \<longrightarrow>
       cmod (f (map2 (+) x d) - f x - (\<Sum>(gu, e)\<leftarrow>zip g d. gu * e)) \<le> eps * pnorm d)"

text \<open>
  Inputs with one voxel and one scan along the first axis: an array with \<open>M0 = 1\<close> and
  a zero tensor, and an array with a large \<open>M0\<close>, at a scan with \<open>b = 64\<close>.
\<close>

definition x_unit :: "complex list list" where
  "x_unit = [[1], [0], [0], [0], [0], [0], [0]]"

definition x_steep :: "complex list list" where
  "x_steep = [[2 ^ 122], [0], [0], [0], [0], [0], [0]]"

definition scan_b :: scan where
  "scan_b = \<lparr>sc_b = 64, sc_dir0 = 1, sc_dir1 = 0, sc_dir2 = 0\<rparr>"

text \<open>A scan with \<open>b = 1\<close> along the second axis.\<close>

definition scan_y :: scan where
  "scan_y = \<lparr>sc_b = 1, sc_dir0 = 0, sc_dir1 = 1, sc_dir2 = 0\<rparr>"

section \<open>Properties\<close>

subsection \<open>The object between two inner solves\<close>

lemma gn_reachable_scalars:
  "gn_reachable TV st \<Longrightarrow>
     self_theta_line st = 1 \<and>
     self_tau st = (if TV = 1 then 1 / sqrt 8 else 1 / sqrt (0.5 * (18 + sqrt 33))) \<and>
     self_beta_line st = (if TV = 0 \<or> TV = 1 then 400 else 1)"
  by (induction rule: gn_reachable.induct)
     (auto simp: setup_reg_tmp_arrays_def update_reg_par_def store_duals_def Let_def)

lemma gn_reachable_arrays:
  "gn_reachable TV st \<Longrightarrow> TV \<noteq> 1 \<Longrightarrow> self_v st \<noteq> None \<and> self_z2 st \<noteq> None"
  by (induction rule: gn_reachable.induct)
     (auto simp: setup_reg_tmp_arrays_def update_reg_par_def store_duals_def Let_def)

subsection \<open>Initial step sizes\<close>

text \<open>
  Claim C6. \<^verbatim>\<open>_setup_reg_tmp_arrays(TV)\<close> initialises the step size to
  \<open>tau = 1 / sqrt L\<close> with \<open>L = (18 + sqrt 33) / 2\<close> for the TGV (\<open>TV = 0\<close>) and
  the explicit-adjoint variant (any other \<open>TV\<close> but 1) and with \<open>L = 8\<close> for the TV
  variant (\<open>TV = 1\<close>), \<open>theta_line\<close> to 1, and \<open>beta_line\<close> to 400 for the TGV
  variant and to 1 for the explicit-adjoint variant, and nothing changes these values
  while \<^verbatim>\<open>_execute_3D(TV)\<close> runs. The TGV and the TV solver are entered with these
  values. The solver of the explicit-adjoint variant is never entered: for its values
  of \<open>TV\<close> the dispatch raises, or enters no solver.
\<close>

theorem inner_solver_initial_step_sizes:
  assumes "gn_reachable TV st"
  shows "self_theta_line st = 1 \<and>
         self_tau st = (if TV = 1 then 1 / sqrt 8 else 1 / sqrt ((18 + sqrt 33) / 2)) \<and>
         (TV = 0 \<longrightarrow> self_beta_line st = 400) \<and>
         (TV \<noteq> 0 \<and> TV \<noteq> 1 \<longrightarrow> self_beta_line st = 1) \<and>
         (TV = 0 \<or> TV = 1 \<longrightarrow>
            (\<exists>s. solver_entry imagespace TV K st x res = Inr (Some s) \<and>
                 pd_theta_line s = 1 \<and>
                 pd_tau s = (if TV = 1 then 1 / sqrt 8 else 1 / sqrt ((18 + sqrt 33) / 2)) \<and>
                 (TV = 0 \<longrightarrow> pd_beta_line s = 400))) \<and>
         (TV \<noteq> 0 \<and> TV \<noteq> 1 \<longrightarrow>
            solver_entry imagespace TV K st x res =
              (if imagespace then Inr None else Inl AttributeError))"
proof -
  note sc = gn_reachable_scalars [OF assms]
  have a: "self_theta_line st = 1"
    "self_tau st = (if TV = 1 then 1 / sqrt 8 else 1 / sqrt ((18 + sqrt 33) / 2))"
    "TV = 0 \<longrightarrow> self_beta_line st = 400"
    "TV \<noteq> 0 \<and> TV \<noteq> 1 \<longrightarrow> self_beta_line st = 1"
    using sc by simp_all
  have b: "TV = 0 \<or> TV = 1 \<longrightarrow>
            (\<exists>s. solver_entry imagespace TV K st x res = Inr (Some s) \<and>
                 pd_theta_line s = 1 \<and>
                 pd_tau s = (if TV = 1 then 1 / sqrt 8 else 1 / sqrt ((18 + sqrt 33) / 2)) \<and>
                 (TV = 0 \<longrightarrow> pd_beta_line s = 400))"
  proof (cases "TV = 1")
    case True
    with sc show ?thesis
      by (simp add: solver_entry_def tv_solve_3D_entry_def Let_def)
  next
    case False
    with gn_reachable_arrays [OF assms] obtain v z2
      where vz: "self_v st = Some v" "self_z2 st = Some z2" by auto
    with sc False show ?thesis
      by (simp add: solver_entry_def tgv_solve_3D_entry_def Let_def)
  qed
  have c: "TV \<noteq> 0 \<and> TV \<noteq> 1 \<longrightarrow>
            solver_entry imagespace TV K st x res =
              (if imagespace then Inr None else Inl AttributeError)"
    by (simp add: solver_entry_def)
  from a b c show ?thesis by blast
qed

theorem inner_solver_initial_step_sizes_witness:
  "gn_reachable 0 (setup_reg_tmp_arrays 0 reco0) \<and>
   (\<exists>s. solver_entry False 0 ops0 (setup_reg_tmp_arrays 0 reco0) [1] [1] = Inr (Some s) \<and>
         pd_theta_line s = 1 \<and>
         pd_tau s = 1 / sqrt ((18 + sqrt 33) / 2) \<and>
         pd_beta_line s = 400) \<and>
   gn_reachable 2 (setup_reg_tmp_arrays 2 reco0) \<and>
   self_tau (setup_reg_tmp_arrays 2 reco0) = 1 / sqrt ((18 + sqrt 33) / 2) \<and>
   self_theta_line (setup_reg_tmp_arrays 2 reco0) = 1 \<and>
   self_beta_line (setup_reg_tmp_arrays 2 reco0) = 1 \<and>
   solver_entry False 2 ops0 (setup_reg_tmp_arrays 2 reco0) [1] [1] = Inl AttributeError"
  using inner_solver_initial_step_sizes
    [where TV = 0 and st = "setup_reg_tmp_arrays 0 reco0" and imagespace = False
       and K = ops0 and x = "[1]" and res = "[1]"]
    inner_solver_initial_step_sizes
    [where TV = 2 and st = "setup_reg_tmp_arrays 2 reco0" and imagespace = False
       and K = ops0 and x = "[1]" and res = "[1]"]
  by (simp add: gr_setup)

lemma zeros_like_idem: "zeros_like (zeros_like a) = zeros_like a"
  by (simp add: zeros_like_def)

subsection \<open>The entry state of the inner solvers\<close>

text \<open>
  Claim C7 as stated fails for the TV solver: at its entry \<open>gradx_xold\<close> is an
  uninitialised buffer, and there is no \<open>z2\<close> and no \<open>v\<close>.
\<close>

theorem tv_entry_counterexample:
  "gn_reachable 1 (setup_reg_tmp_arrays 1 reco0) \<and>
   (case solver_entry False 1 ops0 (setup_reg_tmp_arrays 1 reco0) [1] [1] of
      Inr (Some s) \<Rightarrow>
        pd_gradx_xold s = None \<and> pd_z2 s = None \<and> pd_v s = None \<and>
        \<not> spec_entry_state ops0 [1] s
    | _ \<Rightarrow> False)"
proof
  show "gn_reachable 1 (setup_reg_tmp_arrays 1 reco0)"
    by (rule gr_setup)
  show "case solver_entry False 1 ops0 (setup_reg_tmp_arrays 1 reco0) [1] [1] of
      Inr (Some s) \<Rightarrow>
        pd_gradx_xold s = None \<and> pd_z2 s = None \<and> pd_v s = None \<and>
        \<not> spec_entry_state ops0 [1] s
    | _ \<Rightarrow> False"
    by (simp add: solver_entry_def tv_solve_3D_entry_def Let_def spec_entry_state_def
        is_zeros_def)
qed

text \<open>
  Claim C7, as amended. Whenever \<^verbatim>\<open>irgn_solve_3D\<close> is called during
  \<^verbatim>\<open>_execute_3D(TV)\<close>: the TGV solver (\<open>TV = 0\<close>) starts in the state the
  specification describes (\<open>xk\<close> equal to the incoming \<open>x\<close>; \<open>r\<close>, \<open>z1\<close>, \<open>z2\<close>,
  \<open>v\<close> zero; \<open>Axold\<close>, \<open>gradx_xold\<close>, \<open>symgrad_v_vold\<close> computed from the initial
  \<open>x\<close> and \<open>v\<close>); the TV solver (\<open>TV = 1\<close>) starts with \<open>xk = x\<close>, \<open>r\<close> and
  \<open>z1\<close> zero and \<open>Axold\<close> computed from \<open>x\<close>, has no \<open>z2\<close>, \<open>v\<close> and
  \<open>symgrad_v_vold\<close>, and computes \<open>gradx_xold\<close> from the current \<open>x\<close> inside each
  iteration, so from the initial \<open>x\<close> in the first; for another \<open>TV\<close> no solver is
  entered.
\<close>

theorem inner_solver_entry_state:
  assumes "gn_reachable TV st"
  shows "(TV = 0 \<longrightarrow>
            (\<exists>s. solver_entry imagespace TV K st x res = Inr (Some s) \<and>
                 spec_entry_state K x s)) \<and>
         (TV = 1 \<longrightarrow>
            (\<exists>s. solver_entry imagespace TV K st x res = Inr (Some s) \<and>
                 pd_x s = x \<and> pd_xk s = x \<and> is_zeros (pd_r s) \<and> is_zeros (pd_z1 s) \<and>
                 pd_z2 s = None \<and> pd_v s = None \<and>
                 pd_Axold s = Some (op_fwd K x) \<and>
                 pd_gradx_xold s = None \<and> pd_symgrad_v_vold s = None \<and>
                 pd_gradx_xold (tv_iteration_buffers K x_new s) = Some (grad_op_fwd K x))) \<and>
         (TV \<noteq> 0 \<and> TV \<noteq> 1 \<longrightarrow>
            solver_entry imagespace TV K st x res =
              (if imagespace then Inr None else Inl AttributeError))"
proof (intro conjI impI)
  assume tv: "TV = 0"
  with gn_reachable_arrays [OF assms] obtain v z2
    where vz: "self_v st = Some v" "self_z2 st = Some z2" by auto
  with tv show "\<exists>s. solver_entry imagespace TV K st x res = Inr (Some s) \<and>
                 spec_entry_state K x s"
    by (simp add: solver_entry_def tgv_solve_3D_entry_def spec_entry_state_def Let_def
        is_zeros_def zeros_like_idem)
next
  assume "TV = 1"
  then show "\<exists>s. solver_entry imagespace TV K st x res = Inr (Some s) \<and>
                 pd_x s = x \<and> pd_xk s = x \<and> is_zeros (pd_r s) \<and> is_zeros (pd_z1 s) \<and>
                 pd_z2 s = None \<and> pd_v s = None \<and>
                 pd_Axold s = Some (op_fwd K x) \<and>
                 pd_gradx_xold s = None \<and> pd_symgrad_v_vold s = None \<and>
                 pd_gradx_xold (tv_iteration_buffers K x_new s) = Some (grad_op_fwd K x)"
    by (simp add: solver_entry_def tv_solve_3D_entry_def Let_def is_zeros_def zeros_like_idem
        tv_iteration_buffers_def)
next
  assume "TV \<noteq> 0 \<and> TV \<noteq> 1"
  then show "solver_entry imagespace TV K st x res =
              (if imagespace then Inr None else Inl AttributeError)"
    by (simp add: solver_entry_def)
qed

theorem inner_solver_entry_state_witness:
  "gn_reachable 0 (setup_reg_tmp_arrays 0 reco0) \<and>
   (\<exists>s. solver_entry False 0 ops0 (setup_reg_tmp_arrays 0 reco0) [1] [1] = Inr (Some s) \<and>
         spec_entry_state ops0 [1] s) \<and>
   gn_reachable 1 (setup_reg_tmp_arrays 1 reco0) \<and>
   (\<exists>s. solver_entry False 1 ops0 (setup_reg_tmp_arrays 1 reco0) [1] [1] = Inr (Some s) \<and>
         pd_xk s = [1] \<and> is_zeros (pd_r s) \<and> is_zeros (pd_z1 s) \<and>
         pd_Axold s = Some (op_fwd ops0 [1]) \<and> pd_gradx_xold s = None) \<and>
   gn_reachable 2 (setup_reg_tmp_arrays 2 reco0) \<and>
   solver_entry False 2 ops0 (setup_reg_tmp_arrays 2 reco0) [1] [1] = Inl AttributeError \<and>
   solver_entry True 2 ops0 (setup_reg_tmp_arrays 2 reco0) [1] [1] = Inr None"
  using inner_solver_entry_state
    [where TV = 0 and st = "setup_reg_tmp_arrays 0 reco0" and imagespace = False
       and K = ops0 and x = "[1]" and res = "[1]"]
    inner_solver_entry_state
    [where TV = 1 and st = "setup_reg_tmp_arrays 1 reco0" and imagespace = False
       and K = ops0 and x = "[1]" and res = "[1]"]
    inner_solver_entry_state
    [where TV = 2 and st = "setup_reg_tmp_arrays 2 reco0" and imagespace = False
       and K = ops0 and x = "[1]" and res = "[1]"]
    inner_solver_entry_state
    [where TV = 2 and st = "setup_reg_tmp_arrays 2 reco0" and imagespace = True
       and K = ops0 and x = "[1]" and res = "[1]"]
  by (auto simp: gr_setup)

subsection \<open>The regularisation schedule and the scaling of \<open>lambd\<close>\<close>

lemma same_config_refl: "same_config a a"
  by (simp add: same_config_def)

lemma same_config_trans: "same_config a b \<Longrightarrow> same_config b c \<Longrightarrow> same_config a c"
  by (simp add: same_config_def)

lemma same_config_update_reg_par: "same_config st (update_reg_par result ign st)"
  by (simp add: same_config_def update_reg_par_def Let_def)

lemma same_config_store_duals: "same_config st (store_duals TV out st)"
  by (simp add: same_config_def store_duals_def)

lemma same_config_setup: "same_config st (setup_reg_tmp_arrays TV st)"
  by (simp add: same_config_def setup_reg_tmp_arrays_def Let_def)

lemma reco_do_calc_residual [simp]: "gn_reco (do_calc_residual N TV i x g) = gn_reco g"
  by (simp add: do_calc_residual_def Let_def)

lemma reco_do_savetofile [simp]: "gn_reco (do_savetofile N TV i g) = gn_reco g"
  by (simp add: do_savetofile_def)

lemma same_config_irgn_solve_3D: "same_config (gn_reco g) (gn_reco (irgn_solve_3D N TV i g))"
  by (simp add: irgn_solve_3D_def Let_def split: prod.splits)
     (simp add: same_config_store_duals)

lemma same_config_gn_loop: "same_config (gn_reco g) (gn_reco (gn_loop N TV is g))"
proof (induction "is" arbitrary: g)
  case Nil
  show ?case by (simp add: same_config_refl)
next
  case (Cons i "is")
  obtain res1 h1 where lin: "linearize N i (gn_result g) (gn_hidden g) = (res1, h1)"
    by (cases "linearize N i (gn_result g) (gn_hidden g)")
  define g2 where "g2 = g\<lparr>gn_ign := Some i, gn_result := res1, gn_hidden := h1,
     gn_reco := update_reg_par res1 i (gn_reco g)\<rparr>"
  define g3 where "g3 = irgn_solve_3D N TV i g2"
  have a: "same_config (gn_reco g) (gn_reco g2)"
    by (simp add: g2_def same_config_update_reg_par)
  have b: "same_config (gn_reco g2) (gn_reco g3)"
    unfolding g3_def by (rule same_config_irgn_solve_3D)
  have ab: "same_config (gn_reco g) (gn_reco g3)"
    by (rule same_config_trans [OF a b])
  show ?case
    using lin ab Cons.IH [of "do_savetofile N TV i
        (g3\<lparr>gn_iters := min (gn_iters g3 * 2) (max_iters (irgn (gn_reco g3))),
           gn_res := gn_res g3 @ [gn_fval g3], gn_fval_old := gn_fval g3\<rparr>)"]
    by (auto simp: Let_def g2_def g3_def intro: same_config_trans)
qed

lemma same_config_execute_stores_loop:
  "same_config (execute_stores st)
     (gn_reco (gn_loop N TV is (gn_enter N TV (g\<lparr>gn_reco := execute_stores st\<rparr>))))"
proof -
  have "same_config (execute_stores st)
          (gn_reco (gn_enter N TV (g\<lparr>gn_reco := execute_stores st\<rparr>)))"
    by (simp add: gn_enter_def Let_def same_config_setup)
  then show ?thesis
    by (rule same_config_trans [OF _ same_config_gn_loop])
qed

text \<open>
  Claim C2. Let \<open>c\<close> be the configuration when \<^verbatim>\<open>execute\<close> is called, so that
  \<^verbatim>\<open>execute\<close> stores \<open>delta c\<close>, \<open>delta_max c\<close>, \<open>gamma c\<close> and \<open>omega c\<close>
  before the loop, and let \<open>gk\<close> be the state in which the \<open>k\<close>-th Gauss-Newton
  iteration starts. With \<open>result\<close> the current estimate that the iteration passes to
  \<^verbatim>\<open>_update_reg_par\<close>, the call sets \<open>delta_max\<close> to
  \<open>delta_max c * \<parallel>result\<parallel> / 10^3\<close>, \<open>delta\<close> to the minimum of
  \<open>delta c * \<parallel>result\<parallel> * delta_inc^k / 10^3\<close> and the new \<open>delta_max\<close>,
  \<open>gamma\<close> to the maximum of \<open>gamma c * gamma_dec^k\<close> and \<open>gamma_min\<close>, and
  \<open>omega\<close> to the maximum of \<open>omega c * omega_dec^k\<close> and \<open>omega_min\<close>.
\<close>

theorem update_reg_par_schedule:
  "(let c = irgn (gn_reco g);
        gk = gn_loop N TV [0 ..< k] (gn_enter N TV (g\<lparr>gn_reco := execute_stores (gn_reco g)\<rparr>));
        result = fst (linearize N k (gn_result gk) (gn_hidden gk));
        p = irgn (update_reg_par result k (gn_reco gk))
    in delta_max p = delta_max c * l2norm (concat result) / 1000 \<and>
       delta p = min (delta c * l2norm (concat result) * delta_inc c ^ k / 1000) (delta_max p) \<and>
       gamma p = max (gamma c * gamma_dec c ^ k) (gamma_min c) \<and>
       omega p = max (omega c * omega_dec c ^ k) (omega_min c))"
proof -
  define gk where
    "gk = gn_loop N TV [0 ..< k] (gn_enter N TV (g\<lparr>gn_reco := execute_stores (gn_reco g)\<rparr>))"
  have "same_config (execute_stores (gn_reco g)) (gn_reco gk)"
    unfolding gk_def by (rule same_config_execute_stores_loop)
  then have f: "self_delta (gn_reco gk) = delta (irgn (gn_reco g))"
      "self_delta_max (gn_reco gk) = delta_max (irgn (gn_reco g))"
      "self_gamma (gn_reco gk) = gamma (irgn (gn_reco g))"
      "self_omega (gn_reco gk) = omega (irgn (gn_reco g))"
      "delta_inc (irgn (gn_reco gk)) = delta_inc (irgn (gn_reco g))"
      "gamma_dec (irgn (gn_reco gk)) = gamma_dec (irgn (gn_reco g))"
      "gamma_min (irgn (gn_reco gk)) = gamma_min (irgn (gn_reco g))"
      "omega_dec (irgn (gn_reco gk)) = omega_dec (irgn (gn_reco g))"
      "omega_min (irgn (gn_reco gk)) = omega_min (irgn (gn_reco g))"
    by (simp_all add: same_config_def execute_stores_def Let_def)
  show ?thesis
    unfolding Let_def gk_def [symmetric]
    by (simp add: update_reg_par_def Let_def f mult_ac)
qed

theorem update_reg_par_schedule_witness:
  "(let p = irgn (update_reg_par [[1]] 0
               (gn_reco (gn_enter numerics0 0 (gn0\<lparr>gn_reco := execute_stores reco0\<rparr>))))
    in delta_max p = 1 / 100 \<and> delta p = 1 / 1000 \<and> gamma p = 1 \<and> omega p = 1)"
  using update_reg_par_schedule [of gn0 numerics0 0 0]
  by (simp add: Let_def gn0_def reco0_def irgn_par0_def numerics0_def gn_enter_def l2norm_def)

lemma log_do_calc_residual:
  "gn_log (do_calc_residual N TV i x g) = gn_log g @ [lambd (irgn (gn_reco g))]"
  by (simp add: do_calc_residual_def Let_def)

lemma log_do_savetofile [simp]: "gn_log (do_savetofile N TV i g) = gn_log g"
  by (simp add: do_savetofile_def)

lemma log_irgn_solve_3D:
  "gn_log (irgn_solve_3D N TV i g) =
     gn_log g @ [lambd (irgn (gn_reco g)), lambd (irgn (gn_reco g))]"
  by (simp add: irgn_solve_3D_def Let_def log_do_calc_residual split: prod.splits)

lemma lambd_update_reg_par [simp]:
  "lambd (irgn (update_reg_par result ign st)) = lambd (irgn st)"
  by (simp add: update_reg_par_def Let_def)

lemma log_gn_loop:
  "\<exists>n. gn_log (gn_loop N TV is g) = gn_log g @ replicate n (lambd (irgn (gn_reco g)))"
proof (induction "is" arbitrary: g)
  case Nil
  have "gn_log g = gn_log g @ replicate 0 (lambd (irgn (gn_reco g)))" by simp
  then show ?case by (metis gn_loop.simps(1))
next
  case (Cons i "is")
  obtain res1 h1 where lin: "linearize N i (gn_result g) (gn_hidden g) = (res1, h1)"
    by (cases "linearize N i (gn_result g) (gn_hidden g)")
  define l where "l = lambd (irgn (gn_reco g))"
  define g2 where "g2 = g\<lparr>gn_ign := Some i, gn_result := res1, gn_hidden := h1,
     gn_reco := update_reg_par res1 i (gn_reco g)\<rparr>"
  define g3 where "g3 = irgn_solve_3D N TV i g2"
  define g5 where "g5 = g3\<lparr>gn_iters := min (gn_iters g3 * 2) (max_iters (irgn (gn_reco g3))),
           gn_res := gn_res g3 @ [gn_fval g3]\<rparr>"
  have l2: "lambd (irgn (gn_reco g2)) = l"
    by (simp add: g2_def l_def)
  have "same_config (gn_reco g2) (gn_reco g3)"
    unfolding g3_def by (rule same_config_irgn_solve_3D)
  then have l3: "lambd (irgn (gn_reco g3)) = l"
    using l2 by (simp add: same_config_def)
  have log3: "gn_log g3 = gn_log g @ [l, l]"
    unfolding g3_def by (simp add: log_irgn_solve_3D l2) (simp add: g2_def)
  have step: "gn_loop N TV (i # is) g =
    (if energy_stalled g5 then
       do_savetofile N TV i (do_calc_residual N TV (i + 1) (gn_result g5) g5)
     else gn_loop N TV is (do_savetofile N TV i (g5\<lparr>gn_fval_old := gn_fval g5\<rparr>)))"
    using lin by (simp add: Let_def g2_def g3_def g5_def)
  show ?case
  proof (cases "energy_stalled g5")
    case True
    have "gn_log (gn_loop N TV (i # is) g) = gn_log g @ replicate (Suc (Suc (Suc 0))) l"
      using True step log3 l3
      by (simp add: log_do_calc_residual g5_def)
    then show ?thesis unfolding l_def by blast
  next
    case False
    from Cons.IH [of "do_savetofile N TV i (g5\<lparr>gn_fval_old := gn_fval g5\<rparr>)"]
    obtain n where "gn_log (gn_loop N TV is (do_savetofile N TV i (g5\<lparr>gn_fval_old := gn_fval g5\<rparr>)))
        = gn_log g @ [l, l] @ replicate n l"
      using log3 l3 by (auto simp: g5_def)
    then have "gn_log (gn_loop N TV (i # is) g) = gn_log g @ replicate (Suc (Suc n)) l"
      using False step by simp
    then show ?thesis unfolding l_def by blast
  qed
qed

lemma execute_3D_config:
  "same_config (execute_stores st)
     (gn_reco (snd (execute_3D N TV (g\<lparr>gn_reco := execute_stores st\<rparr>))))"
  using same_config_execute_stores_loop [of st N TV _ g]
  by (simp add: execute_3D_def Let_def split: option.splits)

lemma execute_3D_log:
  "\<exists>n. gn_log (snd (execute_3D N TV g)) = gn_log g @ replicate n (lambd (irgn (gn_reco g)))"
proof -
  define g2 where "g2 = gn_enter N TV g"
  define g3 where "g3 = gn_loop N TV [0 ..< max_gn_it (irgn (gn_reco g2))] g2"
  have e: "gn_log g2 = gn_log g" "lambd (irgn (gn_reco g2)) = lambd (irgn (gn_reco g))"
    using same_config_setup [of "gn_reco g" TV]
    by (simp_all add: g2_def gn_enter_def Let_def same_config_def)
  obtain n where n: "gn_log g3 = gn_log g @ replicate n (lambd (irgn (gn_reco g)))"
    using log_gn_loop [of N TV "[0 ..< max_gn_it (irgn (gn_reco g2))]" g2] e
    by (auto simp: g3_def)
  have l3: "lambd (irgn (gn_reco g3)) = lambd (irgn (gn_reco g))"
    using same_config_gn_loop [of g2 N TV "[0 ..< max_gn_it (irgn (gn_reco g2))]"] e
    by (simp add: g3_def same_config_def)
  show ?thesis
  proof (cases "gn_ign g3")
    case None
    then have "gn_log (snd (execute_3D N TV g)) = gn_log g @ replicate n (lambd (irgn (gn_reco g)))"
      using n by (simp add: execute_3D_def Let_def g2_def g3_def)
    then show ?thesis by blast
  next
    case (Some i)
    then have "gn_log (snd (execute_3D N TV g)) =
        gn_log g @ replicate (Suc n) (lambd (irgn (gn_reco g)))"
      using n l3
      by (simp add: execute_3D_def Let_def g2_def [symmetric] g3_def [symmetric]
          log_do_calc_residual replicate_append_same)
    then show ?thesis by blast
  qed
qed

lemma execute_config:
  "lambd (irgn (gn_reco (snd (execute N TV imagespace 0 g)))) =
     lambd (irgn (gn_reco g)) * SNR_est (gn_reco g) \<and>
   SNR_est (gn_reco (snd (execute N TV imagespace 0 g))) = SNR_est (gn_reco g)"
  using execute_3D_config [of "gn_reco g" N TV g]
  by (simp add: execute_def same_config_def execute_stores_def Let_def)

text \<open>
  Claim C10. With \<open>reco_2D\<close> nonzero, \<^verbatim>\<open>execute\<close> raises
  \<^verbatim>\<open>NotImplementedError\<close> and leaves the object as it is. With \<open>reco_2D = 0\<close>, it
  multiplies \<^verbatim>\<open>irgn_par["lambd"]\<close> by \<^verbatim>\<open>par["SNR_est"]\<close> in place before any
  other work: the entry has the scaled value when \<^verbatim>\<open>execute\<close> returns, every
  evaluation of the objective and every inner solve of the call reads the scaled value,
  and a second call scales it again.
\<close>

theorem execute_scales_lambd:
  "(reco_2D \<noteq> 0 \<longrightarrow> execute N TV imagespace reco_2D g = (Some NotImplementedError, g)) \<and>
   (reco_2D = 0 \<longrightarrow>
      (let g' = snd (execute N TV imagespace reco_2D g);
           l = lambd (irgn (gn_reco g)) * SNR_est (gn_reco g)
       in lambd (irgn (gn_reco g')) = l \<and>
          (\<exists>n. gn_log g' = gn_log g @ replicate n l) \<and>
          lambd (irgn (gn_reco (snd (execute N TV imagespace reco_2D g')))) =
            l * SNR_est (gn_reco g)))"
proof (intro conjI impI)
  assume "reco_2D \<noteq> 0"
  then show "execute N TV imagespace reco_2D g = (Some NotImplementedError, g)"
    by (simp add: execute_def)
next
  assume z: "reco_2D = 0"
  define g' where "g' = snd (execute N TV imagespace 0 g)"
  define l where "l = lambd (irgn (gn_reco g)) * SNR_est (gn_reco g)"
  have a: "lambd (irgn (gn_reco g')) = l" "SNR_est (gn_reco g') = SNR_est (gn_reco g)"
    using execute_config [of N TV imagespace g] by (simp_all add: g'_def l_def)
  have b: "\<exists>n. gn_log g' = gn_log g @ replicate n l"
    using execute_3D_log [of N TV "g\<lparr>gn_reco := execute_stores (gn_reco g)\<rparr>"]
    by (simp add: g'_def l_def execute_def execute_stores_def Let_def)
  have c: "lambd (irgn (gn_reco (snd (execute N TV imagespace 0 g')))) = l * SNR_est (gn_reco g)"
    using execute_config [of N TV imagespace g'] a by simp
  show "let g' = snd (execute N TV imagespace reco_2D g);
            l = lambd (irgn (gn_reco g)) * SNR_est (gn_reco g)
        in lambd (irgn (gn_reco g')) = l \<and>
           (\<exists>n. gn_log g' = gn_log g @ replicate n l) \<and>
           lambd (irgn (gn_reco (snd (execute N TV imagespace reco_2D g')))) =
             l * SNR_est (gn_reco g)"
    using a b c unfolding Let_def z g'_def [symmetric] l_def [symmetric] by simp
qed

theorem execute_scales_lambd_witness:
  "(0::int) = 0 \<and>
   lambd (irgn (gn_reco (snd (execute numerics0 0 0 0 gn0)))) = 6 \<and>
   (\<exists>n. gn_log (snd (execute numerics0 0 0 0 gn0)) = replicate n 6) \<and>
   lambd (irgn (gn_reco (snd (execute numerics0 0 0 0 (snd (execute numerics0 0 0 0 gn0)))))) = 18"
  using execute_scales_lambd [of 0 numerics0 0 0 gn0]
  by (simp add: Let_def gn0_def reco0_def irgn_par0_def)

subsection \<open>The line search\<close>

lemma vdot_self: "vdot a a = complex_of_real (\<Sum>z\<leftarrow>a. (cmod z)\<^sup>2)"
proof -
  have "(\<Sum>(p, q)\<leftarrow>zip a a. cnj p * q) = complex_of_real (\<Sum>z\<leftarrow>a. (cmod z)\<^sup>2)"
    by (induction a) (simp_all add: complex_norm_square [symmetric] mult.commute)
  then show ?thesis by (simp add: vdot_def)
qed

lemma sum_sq_nonneg: "0 \<le> (\<Sum>z\<leftarrow>a. (cmod z)\<^sup>2)"
  by (induction a) simp_all

lemma csqrt_vdot1:
  "Re (csqrt (vdot a a)) = sqrt (\<Sum>z\<leftarrow>a. (cmod z)\<^sup>2)"
  using sum_sq_nonneg [of a] by (simp add: vdot_self)

lemma csqrt_vdot2:
  "Re (csqrt (vdot a a + vdot b b)) = sqrt ((\<Sum>z\<leftarrow>a. (cmod z)\<^sup>2) + (\<Sum>z\<leftarrow>b. (cmod z)\<^sup>2))"
proof -
  have "vdot a a + vdot b b = complex_of_real ((\<Sum>z\<leftarrow>a. (cmod z)\<^sup>2) + (\<Sum>z\<leftarrow>b. (cmod z)\<^sup>2))"
    by (simp add: vdot_self)
  moreover have "0 \<le> (\<Sum>z\<leftarrow>a. (cmod z)\<^sup>2) + (\<Sum>z\<leftarrow>b. (cmod z)\<^sup>2)"
    using sum_sq_nonneg [of a] sum_sq_nonneg [of b] by simp
  ultimately show ?thesis by simp
qed

lemma csqrt_vdot3:
  "Re (csqrt (vdot a a + vdot b b + vdot c c)) =
     sqrt ((\<Sum>z\<leftarrow>a. (cmod z)\<^sup>2) + (\<Sum>z\<leftarrow>b. (cmod z)\<^sup>2) + (\<Sum>z\<leftarrow>c. (cmod z)\<^sup>2))"
proof -
  have "vdot a a + vdot b b + vdot c c =
      complex_of_real ((\<Sum>z\<leftarrow>a. (cmod z)\<^sup>2) + (\<Sum>z\<leftarrow>b. (cmod z)\<^sup>2) + (\<Sum>z\<leftarrow>c. (cmod z)\<^sup>2))"
    by (simp add: vdot_self)
  moreover have "0 \<le> (\<Sum>z\<leftarrow>a. (cmod z)\<^sup>2) + (\<Sum>z\<leftarrow>b. (cmod z)\<^sup>2) + (\<Sum>z\<leftarrow>c. (cmod z)\<^sup>2)"
    using sum_sq_nonneg [of a] sum_sq_nonneg [of b] sum_sq_nonneg [of c] by simp
  ultimately show ?thesis by simp
qed

lemma csqrt_vdot3':
  "Re (csqrt (vdot a a + (vdot b b + vdot c c))) =
     sqrt ((\<Sum>z\<leftarrow>a. (cmod z)\<^sup>2) + ((\<Sum>z\<leftarrow>b. (cmod z)\<^sup>2) + (\<Sum>z\<leftarrow>c. (cmod z)\<^sup>2)))"
  using csqrt_vdot3 [of a b c] by (simp only: add.assoc)

lemma asub_self_sq: "(\<Sum>z\<leftarrow>asub a a. (cmod z)\<^sup>2) = 0"
proof -
  have "(\<Sum>z\<leftarrow>map2 (-) a a. (cmod z)\<^sup>2) = 0"
    by (induction a) simp_all
  then show ?thesis by (simp add: asub_def)
qed

lemma tgv_trial_norms:
  "lv_ynorm (tgv_trial K P e t) = dual_change e (tgv_trial K P e t) \<and>
   lv_lhs (tgv_trial K P e t) = sqrt (ls_beta_line e) * t * adjoint_change e (tgv_trial K P e t) \<and>
   lv_tau_new (tgv_trial K P e t) = t"
  by (simp del: csqrt.simps add: tgv_trial_def Let_def dual_change_def adjoint_change_def
      l2norm_def csqrt_vdot2 csqrt_vdot3 csqrt_vdot3' add.assoc)

lemma tv_trial_norms:
  "lv_ynorm (tv_trial K P e t) = dual_change e (tv_trial K P e t) \<and>
   lv_lhs (tv_trial K P e t) = sqrt (ls_beta_line e) * t * adjoint_change e (tv_trial K P e t) \<and>
   lv_tau_new (tv_trial K P e t) = t"
  by (simp del: csqrt.simps add: tv_trial_def Let_def dual_change_def adjoint_change_def
      l2norm_def csqrt_vdot2 csqrt_vdot1 asub_self_sq)

lemma line_search_unfold:
  "line_search trial e t =
     (if ls_accept e (trial e t) then Some (trial e t) else line_search trial e (t * mu_line))"
  by (subst line_search.simps) (simp add: Let_def)

lemma line_search_first_accept:
  assumes "\<forall>k<n. \<not> ls_accept e (trial e (t * mu_line ^ k))"
    and "ls_accept e (trial e (t * mu_line ^ n))"
  shows "line_search trial e t = Some (trial e (t * mu_line ^ n))"
  using assms
proof (induction n arbitrary: t)
  case 0
  then show ?case by (subst line_search_unfold) simp
next
  case (Suc n)
  have r: "\<not> ls_accept e (trial e t)"
    using Suc.prems(1) [rule_format, of 0] by simp
  have a: "\<forall>k<n. \<not> ls_accept e (trial e (t * mu_line * mu_line ^ k))"
  proof (intro allI impI)
    fix k assume "k < n"
    then show "\<not> ls_accept e (trial e (t * mu_line * mu_line ^ k))"
      using Suc.prems(1) [rule_format, of "Suc k"] by (simp add: mult.assoc)
  qed
  have b: "ls_accept e (trial e (t * mu_line * mu_line ^ n))"
    using Suc.prems(2) by (simp add: mult.assoc)
  have "line_search trial e t = line_search trial e (t * mu_line)"
    using r by (subst line_search_unfold) simp
  also have "\<dots> = Some (trial e (t * mu_line * mu_line ^ n))"
    by (rule Suc.IH [OF a b])
  finally show ?case by (simp add: mult.assoc)
qed

lemma line_search_Some:
  assumes "line_search trial e t = Some s"
  shows "\<exists>n. s = trial e (t * mu_line ^ n) \<and> ls_accept e s \<and>
             (\<forall>k<n. \<not> ls_accept e (trial e (t * mu_line ^ k)))"
proof (rule line_search.raw_induct
    [where P = "\<lambda>trial e t s. \<exists>n. s = trial e (t * mu_line ^ n) \<and> ls_accept e s \<and>
             (\<forall>k<n. \<not> ls_accept e (trial e (t * mu_line ^ k)))", OF _ assms])
  fix f :: "(ls_env \<Rightarrow> real \<Rightarrow> ls_vars) \<Rightarrow> ls_env \<Rightarrow> real \<Rightarrow> ls_vars option"
  fix trial e t s
  assume IH: "\<And>tr e' t' y. f tr e' t' = Some y \<Longrightarrow>
      \<exists>n. y = tr e' (t' * mu_line ^ n) \<and> ls_accept e' y \<and>
          (\<forall>k<n. \<not> ls_accept e' (tr e' (t' * mu_line ^ k)))"
  assume eq: "(let s = trial e t
      in if ls_accept e s then Some s else f trial e (t * mu_line)) = Some s"
  show "\<exists>n. s = trial e (t * mu_line ^ n) \<and> ls_accept e s \<and>
          (\<forall>k<n. \<not> ls_accept e (trial e (t * mu_line ^ k)))"
  proof (cases "ls_accept e (trial e t)")
    case True
    with eq have s: "s = trial e (t * mu_line ^ 0)" by (simp add: Let_def)
    have "s = trial e (t * mu_line ^ 0) \<and> ls_accept e s \<and>
          (\<forall>k<0. \<not> ls_accept e (trial e (t * mu_line ^ k)))"
      using s True by simp
    then show ?thesis by (rule exI)
  next
    case False
    with eq have "f trial e (t * mu_line) = Some s" by (simp add: Let_def)
    from IH [OF this] obtain n where n: "s = trial e (t * mu_line * mu_line ^ n)"
      "ls_accept e s" "\<forall>k<n. \<not> ls_accept e (trial e (t * mu_line * mu_line ^ k))"
      by blast
    have "\<forall>k<Suc n. \<not> ls_accept e (trial e (t * mu_line ^ k))"
    proof (intro allI impI)
      fix k assume k: "k < Suc n"
      show "\<not> ls_accept e (trial e (t * mu_line ^ k))"
      proof (cases k)
        case 0 with False show ?thesis by simp
      next
        case (Suc j)
        with k n(3) show ?thesis by (simp add: mult.assoc)
      qed
    qed
    moreover have "s = trial e (t * mu_line ^ Suc n)" using n(1) by (simp add: mult.assoc)
    ultimately show ?thesis using n(2) by blast
  qed
qed

lemma line_search_None:
  assumes "\<forall>k. \<not> ls_accept e (trial e (t * mu_line ^ k))"
  shows "line_search trial e t = None"
proof (cases "line_search trial e t")
  case None then show ?thesis .
next
  case (Some s)
  from line_search_Some [OF this] assms show ?thesis by blast
qed

lemma le_scaled:
  fixes t :: real
  assumes "0 < t"
  shows "a * t * (c * t) \<le> t \<longleftrightarrow> a * c * t \<le> 1"
proof -
  have "a * t * (c * t) = t * (a * c * t)" by (simp add: mult_ac)
  then show ?thesis using assms by (simp add: mult.assoc)
qed

lemma tgv_changes_env0:
  assumes "0 < t" "0 \<le> c"
  shows "dual_change env0 (tgv_trial (ops_scaled c) kernels0 env0 t) = t"
    and "adjoint_change env0 (tgv_trial (ops_scaled c) kernels0 env0 t) = c * t"
  using assms
  by (simp_all add: dual_change_def adjoint_change_def tgv_trial_def Let_def env0_def
      kernels0_def ops_scaled_def asub_def l2norm_def norm_mult)

lemma tgv_accept_env0:
  assumes "0 < t" "0 \<le> c"
  shows "ls_accept env0 (tgv_trial (ops_scaled c) kernels0 env0 t) \<longleftrightarrow> c * t \<le> 1"
  using le_scaled [OF assms(1), of 1 c]
  by (simp add: ls_accept_def tgv_trial_norms tgv_changes_env0 [OF assms] delta_line_def)
     (simp add: env0_def)



lemma tv_changes_env0:
  assumes "0 < t" "0 \<le> c"
  shows "dual_change env0 (tv_trial (ops_scaled c) kernels0 env0 t) = t"
    and "adjoint_change env0 (tv_trial (ops_scaled c) kernels0 env0 t) = c * t"
  using assms
  by (simp_all add: dual_change_def adjoint_change_def tv_trial_def Let_def env0_def
      kernels0_def ops_scaled_def asub_def l2norm_def norm_mult)

lemma tv_accept_env0:
  assumes "0 < t" "0 \<le> c"
  shows "ls_accept env0 (tv_trial (ops_scaled c) kernels0 env0 t) \<longleftrightarrow> c * t \<le> 1"
  using le_scaled [OF assms(1), of 1 c]
  by (simp add: ls_accept_def tv_trial_norms tv_changes_env0 [OF assms] delta_line_def)
     (simp add: env0_def)

lemma never_accept_negative_beta:
  "ls_beta_line e < 0 \<Longrightarrow> \<not> ls_accept e s"
  by (simp add: ls_accept_def)

lemma half_power_large:
  fixes k :: nat
  assumes "k < 70"
  shows "\<not> (2 ^ 70 * (1 * (1 / 2) ^ k) \<le> (1 :: real))"
proof -
  have "(2 :: real) ^ ((70 - k) + k) = 2 ^ 70"
    using assms by simp
  then have e: "(2 :: real) ^ 70 = 2 ^ (70 - k) * 2 ^ k"
    by (simp only: power_add)
  have "(2 :: real) ^ 70 * (1 * (1 / 2) ^ k) = 2 ^ (70 - k) * (2 ^ k * (1 / 2) ^ k)"
    by (simp only: e mult_1 mult.assoc)
  also have "(2 :: real) ^ k * (1 / 2) ^ k = 1"
    by (simp add: power_mult_distrib [symmetric])
  finally have v: "(2 :: real) ^ 70 * (1 * (1 / 2) ^ k) = 2 ^ (70 - k)"
    by simp
  have "(2 :: real) ^ 1 \<le> 2 ^ (70 - k)"
    using assms by (intro power_increasing) simp_all
  then have "(1 :: real) < 2 ^ (70 - k)" by simp
  then show ?thesis by (simp only: v not_le)
qed

text \<open>
  Claim C8 as stated fails: with an adjoint that multiplies by \<open>2^70\<close>, the search
  that starts at the step 1 rejects the step \<open>2^-67\<close>, which is below \<open>10^-20\<close>,
  goes on halving, and returns the step \<open>2^-70\<close> as accepted. Nothing is reported.
\<close>

theorem line_search_below_threshold_counterexample:
  "tgv_line_search (ops_scaled (2 ^ 70)) kernels0 env0 1 =
     Some (tgv_trial (ops_scaled (2 ^ 70)) kernels0 env0 (1 / 2 ^ 70)) \<and>
   lv_tau_new (tgv_trial (ops_scaled (2 ^ 70)) kernels0 env0 (1 / 2 ^ 70)) = 1 / 2 ^ 70 \<and>
   (1 / 2 ^ 70 :: real) < 1 / 10 ^ 20 \<and>
   (1 / 2 ^ 67 :: real) < 1 / 10 ^ 20 \<and>
   \<not> ls_accept env0 (tgv_trial (ops_scaled (2 ^ 70)) kernels0 env0 (1 / 2 ^ 67))"
proof -
  have rej: "\<forall>k<70. \<not> ls_accept env0
      (tgv_trial (ops_scaled (2 ^ 70)) kernels0 env0 (1 * mu_line ^ k))"
  proof (intro allI impI)
    fix k :: nat assume k: "k < 70"
    have "ls_accept env0 (tgv_trial (ops_scaled (2 ^ 70)) kernels0 env0 (1 * (1 / 2) ^ k))
          \<longleftrightarrow> 2 ^ 70 * (1 * (1 / 2) ^ k) \<le> (1 :: real)"
      by (rule tgv_accept_env0) simp_all
    with half_power_large [OF k]
    show "\<not> ls_accept env0 (tgv_trial (ops_scaled (2 ^ 70)) kernels0 env0 (1 * mu_line ^ k))"
      by (simp add: mu_line_def)
  qed
  have "ls_accept env0 (tgv_trial (ops_scaled (2 ^ 70)) kernels0 env0 (1 * (1 / 2) ^ 70))
        \<longleftrightarrow> 2 ^ 70 * (1 * (1 / 2) ^ 70) \<le> (1 :: real)"
    by (rule tgv_accept_env0) simp_all
  then have acc: "ls_accept env0
      (tgv_trial (ops_scaled (2 ^ 70)) kernels0 env0 (1 * mu_line ^ 70))"
    by (simp add: mu_line_def power_one_over)
  have "tgv_line_search (ops_scaled (2 ^ 70)) kernels0 env0 1 =
      Some (tgv_trial (ops_scaled (2 ^ 70)) kernels0 env0 (1 * mu_line ^ 70))"
    unfolding tgv_line_search_def
    by (rule line_search_first_accept
        [where trial = "tgv_trial (ops_scaled (2 ^ 70)) kernels0" and e = env0 and t = 1
           and n = 70, OF rej acc])
  then have a: "tgv_line_search (ops_scaled (2 ^ 70)) kernels0 env0 1 =
     Some (tgv_trial (ops_scaled (2 ^ 70)) kernels0 env0 (1 / 2 ^ 70))"
    by (simp add: mu_line_def power_one_over)
  have b: "\<not> ls_accept env0 (tgv_trial (ops_scaled (2 ^ 70)) kernels0 env0 (1 / 2 ^ 67))"
    using rej [rule_format, of 67] by (simp add: mu_line_def power_one_over)
  show ?thesis using a b by (simp add: tgv_trial_norms)
qed

text \<open>
  Claim C8, as amended. The line search of \<^verbatim>\<open>tgv_solve_3D\<close> and of
  \<^verbatim>\<open>tv_solve_3D\<close> has no lower bound on the tentative step: it halves the step
  until the acceptance test passes and returns that step, however small it is; when the
  test passes for no halving, the loop does not end. No error is raised.
\<close>

theorem line_search_halves_until_accepted:
  "((\<forall>k<n. \<not> ls_accept e (tgv_trial K P e (t * 0.5 ^ k))) \<and>
      ls_accept e (tgv_trial K P e (t * 0.5 ^ n))
      \<longrightarrow> tgv_line_search K P e t = Some (tgv_trial K P e (t * 0.5 ^ n))) \<and>
   ((\<forall>k. \<not> ls_accept e (tgv_trial K P e (t * 0.5 ^ k)))
      \<longrightarrow> tgv_line_search K P e t = None) \<and>
   ((\<forall>k<n. \<not> ls_accept e (tv_trial K P e (t * 0.5 ^ k))) \<and>
      ls_accept e (tv_trial K P e (t * 0.5 ^ n))
      \<longrightarrow> tv_line_search K P e t = Some (tv_trial K P e (t * 0.5 ^ n))) \<and>
   ((\<forall>k. \<not> ls_accept e (tv_trial K P e (t * 0.5 ^ k)))
      \<longrightarrow> tv_line_search K P e t = None)"
  using line_search_first_accept [of n e "tgv_trial K P" t]
    line_search_None [of e "tgv_trial K P" t]
    line_search_first_accept [of n e "tv_trial K P" t]
    line_search_None [of e "tv_trial K P" t]
  by (simp add: tgv_line_search_def tv_line_search_def mu_line_def)

theorem line_search_halves_until_accepted_witness:
  "tgv_line_search (ops_scaled 1) kernels0 env0 1 =
     Some (tgv_trial (ops_scaled 1) kernels0 env0 1) \<and>
   tgv_line_search (ops_scaled 1) kernels0 (env0\<lparr>ls_beta_line := - 1\<rparr>) 1 = None \<and>
   tv_line_search (ops_scaled 1) kernels0 env0 1 =
     Some (tv_trial (ops_scaled 1) kernels0 env0 1) \<and>
   tv_line_search (ops_scaled 1) kernels0 (env0\<lparr>ls_beta_line := - 1\<rparr>) 1 = None"
  using line_search_halves_until_accepted [of 0 env0 "ops_scaled 1" kernels0 1]
    line_search_halves_until_accepted
      [of 0 "env0\<lparr>ls_beta_line := - 1\<rparr>" "ops_scaled 1" kernels0 1]
    tgv_accept_env0 [of 1 1] tv_accept_env0 [of 1 1]
  by (simp add: never_accept_negative_beta)

subsection \<open>The tensor of the Cholesky-parametrised model\<close>

lemma transpose3:
  "transpose [[a, b, c], [d, e, f], [g, h, i :: real]] = [[a, d, g], [b, e, h], [c, f, i]]"
  by (simp add: transpose.simps)

text \<open>
  Claim C9. For the Cholesky-parametrised diffusion model and unknowns \<open>x[1], ..., x[6]\<close>
  that are real, the matrix assembled at a voxel from the maps that \<^verbatim>\<open>rescale\<close>
  returns (diagonal \<open>ADC_x\<close>, \<open>ADC_y\<close>, \<open>ADC_z\<close>; off-diagonals \<open>ADC_xy\<close>,
  \<open>ADC_xz\<close>, \<open>ADC_yz\<close>) is \<open>L * L\<^sup>T\<close> for the lower triangular matrix
  \<open>L\<close> of the scaled unknowns \<open>x[u] * uk_scale[u]\<close>; it is symmetric and positive
  semidefinite, and the maps are real.
\<close>

theorem rescale_is_cholesky_product:
  assumes "Im (x ! 1) = 0" "Im (x ! 2) = 0" "Im (x ! 3) = 0"
    and "Im (x ! 4) = 0" "Im (x ! 5) = 0" "Im (x ! 6) = 0"
  shows "tensor_of_maps (DiffdirLL_rescale uk x) =
           mat_mul (cholesky_factor uk x) (transpose (cholesky_factor uk x)) \<and>
         transpose (tensor_of_maps (DiffdirLL_rescale uk x)) =
           tensor_of_maps (DiffdirLL_rescale uk x) \<and>
         (\<forall>a b c. 0 \<le> quad_form (tensor_of_maps (DiffdirLL_rescale uk x)) [a, b, c]) \<and>
         list_all (\<lambda>z. Im z = 0) (tl (DiffdirLL_rescale uk x))"
proof (intro conjI allI)
  show eq: "tensor_of_maps (DiffdirLL_rescale uk x) =
           mat_mul (cholesky_factor uk x) (transpose (cholesky_factor uk x))"
    using assms
    by (simp add: tensor_of_maps_def DiffdirLL_rescale_def cholesky_factor_def mat_mul_def
        dot_def transpose3 Let_def ukc_def power2_eq_square algebra_simps)
  show "transpose (tensor_of_maps (DiffdirLL_rescale uk x)) =
           tensor_of_maps (DiffdirLL_rescale uk x)"
    by (simp add: tensor_of_maps_def transpose3)
  show "list_all (\<lambda>z. Im z = 0) (tl (DiffdirLL_rescale uk x))"
    by (simp add: DiffdirLL_rescale_def Let_def)
  fix a b c :: real
  define l1 where "l1 = Re (x ! 1) * uk ! 1"
  define l2 where "l2 = Re (x ! 2) * uk ! 2"
  define l3 where "l3 = Re (x ! 3) * uk ! 3"
  define l4 where "l4 = Re (x ! 4) * uk ! 4"
  define l5 where "l5 = Re (x ! 5) * uk ! 5"
  define l6 where "l6 = Re (x ! 6) * uk ! 6"
  have "quad_form (mat_mul (cholesky_factor uk x) (transpose (cholesky_factor uk x))) [a, b, c]
      = (a * l1 + b * l2 + c * l4)\<^sup>2 + (b * l3 + c * l6)\<^sup>2 + (c * l5)\<^sup>2"
    by (simp add: cholesky_factor_def mat_mul_def dot_def transpose3 quad_form_def
        l1_def l2_def l3_def l4_def l5_def l6_def power2_eq_square algebra_simps)
  then show "0 \<le> quad_form (tensor_of_maps (DiffdirLL_rescale uk x)) [a, b, c]"
    by (simp add: eq)
qed

theorem rescale_is_cholesky_product_witness:
  "Im (x_guess ! 1) = 0 \<and> Im (x_guess ! 6) = 0 \<and>
   tensor_of_maps (DiffdirLL_rescale uk_ones x_guess) = [[1, 0, 0], [0, 1, 0], [0, 0, 1]] \<and>
   mat_mul (cholesky_factor uk_ones x_guess) (transpose (cholesky_factor uk_ones x_guess)) =
     [[1, 0, 0], [0, 1, 0], [0, 0, 1]]"
  using rescale_is_cholesky_product [of x_guess uk_ones]
  by (simp add: x_guess_def uk_ones_def tensor_of_maps_def DiffdirLL_rescale_def Let_def ukc_def)

subsection \<open>The range of single precision\<close>

lemma float32_max_pos: "0 < float32_max"
  by (simp add: float32_max_def)

lemma float32_tiny_pos: "0 < float32_tiny"
  by (simp add: float32_tiny_def)

lemma normal32_0 [simp]: "normal32 0"
  by (simp add: normal32_def)

lemma rne_0 [simp]: "rne 0 = 0"
  by (simp add: rne_def)

lemma f32_0 [simp]: "f32 0 = Fin 0"
  using float32_max_pos float32_tiny_pos by (simp add: f32_def denorm32_def)

lemma f32_normal: "normal32 r \<Longrightarrow> f32 r = Fin r"
  using float32_max_pos float32_tiny_pos by (auto simp: normal32_def f32_def denorm32_def)

lemma f32_overflow:
  "(2 - 1 / 2 ^ 23) * 2 ^ 127 < r \<Longrightarrow> f32 r = PInf"
  "r < - ((2 - 1 / 2 ^ 23) * 2 ^ 127) \<Longrightarrow> f32 r = MInf"
  using float32_max_pos by (auto simp: f32_def float32_max_def)

lemma normal32_iff:
  "normal32 r \<longleftrightarrow> r = 0 \<or> (1 / 2 ^ 126 \<le> \<bar>r\<bar> \<and> \<bar>r\<bar> \<le> (2 - 1 / 2 ^ 23) * 2 ^ 127)"
  by (simp add: normal32_def float32_tiny_def float32_max_def)

text \<open>
  While no operation has left the normal range, the operations of the program compute
  the operations of the real and of the complex numbers.
\<close>

lemma tracks_fl_of: "tracks (fl_of r) r"
  by (simp add: tracks_def fl_of_def)

lemma tracks_plus: "tracks a p \<Longrightarrow> tracks b q \<Longrightarrow> tracks (a + b) (p + q)"
  by (auto simp: tracks_def plus_fl_def also_ok_def rnd_def f32_normal split: xreal.splits)

lemma tracks_minus: "tracks a p \<Longrightarrow> tracks b q \<Longrightarrow> tracks (a - b) (p - q)"
  by (auto simp: tracks_def minus_fl_def also_ok_def rnd_def f32_normal split: xreal.splits)

lemma tracks_uminus: "tracks a p \<Longrightarrow> tracks (- a) (- p)"
  by (auto simp: tracks_def uminus_fl_def)

lemma tracks_times: "tracks a p \<Longrightarrow> tracks b q \<Longrightarrow> tracks (a * b) (p * q)"
  by (auto simp: tracks_def times_fl_def also_ok_def rnd_def f32_normal split: xreal.splits)

lemma tracks_divide: "tracks a p \<Longrightarrow> tracks b q \<Longrightarrow> tracks (a / b) (p / q)"
  by (auto simp: tracks_def divide_fl_def also_ok_def rnd_def f32_normal
      split: xreal.splits if_splits)

lemma tracks_sqrt: "tracks a p \<Longrightarrow> tracks (fl_sqrt a) (sqrt p)"
  by (auto simp: tracks_def fl_sqrt_def also_ok_def rnd_def f32_normal
      split: xreal.splits if_splits)

lemma ok_divide_D:
  assumes "fl_ok (a / b)"
  shows "fl_ok a \<and> fl_ok b \<and> (\<exists>q. fl_val b = Fin q \<and> q \<noteq> 0)"
  using assms
  by (auto simp: divide_fl_def also_ok_def split: xreal.splits if_splits)

lemma ok_times_D: "fl_ok (a * b) \<Longrightarrow> fl_ok a \<and> fl_ok b"
  by (auto simp: times_fl_def also_ok_def split: xreal.splits)

lemma ok_plus_D: "fl_ok (a + b) \<Longrightarrow> fl_ok a \<and> fl_ok b"
  by (auto simp: plus_fl_def also_ok_def split: xreal.splits)

lemma ok_minus_D: "fl_ok (a - b) \<Longrightarrow> fl_ok a \<and> fl_ok b"
  by (auto simp: minus_fl_def also_ok_def split: xreal.splits)

lemma ctracks_cin: "ctracks (cin z) z"
  by (simp add: ctracks_def cin_def tracks_fl_of)

lemma ctracks_rin: "ctracks (rin r) (complex_of_real r)"
  by (simp add: ctracks_def rin_def c64_of_fl_def tracks_fl_of)

lemma ctracks_rin_numeral: "ctracks (rin (numeral n)) (numeral n)"
  using ctracks_rin [of "numeral n"] by simp

lemma ctracks_plus: "ctracks a z \<Longrightarrow> ctracks b w \<Longrightarrow> ctracks (a + b) (z + w)"
  by (simp add: ctracks_def plus_c64_def tracks_plus)

lemma ctracks_uminus: "ctracks a z \<Longrightarrow> ctracks (- a) (- z)"
  by (simp add: ctracks_def uminus_c64_def tracks_uminus)

lemma ctracks_times: "ctracks a z \<Longrightarrow> ctracks b w \<Longrightarrow> ctracks (a * b) (z * w)"
  by (simp add: ctracks_def times_c64_def tracks_plus tracks_minus tracks_times)

lemma ctracks_sq: "ctracks a z \<Longrightarrow> ctracks (sq a) (z\<^sup>2)"
  by (simp add: sq_def power2_eq_square ctracks_times)

lemma ctracks_exp: "ctracks a z \<Longrightarrow> ctracks (cexp64 a) (exp z)"
  by (auto simp: ctracks_def tracks_def cexp64_def also_ok_def rnd_def f32_normal Let_def
      Re_exp Im_exp split: xreal.splits)

lemma cval_of_tracked: "c_ok t \<Longrightarrow> ctracks t z \<Longrightarrow> cval_of t = CFin z"
  by (simp add: c_ok_def ctracks_def tracks_def cval_of_def)

lemmas ctracks_intros =
  ctracks_plus ctracks_times ctracks_uminus ctracks_sq ctracks_exp ctracks_cin ctracks_rin
  ctracks_rin_numeral

text \<open>The operations on given numbers.\<close>

lemma fl_arith:
  "Fl (Fin p) k + Fl (Fin q) k' = Fl (f32 (p + q)) (k \<and> k' \<and> normal32 (p + q))"
  "Fl (Fin p) k - Fl (Fin q) k' = Fl (f32 (p - q)) (k \<and> k' \<and> normal32 (p - q))"
  "Fl (Fin p) k * Fl (Fin q) k' = Fl (f32 (p * q)) (k \<and> k' \<and> normal32 (p * q))"
  "- Fl v k = Fl (xneg v) k"
  by (simp_all add: plus_fl_def minus_fl_def times_fl_def uminus_fl_def also_ok_def rnd_def)

lemma fl_arith_nonfinite:
  "Fl PInf k * Fl (Fin q) k' = Fl (xmul PInf (Fin q)) False"
  "Fl MInf k * Fl (Fin q) k' = Fl (xmul MInf (Fin q)) False"
  "Fl NaN k * b = Fl NaN False"
  "Fl (Fin p) k * Fl PInf k' = Fl (xmul (Fin p) PInf) False"
  "Fl (Fin p) k * Fl MInf k' = Fl (xmul (Fin p) MInf) False"
  "a * Fl NaN k' = Fl NaN False"
  "Fl PInf k + Fl (Fin q) k' = Fl PInf False"
  "Fl MInf k + Fl (Fin q) k' = Fl MInf False"
  "Fl NaN k + b = Fl NaN False"
  "Fl (Fin p) k + Fl PInf k' = Fl PInf False"
  "Fl (Fin p) k + Fl MInf k' = Fl MInf False"
  "a + Fl NaN k' = Fl NaN False"
  "Fl PInf k - Fl (Fin q) k' = Fl PInf False"
  "Fl MInf k - Fl (Fin q) k' = Fl MInf False"
  "Fl NaN k - b = Fl NaN False"
  "Fl (Fin p) k - Fl PInf k' = Fl MInf False"
  "Fl (Fin p) k - Fl MInf k' = Fl PInf False"
  "a - Fl NaN k' = Fl NaN False"
  by (cases a; cases b;
      simp add: plus_fl_def minus_fl_def times_fl_def split: xreal.splits prod.splits)+

lemma fl_divide:
  "Fl (Fin p) k / Fl (Fin q) k' =
     (if q = 0 then Fl (xdiv (Fin p) (Fin 0)) False
      else Fl (f32 (p / q)) (k \<and> k' \<and> normal32 (p / q)))"
  "Fl (Fin p) k / Fl PInf k' = Fl (Fin 0) False"
  "Fl (Fin p) k / Fl MInf k' = Fl (Fin 0) False"
  by (simp_all add: divide_fl_def also_ok_def rnd_def)

lemma fl_sqrt_Fin:
  "fl_sqrt (Fl (Fin p) k) =
     (if p < 0 then Fl NaN False else Fl (f32 (sqrt p)) (k \<and> normal32 (sqrt p)))"
  "fl_sqrt (Fl PInf k) = Fl PInf False"
  by (simp_all add: fl_sqrt_def also_ok_def rnd_def)

lemma c64_arith:
  "C64 a b + C64 c d = C64 (a + c) (b + d)"
  "- C64 a b = C64 (- a) (- b)"
  "C64 a b * C64 c d = C64 (a * c - b * d) (a * d + b * c)"
  by (simp_all add: plus_c64_def uminus_c64_def times_c64_def)

lemma cin_rin_simps:
  "cin z = C64 (Fl (Fin (Re z)) True) (Fl (Fin (Im z)) True)"
  "rin r = C64 (Fl (Fin r) True) (Fl (Fin 0) True)"
  by (simp_all add: cin_def rin_def c64_of_fl_def fl_of_def)

lemma cexp64_zero:
  "cexp64 (C64 (Fl (Fin 0) True) (Fl (Fin 0) True)) = C64 (Fl (Fin 1) True) (Fl (Fin 0) True)"
  by (simp add: cexp64_def Let_def also_ok_def rnd_def f32_normal normal32_iff)

lemmas c64_eval = cin_rin_simps c64_arith fl_arith sq_def f32_normal normal32_iff cexp64_zero


subsection \<open>Non-finite entries of the model arrays\<close>

lemma Arg_one: "Arg 1 = 0"
  by (rule cis_Arg_unique) simp_all

lemma cpow_one: "p \<noteq> 0 \<Longrightarrow> cpow (CFin 1) p = CFin 1"
  by (simp add: cpow_def Arg_one Complex_eq)

lemma cval_nonfinite_arith [simp]:
  "CNonFinite + a = CNonFinite" "a + CNonFinite = CNonFinite"
  "CNonFinite - a = CNonFinite" "a - CNonFinite = CNonFinite"
  "CNonFinite * a = CNonFinite" "a * CNonFinite = CNonFinite"
  "CNonFinite / a = CNonFinite" "a / CNonFinite = CNonFinite"
  "- CNonFinite = CNonFinite"
  by (simp_all add: plus_cval_def minus_cval_def times_cval_def divide_cval_def uminus_cval_def
      split: cval.splits)

lemma cval_finite_arith [simp]:
  "CFin p + CFin q = CFin (p + q)" "CFin p - CFin q = CFin (p - q)"
  "CFin p * CFin q = CFin (p * q)" "- CFin p = CFin (- p)"
  "CFin p / CFin q = (if q = 0 then CNonFinite else CFin (p / q))"
  by (simp_all add: plus_cval_def minus_cval_def times_cval_def divide_cval_def uminus_cval_def)

lemma upt_0_2: "[0 ..< 2] = [0, Suc 0]"
  by (simp add: numeral_2_eq_2)

lemma IRLL_voxel_nan:
  "IRLL_forward_voxel irll_par0 0 1 1 1 = [CNonFinite, CNonFinite]"
  by (simp add: IRLL_forward_voxel_def irll_par0_def IRLL_scale_def Let_def cpow_one
      upt_0_2 cmean_def)

lemma irll_NLL_par0: "irll_NLL irll_par0 = 2"
  by (simp add: irll_par0_def)

text \<open>
  Claim C4 as stated fails for the Look-Locker model: at a voxel with flip angle zero
  (\<open>sin_phi = 0\<close>, \<open>cos_phi = 1\<close>) and \<open>x[1] * T1_sc = 1\<close> the quotient \<open>F\<close>
  is \<open>0 / 0\<close>, and \<^verbatim>\<open>execute_forward_3D\<close> returns the NaN entries as they are.
\<close>

theorem IRLL_forward_nonfinite_counterexample:
  "IRLL_execute_forward_3D irll_par0 [0] [1] [[1], [1]] =
     Inr [[CNonFinite], [CNonFinite]] \<and>
   \<not> list_all (list_all is_finite) [[CNonFinite], [CNonFinite]]"
  by (simp add: IRLL_execute_forward_3D_def is_array_def IRLL_voxel_nan upt_0_2 irll_NLL_par0)

lemma is_finite_zero_nonfinite [simp]: "is_finite (zero_nonfinite a)"
  by (cases a) simp_all

lemma zero_nonfinite_eq: "zero_nonfinite a = (if is_finite a then a else CFin 0)"
  by (cases a) simp_all

lemma model_forward_finite:
  "model_forward fwd uk scans phase x = Inr S \<Longrightarrow> list_all (list_all is_finite) S"
  by (auto simp: model_forward_def list_all_iff forward_entry_def split: if_splits)

lemma model_gradient_finite:
  "model_gradient grad uk scans phase x = Inr G \<Longrightarrow>
     list_all (list_all (list_all is_finite)) G"
  by (auto simp: model_gradient_def list_all_iff gradient_entry_def split: if_splits)

text \<open>
  Claim C4, as amended. For the two diffusion models and every input, the arrays that
  the forward and the Jacobian evaluation return have finite entries only: an entry is
  the computed value when that is finite, and zero when it is not.
\<close>

theorem diffusion_models_zero_nonfinite:
  "(Diffdir_execute_forward_3D uk scans phase x = Inr S \<longrightarrow>
      list_all (list_all is_finite) S) \<and>
   (Diffdir_execute_gradient_3D uk scans phase x = Inr G \<longrightarrow>
      list_all (list_all (list_all is_finite)) G) \<and>
   (DiffdirLL_execute_forward_3D uk scans phase x = Inr S' \<longrightarrow>
      list_all (list_all is_finite) S') \<and>
   (DiffdirLL_execute_gradient_3D uk scans phase x = Inr G' \<longrightarrow>
      list_all (list_all (list_all is_finite)) G') \<and>
   forward_entry fwd uk s ph xv =
     (if is_finite (cval_of (fwd uk s ph xv)) then cval_of (fwd uk s ph xv) else CFin 0) \<and>
   gradient_entry grad uk s ph xv u =
     (if is_finite (cval_of (grad uk s ph xv ! u)) then cval_of (grad uk s ph xv ! u)
      else CFin 0)"
  using model_forward_finite [of Diffdir_forward_c64 uk scans phase x S]
    model_gradient_finite [of Diffdir_grad_c64 uk scans phase x G]
    model_forward_finite [of DiffdirLL_forward_c64 uk scans phase x S']
    model_gradient_finite [of DiffdirLL_grad_c64 uk scans phase x G']
  by (simp add: Diffdir_execute_forward_3D_def Diffdir_execute_gradient_3D_def
      DiffdirLL_execute_forward_3D_def DiffdirLL_execute_gradient_3D_def
      forward_entry_def gradient_entry_def zero_nonfinite_eq)

lemma upt_0_7: "[0 ..< 7] = [0, 1, 2, 3, 4, 5, 6]"
  by (simp add: upt_rec)

lemma voxel_x_large: "voxel x_large 0 = [2 ^ 127, 0, 0, 0, 0, 0, 0]"
  by (simp add: voxel_def x_large_def upt_0_7)

lemma ADC_zero_tensor:
  "Diffdir_ADC_c64 uk_two scan0 [a, 0, 0, 0, 0, 0, 0] = cin 0"
  "DiffdirLL_ADC_c64 uk_two scan0 [a, 0, 0, 0, 0, 0, 0] = cin 0"
  by (simp_all add: Diffdir_ADC_c64_def DiffdirLL_ADC_c64_def uk_two_def scan0_def c64_eval)

lemma exp_zero_tensor:
  "cexp64 (- Diffdir_ADC_c64 uk_two scan0 [a, 0, 0, 0, 0, 0, 0] * rin (sc_b scan0)) = cin 1"
  "cexp64 (- DiffdirLL_ADC_c64 uk_two scan0 [a, 0, 0, 0, 0, 0, 0] * rin (sc_b scan0)) = cin 1"
  by (simp_all add: ADC_zero_tensor) (simp_all add: scan0_def c64_eval)

lemma overflow_entry:
  "forward_entry Diffdir_forward_c64 uk_two scan0 1 (voxel x_large 0) = CFin 0"
  "forward_entry DiffdirLL_forward_c64 uk_two scan0 1 (voxel x_large 0) = CFin 0"
  unfolding forward_entry_def Diffdir_forward_c64_def DiffdirLL_forward_c64_def
    voxel_x_large exp_zero_tensor
  by (simp_all add: uk_two_def c64_eval fl_arith_nonfinite f32_overflow cval_of_def)

lemma overflow_grad_entry:
  "map (gradient_entry Diffdir_grad_c64 uk_two scan0 1 (voxel x_large 0))
     [0, 1, 2, 3, 4, 5, 6] = [CFin 2, CFin 0, CFin 0, CFin 0, CFin 0, CFin 0, CFin 0]"
  "map (gradient_entry DiffdirLL_grad_c64 uk_two scan0 1 (voxel x_large 0))
     [0, 1, 2, 3, 4, 5, 6] = [CFin 2, CFin 0, CFin 0, CFin 0, CFin 0, CFin 0, CFin 0]"
  unfolding gradient_entry_def Diffdir_grad_c64_def DiffdirLL_grad_c64_def Let_def
    voxel_x_large exp_zero_tensor
  by (simp_all add: uk_two_def scan0_def c64_eval fl_arith_nonfinite f32_overflow cval_of_def
      complex_eq_iff)

lemma arrays_x_large:
  "model_forward fwd uk_two [scan0] [[1]] x_large =
     Inr [[forward_entry fwd uk_two scan0 1 (voxel x_large 0)]]"
  "model_gradient grad uk_two [scan0] [[1]] x_large =
     Inr (map (\<lambda>u. [[gradient_entry grad uk_two scan0 1 (voxel x_large 0) u]])
            [0, 1, 2, 3, 4, 5, 6])"
proof -
  have l: "length x_large = 7" "length uk_two = 7" "length (x_large ! 0) = Suc 0"
    "is_array (Suc 0) x_large" "is_array (Suc 0) [[1 :: complex]]"
    by (simp_all add: x_large_def uk_two_def is_array_def)
  show "model_forward fwd uk_two [scan0] [[1]] x_large =
     Inr [[forward_entry fwd uk_two scan0 1 (voxel x_large 0)]]"
    by (simp add: model_forward_def l)
  show "model_gradient grad uk_two [scan0] [[1]] x_large =
     Inr (map (\<lambda>u. [[gradient_entry grad uk_two scan0 1 (voxel x_large 0) u]])
            [0, 1, 2, 3, 4, 5, 6])"
    by (simp add: model_gradient_def l upt_0_7)
qed

theorem diffusion_models_zero_nonfinite_witness:
  "Diffdir_execute_forward_3D uk_two [scan0] [[1]] x_large = Inr [[CFin 0]] \<and>
   Diffdir_execute_gradient_3D uk_two [scan0] [[1]] x_large =
     Inr [[[CFin 2]], [[CFin 0]], [[CFin 0]], [[CFin 0]], [[CFin 0]], [[CFin 0]], [[CFin 0]]] \<and>
   DiffdirLL_execute_forward_3D uk_two [scan0] [[1]] x_large = Inr [[CFin 0]] \<and>
   DiffdirLL_execute_gradient_3D uk_two [scan0] [[1]] x_large =
     Inr [[[CFin 2]], [[CFin 0]], [[CFin 0]], [[CFin 0]], [[CFin 0]], [[CFin 0]], [[CFin 0]]] \<and>
   list_all (list_all is_finite) [[CFin 0]] \<and>
   list_all (list_all (list_all is_finite))
     [[[CFin 2]], [[CFin 0]], [[CFin 0]], [[CFin 0]], [[CFin 0]], [[CFin 0]], [[CFin 0]]]"
proof -
  have a: "Diffdir_execute_forward_3D uk_two [scan0] [[1]] x_large = Inr [[CFin 0]]"
    "DiffdirLL_execute_forward_3D uk_two [scan0] [[1]] x_large = Inr [[CFin 0]]"
    by (simp_all add: Diffdir_execute_forward_3D_def DiffdirLL_execute_forward_3D_def
        arrays_x_large overflow_entry)
  have b: "Diffdir_execute_gradient_3D uk_two [scan0] [[1]] x_large =
     Inr [[[CFin 2]], [[CFin 0]], [[CFin 0]], [[CFin 0]], [[CFin 0]], [[CFin 0]], [[CFin 0]]]"
    "DiffdirLL_execute_gradient_3D uk_two [scan0] [[1]] x_large =
     Inr [[[CFin 2]], [[CFin 0]], [[CFin 0]], [[CFin 0]], [[CFin 0]], [[CFin 0]], [[CFin 0]]]"
    using overflow_grad_entry
    by (simp_all add: Diffdir_execute_gradient_3D_def DiffdirLL_execute_gradient_3D_def
        arrays_x_large)
  show ?thesis
    using a b diffusion_models_zero_nonfinite
      [of uk_two "[scan0]" "[[1]]" x_large "[[CFin 0]]"
        "[[[CFin 2]], [[CFin 0]], [[CFin 0]], [[CFin 0]], [[CFin 0]], [[CFin 0]], [[CFin 0]]]"
        "[[CFin 0]]"
        "[[[CFin 2]], [[CFin 0]], [[CFin 0]], [[CFin 0]], [[CFin 0]], [[CFin 0]], [[CFin 0]]]"]
    by simp
qed

subsection \<open>Balancing the model gradients\<close>

lemma reshape2_nth_row:
  "\<forall>row\<in>set gx. length row = n \<Longrightarrow> i < length gx \<Longrightarrow>
     take n (drop (i * n) (concat gx)) = gx ! i"
proof (induction gx arbitrary: i)
  case Nil
  then show ?case by simp
next
  case (Cons r gx)
  show ?case
  proof (cases i)
    case 0
    with Cons.prems show ?thesis by simp
  next
    case (Suc j)
    with Cons.prems have "take n (drop (j * n) (concat gx)) = gx ! j"
      by (intro Cons.IH) simp_all
    with Suc Cons.prems show ?thesis by simp
  qed
qed

lemma reshape2_id:
  assumes "\<forall>row\<in>set gx. length row = n"
  shows "reshape2 (length gx) n (concat gx) = gx"
  by (rule nth_equalityI) (simp_all add: reshape2_def reshape2_nth_row [OF assms])

lemma length_concat_rows:
  "\<forall>row\<in>set gx. length row = n \<Longrightarrow> length (concat gx) = length gx * n"
  by (induction gx) simp_all

lemma balance_unknown_lengths [simp]:
  "length (b_result (balance_unknown q uk st)) = length (b_result st)"
  "length (b_grad_x (balance_unknown q uk st)) = length (b_grad_x st)"
  "length (b_uk_scale (balance_unknown q uk st)) = length (b_uk_scale st)"
  "length (b_constraints (balance_unknown q uk st)) = length (b_constraints st)"
  by (simp_all add: balance_unknown_def Let_def)

lemma balance_unknown_other:
  assumes "u \<noteq> uk"
  shows "b_result (balance_unknown q uk st) ! u = b_result st ! u"
    and "b_grad_x (balance_unknown q uk st) ! u = b_grad_x st ! u"
    and "b_uk_scale (balance_unknown q uk st) ! u = b_uk_scale st ! u"
  using assms by (simp_all add: balance_unknown_def Let_def)

lemma balance_unknown_this:
  assumes "uk < length (b_result st)" "uk < length (b_grad_x st)" "uk < length (b_uk_scale st)"
  shows "b_uk_scale (balance_unknown q uk st) ! uk = b_uk_scale st ! uk * q"
    and "b_result (balance_unknown q uk st) ! uk =
          map (\<lambda>z. cdivr (z * c64_of_fl (b_uk_scale st ! uk)) (b_uk_scale st ! uk * q))
            (b_result st ! uk)"
    and "b_grad_x (balance_unknown q uk st) ! uk =
          map (\<lambda>z. cdivr z (b_uk_scale st ! uk) * c64_of_fl (b_uk_scale st ! uk * q))
            (b_grad_x st ! uk)"
  using assms by (simp_all add: balance_unknown_def Let_def)

lemma balance_loop_Inr:
  assumes "distinct us"
    and "\<forall>u\<in>set us. u < length scale \<and> u < length (b_constraints st) \<and>
            u < length (b_result st) \<and> u < length (b_uk_scale st) \<and> u < length (b_grad_x st)"
  shows "\<exists>st'. balance_loop scale us st = Inr st' \<and>
     (\<forall>u\<in>set us.
        b_uk_scale st' ! u = b_uk_scale st ! u * scale ! u \<and>
        b_result st' ! u =
          map (\<lambda>z. cdivr (z * c64_of_fl (b_uk_scale st ! u)) (b_uk_scale st ! u * scale ! u))
            (b_result st ! u) \<and>
        b_grad_x st' ! u =
          map (\<lambda>z. cdivr z (b_uk_scale st ! u) * c64_of_fl (b_uk_scale st ! u * scale ! u))
            (b_grad_x st ! u)) \<and>
     (\<forall>u. u \<notin> set us \<longrightarrow>
        b_uk_scale st' ! u = b_uk_scale st ! u \<and> b_result st' ! u = b_result st ! u \<and>
        b_grad_x st' ! u = b_grad_x st ! u)"
  using assms
proof (induction us arbitrary: st)
  case Nil
  then show ?case by simp
next
  case (Cons uk us)
  let ?st1 = "balance_unknown (scale ! uk) uk st"
  have uk: "uk < length scale" "uk < length (b_constraints st)" "uk < length (b_result st)"
    "uk < length (b_uk_scale st)" "uk < length (b_grad_x st)" "uk \<notin> set us" "distinct us"
    using Cons.prems by simp_all
  have pre: "\<forall>u\<in>set us. u < length scale \<and> u < length (b_constraints ?st1) \<and>
            u < length (b_result ?st1) \<and> u < length (b_uk_scale ?st1) \<and>
            u < length (b_grad_x ?st1)"
    using Cons.prems(2) by simp
  from Cons.IH [OF uk(7) pre] obtain st' where st':
    "balance_loop scale us ?st1 = Inr st'"
    "\<forall>u\<in>set us.
        b_uk_scale st' ! u = b_uk_scale ?st1 ! u * scale ! u \<and>
        b_result st' ! u =
          map (\<lambda>z. cdivr (z * c64_of_fl (b_uk_scale ?st1 ! u)) (b_uk_scale ?st1 ! u * scale ! u))
            (b_result ?st1 ! u) \<and>
        b_grad_x st' ! u =
          map (\<lambda>z. cdivr z (b_uk_scale ?st1 ! u) * c64_of_fl (b_uk_scale ?st1 ! u * scale ! u))
            (b_grad_x ?st1 ! u)"
    "\<forall>u. u \<notin> set us \<longrightarrow>
        b_uk_scale st' ! u = b_uk_scale ?st1 ! u \<and> b_result st' ! u = b_result ?st1 ! u \<and>
        b_grad_x st' ! u = b_grad_x ?st1 ! u"
    by blast
  have run: "balance_loop scale (uk # us) st = Inr st'"
    using uk st'(1) by simp
  have a: "\<forall>u\<in>set (uk # us).
        b_uk_scale st' ! u = b_uk_scale st ! u * scale ! u \<and>
        b_result st' ! u =
          map (\<lambda>z. cdivr (z * c64_of_fl (b_uk_scale st ! u)) (b_uk_scale st ! u * scale ! u))
            (b_result st ! u) \<and>
        b_grad_x st' ! u =
          map (\<lambda>z. cdivr z (b_uk_scale st ! u) * c64_of_fl (b_uk_scale st ! u * scale ! u))
            (b_grad_x st ! u)"
  proof
    fix u assume u: "u \<in> set (uk # us)"
    show "b_uk_scale st' ! u = b_uk_scale st ! u * scale ! u \<and>
        b_result st' ! u =
          map (\<lambda>z. cdivr (z * c64_of_fl (b_uk_scale st ! u)) (b_uk_scale st ! u * scale ! u))
            (b_result st ! u) \<and>
        b_grad_x st' ! u =
          map (\<lambda>z. cdivr z (b_uk_scale st ! u) * c64_of_fl (b_uk_scale st ! u * scale ! u))
            (b_grad_x st ! u)"
    proof (cases "u = uk")
      case True
      with st'(3) uk(6) show ?thesis
        by (simp add: balance_unknown_this [OF uk(3) uk(5) uk(4)])
    next
      case False
      with u have "u \<in> set us" by simp
      with st'(2) False show ?thesis
        by (simp add: balance_unknown_other)
    qed
  qed
  have b: "\<forall>u. u \<notin> set (uk # us) \<longrightarrow>
        b_uk_scale st' ! u = b_uk_scale st ! u \<and> b_result st' ! u = b_result st ! u \<and>
        b_grad_x st' ! u = b_grad_x st ! u"
    using st'(3) by (simp add: balance_unknown_other)
  from run a b show ?case by blast
qed

lemma sum_sq_scaled:
  "(\<Sum>z\<leftarrow>map (\<lambda>g. g * complex_of_real c) row. (cmod z)\<^sup>2) = c\<^sup>2 * (\<Sum>z\<leftarrow>row. (cmod z)\<^sup>2)"
  by (induction row) (simp_all add: norm_mult power_mult_distrib algebra_simps)

lemma l2norm_scaled: "l2norm (map (\<lambda>g. g * complex_of_real c) row) = \<bar>c\<bar> * l2norm row"
  unfolding l2norm_def sum_sq_scaled by (simp add: real_sqrt_mult)

lemma l2norm_nonneg: "0 \<le> l2norm row"
  by (auto simp: l2norm_def intro!: sum_list_nonneg)

lemma finite_part_CFin [simp]: "finite_part (map CFin row) = Some row"
  by (induction row) simp_all

text \<open>
  The statements of the loop while no operation leaves the normal range: the product
  by a scale, the quotient by a scale, and the norm of a row.
\<close>

lemma tracks_eq: "tracks a r \<Longrightarrow> r = r' \<Longrightarrow> tracks a r'"
  by simp

lemma ctracks_c64_of_fl: "tracks s q \<Longrightarrow> ctracks (c64_of_fl s) (complex_of_real q)"
  by (simp add: ctracks_def c64_of_fl_def tracks_fl_of)

lemma ctracks_cdivr:
  assumes "ctracks z w" "tracks s q"
  shows "ctracks (cdivr z s) (w / complex_of_real q)"
proof -
  have z: "tracks (re64 z) (Re w)" "tracks (im64 z) (Im w)"
    using assms(1) by (simp_all add: ctracks_def)
  have rat: "tracks (fl_of 0 / s) (0 / q)"
    by (intro tracks_divide tracks_fl_of assms(2))
  have scl: "tracks (fl_of 1 / (s + fl_of 0 * (fl_of 0 / s))) (1 / (q + 0 * (0 / q)))"
    by (intro tracks_divide tracks_plus tracks_times tracks_fl_of assms(2) rat)
  have "tracks ((re64 z + im64 z * (fl_of 0 / s)) * (fl_of 1 / (s + fl_of 0 * (fl_of 0 / s))))
      ((Re w + Im w * (0 / q)) * (1 / (q + 0 * (0 / q))))"
    by (intro tracks_times tracks_plus z rat scl)
  then have re:
    "tracks ((re64 z + im64 z * (fl_of 0 / s)) * (fl_of 1 / (s + fl_of 0 * (fl_of 0 / s))))
      (Re (w / complex_of_real q))"
    by (rule tracks_eq) simp
  have "tracks ((im64 z - re64 z * (fl_of 0 / s)) * (fl_of 1 / (s + fl_of 0 * (fl_of 0 / s))))
      ((Im w - Re w * (0 / q)) * (1 / (q + 0 * (0 / q))))"
    by (intro tracks_times tracks_minus z rat scl)
  then have im:
    "tracks ((im64 z - re64 z * (fl_of 0 / s)) * (fl_of 1 / (s + fl_of 0 * (fl_of 0 / s))))
      (Im (w / complex_of_real q))"
    by (rule tracks_eq) simp
  have zero: "tracks (re64 z / s) (Re (w / complex_of_real q))"
    "tracks (im64 z / s) (Im (w / complex_of_real q))"
    using tracks_divide [OF z(1) assms(2)] tracks_divide [OF z(2) assms(2)] by simp_all
  show ?thesis
    using re im zero by (simp add: cdivr_def ctracks_def Let_def tracks_def)
qed

lemma c_ok_times_D: "c_ok (z * w) \<Longrightarrow> c_ok z \<and> c_ok w"
  unfolding c_ok_def times_c64_def c64.sel
  by (blast dest: ok_minus_D ok_plus_D ok_times_D)

lemma c_ok_cdivr_D:
  assumes "c_ok (cdivr z s)"
  shows "c_ok z \<and> fl_ok s \<and> (\<exists>q. fl_val s = Fin q \<and> q \<noteq> 0)"
proof -
  have nan: "fl_val s \<noteq> NaN"
    using assms by (auto simp: cdivr_def c_ok_def)
  show ?thesis
  proof (cases "fl_val s = Fin 0")
    case True
    with nan assms have "fl_ok (re64 z / s)"
      by (simp add: cdivr_def c_ok_def)
    from ok_divide_D [OF this] True show ?thesis
      by auto
  next
    case False
    with nan assms have ok:
      "fl_ok ((re64 z + im64 z * (fl_of 0 / s)) * (fl_of 1 / (s + fl_of 0 * (fl_of 0 / s))))"
      "fl_ok ((im64 z - re64 z * (fl_of 0 / s)) * (fl_of 1 / (s + fl_of 0 * (fl_of 0 / s))))"
      by (simp_all add: cdivr_def c_ok_def Let_def)
    from ok(1) have a: "fl_ok (re64 z)" "fl_ok (fl_of 0 / s)"
      by (blast dest: ok_times_D ok_plus_D)+
    from ok(2) have b: "fl_ok (im64 z)"
      by (blast dest: ok_times_D ok_minus_D)
    from ok_divide_D [OF a(2)] a(1) b show ?thesis
      by (simp add: c_ok_def)
  qed
qed

lemma c_ok_c64_of_cval_D: "c_ok (c64_of_cval v) \<Longrightarrow> \<exists>x. v = CFin x"
  by (cases v) (simp_all add: c64_of_cval_def c_ok_def)

lemma fl_ok_fl_in_D: "fl_ok (fl_in v) \<Longrightarrow> \<exists>a. v = Fin a"
  by (cases v) (simp_all add: fl_in_def)

lemma fl_in_Fin [simp]: "fl_in (Fin a) = fl_of a"
  by (simp add: fl_in_def fl_of_def)

lemma c64_of_cval_CFin [simp]: "c64_of_cval (CFin x) = cin x"
  by (simp add: c64_of_cval_def)

lemma tracks_foldl_plus:
  "tracks acc a \<Longrightarrow> list_all2 tracks ts rs \<Longrightarrow> tracks (foldl (+) acc ts) (a + sum_list rs)"
proof (induction ts arbitrary: acc a rs)
  case Nil
  then show ?case by simp
next
  case (Cons t ts)
  from Cons.prems(2) obtain r rs' where rs: "rs = r # rs'" "tracks t r" "list_all2 tracks ts rs'"
    by (auto simp: list_all2_Cons1)
  have "tracks (foldl (+) (acc + t) ts) ((a + r) + sum_list rs')"
    by (intro Cons.IH tracks_plus Cons.prems(1) rs)
  then show ?case
    by (simp add: rs(1) add.assoc)
qed

lemma tracks_square_modulus: "tracks (re64 (cconj (cin z) * cin z)) ((cmod z)\<^sup>2)"
proof -
  have "tracks (fl_of (Re z) * fl_of (Re z) - - fl_of (Im z) * fl_of (Im z))
      (Re z * Re z - - Im z * Im z)"
    by (intro tracks_minus tracks_times tracks_uminus tracks_fl_of)
  then show ?thesis
    unfolding times_c64_def cconj_def cin_def c64.sel
    by (rule tracks_eq) (simp add: cmod_power2 power2_eq_square [symmetric])
qed

lemma tracks_norm_complex64: "tracks (norm_complex64 (map cin row)) (l2norm row)"
proof -
  have "list_all2 tracks (map (\<lambda>z. re64 (cconj z * z)) (map cin row))
      (map (\<lambda>z. (cmod z)\<^sup>2) row)"
    by (simp add: list_all2_conv_all_nth tracks_square_modulus)
  from tracks_foldl_plus [OF tracks_fl_of [of 0] this]
  have "tracks (foldl (+) (fl_of 0) (map (\<lambda>z. re64 (cconj z * z)) (map cin row)))
      (\<Sum>z\<leftarrow>row. (cmod z)\<^sup>2)"
    by (simp only: add_0)
  then show ?thesis
    unfolding norm_complex64_def l2norm_def by (rule tracks_sqrt)
qed

lemma tracks_scale:
  "tracks (fl_of 1000 / fl_sqrt (fl_of (real U)) / norm_complex64 (map cin row))
     (1000 / sqrt (real U) / l2norm row)"
  by (intro tracks_divide tracks_sqrt tracks_fl_of tracks_norm_complex64)

lemma tracksD: "tracks a r \<Longrightarrow> fl_ok a \<Longrightarrow> fl_val a = Fin r"
  by (simp add: tracks_def)


lemma upt_0_1: "[0 ..< 1] = [0]"
  by simp

lemma balance_eval:
  "fl_of r = Fl (Fin r) True"
  "c64_of_fl a = C64 a (Fl (Fin 0) True)"
  "cconj (C64 a b) = C64 a (- b)"
  "norm_complex64 row = fl_sqrt (foldl (+) (Fl (Fin 0) True) (map (\<lambda>z. re64 (cconj z * z)) row))"
  by (simp_all add: fl_of_def c64_of_fl_def cconj_def norm_complex64_def)

lemma cdivr_eval:
  "cdivr (C64 (Fl (Fin 1) True) (Fl (Fin 0) True)) (Fl (Fin 500) True) =
     C64 (Fl (Fin (1 / 500)) True) (Fl (Fin 0) True)"
  "cdivr (C64 (Fl (Fin 2) True) (Fl (Fin 0) True)) (Fl (Fin 1) True) =
     C64 (Fl (Fin 2) True) (Fl (Fin 0) True)"
  "cdivr (C64 (Fl (Fin 0) True) (Fl (Fin 0) True)) (Fl (Fin 1) True) =
     C64 (Fl (Fin 0) True) (Fl (Fin 0) True)"
  "cdivr (C64 (Fl (Fin 1) True) (Fl (Fin 0) True)) (Fl PInf False) =
     C64 (Fl (Fin 0) False) (Fl (Fin 0) False)"
  by (simp_all add: cdivr_def Let_def balance_eval c64_eval fl_divide fl_arith_nonfinite)

lemma balance_unit_run:
  "balance_model_gradients 1 1 0 bal_unit =
     Inr \<lparr>b_result = [[C64 (Fl (Fin (1 / 500)) True) (Fl (Fin 0) True)]],
          b_grad_x = [[C64 (Fl (Fin 1000) True) (Fl (Fin 0) True)]],
          b_uk_scale = [Fl (Fin 500) True],
          b_constraints = [\<lparr>c_min = Fin 0, c_max = Fin (1 / 50), c_real = False\<rparr>]\<rparr>"
  unfolding balance_model_gradients_def bal_unit_def
  by (simp add: reshape2_def Let_def upt_0_1 balance_unknown_def
      constraint_update_def constraint0_def)
    (simp add: balance_eval c64_eval fl_divide fl_sqrt_Fin cdivr_eval)

text \<open>
  A Jacobian slice whose square overflows, \<open>[2 ^ 64]\<close>: the norm is an infinity and
  the scale factor zero; \<open>uk_scale[u]\<close> becomes zero, \<open>x[u]\<close> becomes
  \<open>inf + nan j\<close> and \<open>grad_x[u]\<close> becomes zero.
\<close>

lemma balance_overflow_run:
  "balance_model_gradients 1 1 0 bal_large =
     Inr \<lparr>b_result = [[C64 (Fl PInf False) (Fl NaN False)]],
          b_grad_x = [[C64 (Fl (Fin 0) False) (Fl (Fin 0) False)]],
          b_uk_scale = [Fl (Fin 0) False],
          b_constraints = [\<lparr>c_min = NaN, c_max = PInf, c_real = False\<rparr>]\<rparr>"
  unfolding balance_model_gradients_def bal_large_def
  by (simp add: reshape2_def Let_def upt_0_1 balance_unknown_def
      constraint_update_def constraint0_def)
    (simp add: balance_eval c64_eval fl_divide fl_sqrt_Fin cdivr_def fl_arith_nonfinite
      f32_overflow)



subsection \<open>The Jacobian of the diffusion models\<close>

text \<open>
  The unknowns at a voxel are a list of seven numbers. Each entry of the Jacobian
  formula is the complex derivative of the signal formula, times the phase, in one
  unknown.
\<close>


lemma length7E:
  assumes "length (x :: 'a list) = 7"
  obtains x0 x1 x2 x3 x4 x5 x6 where "x = [x0, x1, x2, x3, x4, x5, x6]"
proof -
  from assms obtain x0 r0 where "x = x0 # r0" "length r0 = 6" by (cases x) auto
  moreover then obtain x1 r1 where "r0 = x1 # r1" "length r1 = 5" by (cases r0) auto
  moreover then obtain x2 r2 where "r1 = x2 # r2" "length r2 = 4" by (cases r1) auto
  moreover then obtain x3 r3 where "r2 = x3 # r3" "length r3 = 3" by (cases r2) auto
  moreover then obtain x4 r4 where "r3 = x4 # r4" "length r4 = 2" by (cases r3) auto
  moreover then obtain x5 r5 where "r4 = x5 # r5" "length r5 = 1" by (cases r4) auto
  moreover then obtain x6 where "r5 = [x6]" by (cases r5) auto
  ultimately show ?thesis using that by simp
qed

lemma less7E:
  assumes "u < (7 :: nat)"
  obtains "u = 0" | "u = 1" | "u = 2" | "u = 3" | "u = 4" | "u = 5" | "u = 6"
  using assms by linarith

lemma nth7 [simp]:
  "[a, b, c, d, e, f, g] ! 1 = b" "[a, b, c, d, e, f, g] ! 2 = c" "[a, b, c, d, e, f, g] ! 3 = d"
  "[a, b, c, d, e, f, g] ! 4 = e" "[a, b, c, d, e, f, g] ! 5 = f" "[a, b, c, d, e, f, g] ! 6 = g"
  by (simp_all add: nth_Cons' )

lemma upd7:
  "[a, b, c, d, e, f, g][1 := z] = [a, z, c, d, e, f, g]"
  "[a, b, c, d, e, f, g][2 := z] = [a, b, z, d, e, f, g]"
  "[a, b, c, d, e, f, g][3 := z] = [a, b, c, z, e, f, g]"
  "[a, b, c, d, e, f, g][4 := z] = [a, b, c, d, z, f, g]"
  "[a, b, c, d, e, f, g][5 := z] = [a, b, c, d, e, z, g]"
  "[a, b, c, d, e, f, g][6 := z] = [a, b, c, d, e, f, z]"
  by (simp_all add: list_update_code numeral_eq_Suc)

lemma Diffdir_partial:
  assumes "length x = 7" "u < 7"
  shows "((\<lambda>z. Diffdir_signal uk s (x[u := z]) * ph) has_field_derivative
            Diffdir_grad uk s ph x ! u) (at (x ! u))"
proof -
  from assms(1) obtain x0 x1 x2 x3 x4 x5 x6 where x: "x = [x0, x1, x2, x3, x4, x5, x6]"
    by (rule length7E)
  from assms(2) show ?thesis
    unfolding x
    by (elim less7E)
       (auto simp: upd7 Diffdir_signal_def Diffdir_ADC_def Diffdir_grad_def Let_def
          intro!: derivative_eq_intros simp: algebra_simps)
qed

lemma DiffdirLL_partial:
  assumes "length x = 7" "u < 7"
  shows "((\<lambda>z. DiffdirLL_signal uk s (x[u := z]) * ph) has_field_derivative
            DiffdirLL_grad uk s ph x ! u) (at (x ! u))"
proof -
  from assms(1) obtain x0 x1 x2 x3 x4 x5 x6 where x: "x = [x0, x1, x2, x3, x4, x5, x6]"
    by (rule length7E)
  from assms(2) show ?thesis
    unfolding x
    by (elim less7E)
       (auto simp: upd7 DiffdirLL_signal_def DiffdirLL_ADC_def DiffdirLL_grad_def Let_def
          intro!: derivative_eq_intros simp: algebra_simps power2_eq_square)
qed

text \<open>
  First-order agreement. The signal is \<open>x\<^sub>0 * k * exp (w x)\<close> with \<open>w\<close> a polynomial of
  degree at most two in the other unknowns, so \<open>w (x + d) = w x + L d + R d\<close> with \<open>L\<close>
  linear and \<open>R\<close> quadratic in \<open>d\<close>.
\<close>

lemma exp_first_order:
  assumes "0 < eta"
  shows "\<exists>del>0. \<forall>h::complex. cmod h < del \<longrightarrow> cmod (exp h - 1 - h) \<le> eta * cmod h"
proof -
  have "(exp has_field_derivative 1) (at (0::complex))"
    using DERIV_exp [of "0::complex"] by simp
  then have "(\<lambda>h. (exp h - 1) / h) \<midarrow>0\<rightarrow> (1::complex)"
    by (simp add: DERIV_def)
  from LIM_D [OF this assms] obtain del where del: "0 < del"
    "\<And>h::complex. h \<noteq> 0 \<Longrightarrow> cmod h < del \<Longrightarrow> cmod ((exp h - 1) / h - 1) < eta"
    by auto
  have "\<forall>h::complex. cmod h < del \<longrightarrow> cmod (exp h - 1 - h) \<le> eta * cmod h"
  proof (intro allI impI)
    fix h :: complex assume h: "cmod h < del"
    show "cmod (exp h - 1 - h) \<le> eta * cmod h"
    proof (cases "h = 0")
      case True then show ?thesis by simp
    next
      case False
      then have "exp h - 1 - h = h * ((exp h - 1) / h - 1)"
        by (simp add: field_simps)
      then have "cmod (exp h - 1 - h) = cmod h * cmod ((exp h - 1) / h - 1)"
        by (simp only: norm_mult)
      also have "\<dots> \<le> cmod h * eta"
        using del(2) [OF False h] by (intro mult_left_mono) simp_all
      finally show ?thesis by (simp add: mult.commute)
    qed
  qed
  with del(1) show ?thesis by blast
qed

lemma pnorm_nonneg: "0 \<le> pnorm d"
  by (auto simp: pnorm_def intro!: sum_list_nonneg)

lemma pnorm_Cons [simp]: "pnorm (e # d) = cmod e + pnorm d"
  by (simp add: pnorm_def)

lemma pnorm_Nil [simp]: "pnorm [] = 0"
  by (simp add: pnorm_def)

lemma zip_sum_bound:
  assumes "0 \<le> K" "\<forall>c\<in>set cs. cmod c \<le> K"
  shows "cmod (\<Sum>(c, e)\<leftarrow>zip cs d. c * e) \<le> K * pnorm d"
  using assms
proof (induction cs arbitrary: d)
  case Nil
  then show ?case by (simp add: pnorm_nonneg)
next
  case (Cons c cs)
  show ?case
  proof (cases d)
    case Nil
    then show ?thesis using Cons.prems by simp
  next
    case (Cons e d')
    have "cmod (c * e + (\<Sum>(c, e)\<leftarrow>zip cs d'. c * e))
        \<le> cmod (c * e) + cmod (\<Sum>(c, e)\<leftarrow>zip cs d'. c * e)"
      by (rule norm_triangle_ineq)
    also have "cmod (c * e) \<le> K * cmod e"
      using Cons.prems by (simp add: norm_mult mult_right_mono)
    also have "cmod (\<Sum>(c, e)\<leftarrow>zip cs d'. c * e) \<le> K * pnorm d'"
      using Cons.prems by (intro Cons.IH) simp_all
    finally show ?thesis using Cons by (simp add: algebra_simps)
  qed
qed

lemma cmod_le_pnorm: "c \<in> set cs \<Longrightarrow> cmod c \<le> pnorm cs"
  by (induction cs) (auto simp: pnorm_nonneg intro: order_trans)

lemma zip_sum_pnorm: "cmod (\<Sum>(c, e)\<leftarrow>zip cs d. c * e) \<le> pnorm cs * pnorm d"
  by (rule zip_sum_bound) (simp_all add: cmod_le_pnorm pnorm_nonneg)

lemma frac_bound:
  fixes P eps :: real
  assumes "0 \<le> P" "0 < eps"
  shows "P * (eps / (2 * (P + 1))) \<le> eps / 2"
proof -
  have "P * (eps / (2 * (P + 1))) = (eps / 2) * (P / (P + 1))"
    by simp
  also have "\<dots> \<le> (eps / 2) * 1"
    using assms by (intro mult_left_mono) simp_all
  finally show ?thesis by simp
qed

lemma exp_product_first_order:
  fixes w L R :: "complex list \<Rightarrow> complex" and k x0 :: complex
  assumes A: "0 \<le> A" and C: "0 \<le> C"
    and split: "\<And>d. length d = n \<Longrightarrow> w (map2 (+) x d) = w x + L d + R d"
    and Lb: "\<And>d. length d = n \<Longrightarrow> cmod (L d) \<le> A * pnorm d"
    and Rb: "\<And>d. length d = n \<Longrightarrow> cmod (R d) \<le> C * (pnorm d * pnorm d)"
    and hd: "\<And>d. length d = n \<Longrightarrow> cmod (d ! 0) \<le> pnorm d"
    and eps: "0 < eps"
  shows "\<exists>del>0. \<forall>d. length d = n \<longrightarrow> pnorm d < del \<longrightarrow>
     cmod ((x0 + d ! 0) * k * exp (w (map2 (+) x d)) - x0 * k * exp (w x)
           - (k * exp (w x) * (d ! 0) + x0 * k * exp (w x) * L d)) \<le> eps * pnorm d"
proof -
  define E where "E = cmod (k * exp (w x))"
  define X where "X = cmod x0"
  define B where "B = A + C"
  define P where "P = E * X * B"
  define Q where "Q = E * (X * C + 2 * B)"
  have E: "0 \<le> E" and X: "0 \<le> X" and B: "0 \<le> B"
    using A C by (simp_all add: E_def X_def B_def)
  have P: "0 \<le> P" and Q: "0 \<le> Q"
    using E X B C by (simp_all add: P_def Q_def)
  define eta where "eta = min 1 (eps / (2 * (P + 1)))"
  have eta: "0 < eta" "eta \<le> 1"
    using eps P by (simp_all add: eta_def)
  have "P * eta \<le> P * (eps / (2 * (P + 1)))"
    using P by (intro mult_left_mono) (simp_all add: eta_def)
  also have "\<dots> \<le> eps / 2"
    using P eps by (rule frac_bound)
  finally have Peta: "P * eta \<le> eps / 2" .
  from exp_first_order [OF eta(1)] obtain d1 where d1: "0 < d1"
    "\<And>h::complex. cmod h < d1 \<Longrightarrow> cmod (exp h - 1 - h) \<le> eta * cmod h"
    by blast
  define del where "del = min 1 (min (d1 / (B + 1)) (eps / (2 * (Q + 1))))"
  have del: "0 < del"
    using d1(1) B Q eps by (simp add: del_def)
  have "\<forall>d. length d = n \<longrightarrow> pnorm d < del \<longrightarrow>
     cmod ((x0 + d ! 0) * k * exp (w (map2 (+) x d)) - x0 * k * exp (w x)
           - (k * exp (w x) * (d ! 0) + x0 * k * exp (w x) * L d)) \<le> eps * pnorm d"
  proof (intro allI impI)
    fix d :: "complex list"
    assume len: "length d = n" and small: "pnorm d < del"
    define N where "N = pnorm d"
    have N: "0 \<le> N" by (simp add: N_def pnorm_nonneg)
    have N1: "N < 1" and N2: "N < d1 / (B + 1)" and N3: "N < eps / (2 * (Q + 1))"
      using small by (simp_all add: N_def del_def)
    have NN: "N * N \<le> N"
      using N N1 mult_left_le [of N N] by simp
    define h where "h = L d + R d"
    have "cmod h \<le> cmod (L d) + cmod (R d)"
      unfolding h_def by (rule norm_triangle_ineq)
    also have "\<dots> \<le> A * N + C * (N * N)"
      using Lb [OF len] Rb [OF len] by (simp add: N_def)
    also have "\<dots> \<le> A * N + C * N"
      using mult_left_mono [OF NN C] by simp
    finally have hB: "cmod h \<le> B * N"
      by (simp add: B_def algebra_simps)
    have "B * N \<le> (B + 1) * N"
      using N by (simp add: algebra_simps)
    also have "\<dots> < d1"
      using N2 B by (simp add: field_simps)
    finally have "cmod h < d1"
      using hB by simp
    from d1(2) [OF this] have "cmod (exp h - 1 - h) \<le> eta * cmod h" .
    also have "\<dots> \<le> eta * (B * N)"
      using hB eta(1) by (intro mult_left_mono) simp_all
    finally have e1: "cmod (exp h - 1 - h) \<le> eta * (B * N)" .
    have "eta * (B * N) \<le> 1 * (B * N)"
      using eta(2) B N by (intro mult_right_mono) simp_all
    then have e1': "cmod (exp h - 1 - h) \<le> B * N"
      using e1 by simp
    have "exp h - 1 = (exp h - 1 - h) + h"
      by simp
    then have "cmod (exp h - 1) \<le> cmod (exp h - 1 - h) + cmod h"
      by (metis norm_triangle_ineq)
    then have e2: "cmod (exp h - 1) \<le> 2 * (B * N)"
      using e1' hB by simp
    have d0: "cmod (d ! 0) \<le> N"
      using hd [OF len] by (simp add: N_def)
    have Rd: "cmod (R d) \<le> C * (N * N)"
      using Rb [OF len] by (simp add: N_def)
    have ident: "(x0 + d ! 0) * k * exp (w (map2 (+) x d)) - x0 * k * exp (w x)
           - (k * exp (w x) * (d ! 0) + x0 * k * exp (w x) * L d)
        = (k * exp (w x)) * (x0 * (exp h - 1 - h) + x0 * R d + d ! 0 * (exp h - 1))"
      unfolding split [OF len] h_def
      by (simp add: exp_add algebra_simps)
    have t1: "cmod (x0 * (exp h - 1 - h)) \<le> X * (eta * (B * N))"
      unfolding norm_mult X_def using e1 by (intro mult_left_mono) simp_all
    have t2: "cmod (x0 * R d) \<le> X * (C * (N * N))"
      unfolding norm_mult X_def using Rd by (intro mult_left_mono) simp_all
    have t3: "cmod (d ! 0 * (exp h - 1)) \<le> N * (2 * (B * N))"
      unfolding norm_mult using d0 e2 N by (intro mult_mono) simp_all
    have "cmod (x0 * (exp h - 1 - h) + x0 * R d + d ! 0 * (exp h - 1))
        \<le> cmod (x0 * (exp h - 1 - h)) + cmod (x0 * R d) + cmod (d ! 0 * (exp h - 1))"
      by (rule norm_triangle_le, rule add_mono, rule norm_triangle_ineq, rule order_refl)
    also have "\<dots> \<le> X * (eta * (B * N)) + X * (C * (N * N)) + N * (2 * (B * N))"
      using t1 t2 t3 by simp
    finally have inner: "cmod (x0 * (exp h - 1 - h) + x0 * R d + d ! 0 * (exp h - 1))
        \<le> X * (eta * (B * N)) + X * (C * (N * N)) + N * (2 * (B * N))" .
    have "cmod ((k * exp (w x)) * (x0 * (exp h - 1 - h) + x0 * R d + d ! 0 * (exp h - 1)))
        = E * cmod (x0 * (exp h - 1 - h) + x0 * R d + d ! 0 * (exp h - 1))"
      by (simp only: norm_mult E_def)
    also have "\<dots> \<le> E * (X * (eta * (B * N)) + X * (C * (N * N)) + N * (2 * (B * N)))"
      using inner E by (rule mult_left_mono)
    also have "\<dots> = (P * eta) * N + (Q * N) * N"
      by (simp add: P_def Q_def algebra_simps)
    also have "\<dots> \<le> (eps / 2) * N + (eps / 2) * N"
    proof (rule add_mono)
      show "P * eta * N \<le> eps / 2 * N"
        using Peta N by (rule mult_right_mono)
      have "Q * N \<le> Q * (eps / (2 * (Q + 1)))"
        using N3 Q by (intro mult_left_mono) simp_all
      also have "\<dots> \<le> eps / 2"
        using Q eps by (rule frac_bound)
      finally show "Q * N * N \<le> eps / 2 * N"
        using N by (rule mult_right_mono)
    qed
    also have "\<dots> = eps * N"
      by simp
    finally show "cmod ((x0 + d ! 0) * k * exp (w (map2 (+) x d)) - x0 * k * exp (w x)
           - (k * exp (w x) * (d ! 0) + x0 * k * exp (w x) * L d)) \<le> eps * pnorm d"
      unfolding ident N_def .
  qed
  with del show ?thesis by blast
qed

lemma hd_le_pnorm7:
  assumes "length d = 7"
  shows "cmod (d ! 0) \<le> pnorm d"
  using assms by (elim length7E) (simp add: pnorm_nonneg add_increasing2)

lemma map2_plus_nth0:
  assumes "length x = 7" "length d = 7"
  shows "map2 (+) x d ! 0 = x ! 0 + d ! 0"
  using assms by simp

lemma Diffdir_first_order:
  assumes "length x = 7"
  shows "first_order (\<lambda>y. Diffdir_signal uk s y * ph) x (Diffdir_grad uk s ph x)"
proof -
  define cs where "cs = [0, ukc uk 1 * (dir0 s)\<^sup>2, 2 * ukc uk 2 * dir0 s * dir1 s,
    ukc uk 3 * (dir1 s)\<^sup>2, 2 * ukc uk 4 * dir0 s * dir2 s, ukc uk 5 * (dir2 s)\<^sup>2,
    2 * ukc uk 6 * dir1 s * dir2 s]"
  define w where "w = (\<lambda>y. - Diffdir_ADC uk s y * bval s)"
  define L where "L = (\<lambda>d. - Diffdir_ADC uk s d * bval s)"
  define k where "k = ukc uk 0 * ph"
  define A where "A = cmod (bval s) * pnorm cs"
  have A: "0 \<le> A"
    by (simp add: A_def pnorm_nonneg)
  have lin: "Diffdir_ADC uk s d = (\<Sum>(c, e)\<leftarrow>zip cs d. c * e)" if "length d = 7" for d
    using that by (elim length7E) (simp add: cs_def Diffdir_ADC_def algebra_simps)
  have split: "w (map2 (+) x d) = w x + L d + (\<lambda>d. 0) d" if "length d = 7" for d
    using assms that
    by (elim length7E) (simp add: w_def L_def Diffdir_ADC_def algebra_simps)
  have Lb: "cmod (L d) \<le> A * pnorm d" if "length d = 7" for d
  proof -
    have "cmod (L d) = cmod (bval s) * cmod (\<Sum>(c, e)\<leftarrow>zip cs d. c * e)"
      by (simp add: L_def lin [OF that] norm_mult mult.commute)
    also have "\<dots> \<le> cmod (bval s) * (pnorm cs * pnorm d)"
      by (intro mult_left_mono zip_sum_pnorm) simp
    finally show ?thesis by (simp add: A_def mult.assoc)
  qed
  have Rb: "cmod ((\<lambda>d. 0 :: complex) d) \<le> 0 * (pnorm d * pnorm d)" for d :: "complex list"
    by simp
  have lint: "k * exp (w x) * (d ! 0) + x ! 0 * k * exp (w x) * L d
      = (\<Sum>(g, e)\<leftarrow>zip (Diffdir_grad uk s ph x) d. g * e)" if "length d = 7" for d
    using that
    by (elim length7E)
       (simp add: k_def w_def L_def cs_def Diffdir_grad_def Let_def lin algebra_simps)
  show ?thesis
    unfolding first_order_def
  proof (intro allI impI)
    fix eps :: real assume eps: "0 < eps"
    from exp_product_first_order [where w = w and L = L and R = "\<lambda>d. 0" and n = 7
        and A = A and C = 0 and x = x and ?x0.0 = "x ! 0" and k = k and eps = eps,
        OF A order_refl split Lb Rb hd_le_pnorm7 eps]
    obtain del where del: "0 < del" and bound: "\<And>d. length d = 7 \<Longrightarrow> pnorm d < del \<Longrightarrow>
       cmod ((x ! 0 + d ! 0) * k * exp (w (map2 (+) x d)) - x ! 0 * k * exp (w x)
           - (k * exp (w x) * (d ! 0) + x ! 0 * k * exp (w x) * L d)) \<le> eps * pnorm d"
      by blast
    have "\<forall>d. length d = length x \<longrightarrow> pnorm d < del \<longrightarrow>
        cmod (Diffdir_signal uk s (map2 (+) x d) * ph - Diffdir_signal uk s x * ph
              - (\<Sum>(gu, e)\<leftarrow>zip (Diffdir_grad uk s ph x) d. gu * e)) \<le> eps * pnorm d"
    proof (intro allI impI)
      fix d :: "complex list"
      assume "length d = length x" and small: "pnorm d < del"
      then have len: "length d = 7" using assms by simp
      have eq: "Diffdir_signal uk s (map2 (+) x d) * ph - Diffdir_signal uk s x * ph
              - (\<Sum>(gu, e)\<leftarrow>zip (Diffdir_grad uk s ph x) d. gu * e)
          = (x ! 0 + d ! 0) * k * exp (w (map2 (+) x d)) - x ! 0 * k * exp (w x)
           - (k * exp (w x) * (d ! 0) + x ! 0 * k * exp (w x) * L d)"
        unfolding lint [OF len] Diffdir_signal_def map2_plus_nth0 [OF assms len]
        by (simp add: k_def w_def)
      show "cmod (Diffdir_signal uk s (map2 (+) x d) * ph - Diffdir_signal uk s x * ph
              - (\<Sum>(gu, e)\<leftarrow>zip (Diffdir_grad uk s ph x) d. gu * e)) \<le> eps * pnorm d"
        unfolding eq by (rule bound [OF len small])
    qed
    with del show "\<exists>del>0. \<forall>d. length d = length x \<longrightarrow> pnorm d < del \<longrightarrow>
        cmod (Diffdir_signal uk s (map2 (+) x d) * ph - Diffdir_signal uk s x * ph
              - (\<Sum>(gu, e)\<leftarrow>zip (Diffdir_grad uk s ph x) d. gu * e)) \<le> eps * pnorm d"
      by blast
  qed
qed

lemma DiffdirLL_ADC_quadratic:
  "\<exists>K\<ge>0. \<forall>d. length d = 7 \<longrightarrow> cmod (DiffdirLL_ADC uk s d) \<le> K * (pnorm d * pnorm d)"
proof -
  define r1 where "r1 = [0, 2 * (ukc uk 1)\<^sup>2 * (dir0 s)\<^sup>2, 2 * ukc uk 1 * ukc uk 2 * dir0 s * dir1 s,
    0, 2 * ukc uk 1 * ukc uk 4 * dir0 s * dir2 s, 0, 0]"
  define r2 where "r2 = [0, 2 * ukc uk 1 * ukc uk 2 * dir0 s * dir1 s, 2 * (ukc uk 2)\<^sup>2 * (dir1 s)\<^sup>2,
    0, 2 * ukc uk 2 * ukc uk 4 * dir1 s * dir2 s, 0, 0]"
  define r3 where "r3 = [0, 0, 0, 2 * (ukc uk 3)\<^sup>2 * (dir1 s)\<^sup>2, 0, 0,
    2 * ukc uk 3 * ukc uk 6 * dir1 s * dir2 s]"
  define r4 where "r4 = [0, 2 * ukc uk 1 * ukc uk 4 * dir0 s * dir2 s,
    2 * ukc uk 2 * ukc uk 4 * dir1 s * dir2 s, 0, 2 * (ukc uk 4)\<^sup>2 * (dir2 s)\<^sup>2, 0, 0]"
  define r5 where "r5 = [0, 0, 0, 0, 0, 2 * (ukc uk 5)\<^sup>2 * (dir2 s)\<^sup>2, 0 :: complex]"
  define r6 where "r6 = [0, 0, 0, 2 * ukc uk 3 * ukc uk 6 * dir1 s * dir2 s, 0, 0,
    2 * (ukc uk 6)\<^sup>2 * (dir2 s)\<^sup>2]"
  define row where "row = (\<lambda>r (d :: complex list). \<Sum>(c, e)\<leftarrow>zip r d. c * e)"
  define K where "K = pnorm r1 + pnorm r2 + pnorm r3 + pnorm r4 + pnorm r5 + pnorm r6"
  have K: "0 \<le> K"
    by (simp add: K_def pnorm_nonneg)
  have rows: "cmod (row r d) \<le> K * pnorm d" if "r \<in> {r1, r2, r3, r4, r5, r6}" for r d
  proof -
    have "cmod (row r d) \<le> pnorm r * pnorm d"
      unfolding row_def by (rule zip_sum_pnorm)
    also have "pnorm r \<le> K"
      using that pnorm_nonneg [of r1] pnorm_nonneg [of r2] pnorm_nonneg [of r3]
        pnorm_nonneg [of r4] pnorm_nonneg [of r5] pnorm_nonneg [of r6]
      by (auto simp: K_def)
    finally show ?thesis
      by (simp add: mult_right_mono pnorm_nonneg)
  qed
  have euler: "2 * DiffdirLL_ADC uk s d
      = (\<Sum>(c, e)\<leftarrow>zip [0, row r1 d, row r2 d, row r3 d, row r4 d, row r5 d, row r6 d] d. c * e)"
    if "length d = 7" for d
    using that
    by (elim length7E)
       (simp add: row_def r1_def r2_def r3_def r4_def r5_def r6_def DiffdirLL_ADC_def
          power2_eq_square algebra_simps)
  have "\<forall>d. length d = 7 \<longrightarrow> cmod (DiffdirLL_ADC uk s d) \<le> K * (pnorm d * pnorm d)"
  proof (intro allI impI)
    fix d :: "complex list" assume len: "length d = 7"
    have "2 * cmod (DiffdirLL_ADC uk s d) = cmod (2 * DiffdirLL_ADC uk s d)"
      by (simp add: norm_mult)
    also have "\<dots> \<le> (K * pnorm d) * pnorm d"
      unfolding euler [OF len]
      by (rule zip_sum_bound) (auto simp: K pnorm_nonneg rows)
    finally have "2 * cmod (DiffdirLL_ADC uk s d) \<le> K * (pnorm d * pnorm d)"
      by (simp add: mult.assoc)
    moreover have "cmod (DiffdirLL_ADC uk s d) \<le> 2 * cmod (DiffdirLL_ADC uk s d)"
      by simp
    ultimately show "cmod (DiffdirLL_ADC uk s d) \<le> K * (pnorm d * pnorm d)"
      by (rule order_trans [rotated])
  qed
  with K show ?thesis by blast
qed

lemma DiffdirLL_first_order:
  assumes "length x = 7"
  shows "first_order (\<lambda>y. DiffdirLL_signal uk s y * ph) x (DiffdirLL_grad uk s ph x)"
proof -
  define cs where "cs = [0,
    2 * x ! 1 * (ukc uk 1)\<^sup>2 * (dir0 s)\<^sup>2
      + 2 * ukc uk 1 * x ! 2 * ukc uk 2 * dir0 s * dir1 s
      + 2 * ukc uk 1 * x ! 4 * ukc uk 4 * dir0 s * dir2 s,
    2 * x ! 1 * ukc uk 1 * ukc uk 2 * dir0 s * dir1 s
      + 2 * x ! 2 * (ukc uk 2)\<^sup>2 * (dir1 s)\<^sup>2
      + 2 * ukc uk 2 * x ! 4 * ukc uk 4 * dir1 s * dir2 s,
    2 * x ! 3 * (ukc uk 3)\<^sup>2 * (dir1 s)\<^sup>2
      + 2 * ukc uk 3 * x ! 6 * ukc uk 6 * dir1 s * dir2 s,
    2 * x ! 1 * ukc uk 1 * ukc uk 4 * dir0 s * dir2 s
      + 2 * x ! 2 * ukc uk 2 * ukc uk 4 * dir1 s * dir2 s
      + 2 * x ! 4 * (ukc uk 4)\<^sup>2 * (dir2 s)\<^sup>2,
    2 * x ! 5 * (ukc uk 5)\<^sup>2 * (dir2 s)\<^sup>2,
    2 * x ! 3 * ukc uk 3 * ukc uk 6 * dir1 s * dir2 s
      + 2 * x ! 6 * (ukc uk 6)\<^sup>2 * (dir2 s)\<^sup>2]"
  define lin where "lin = (\<lambda>d :: complex list. \<Sum>(c, e)\<leftarrow>zip cs d. c * e)"
  define w where "w = (\<lambda>y. - DiffdirLL_ADC uk s y * bval s)"
  define L where "L = (\<lambda>d. - lin d * bval s)"
  define R where "R = (\<lambda>d. - DiffdirLL_ADC uk s d * bval s)"
  define k where "k = ukc uk 0 * ph"
  define A where "A = cmod (bval s) * pnorm cs"
  obtain K where K: "0 \<le> K"
    and quad: "\<And>d. length d = 7 \<Longrightarrow> cmod (DiffdirLL_ADC uk s d) \<le> K * (pnorm d * pnorm d)"
    using DiffdirLL_ADC_quadratic [of uk s] by blast
  define C where "C = cmod (bval s) * K"
  have A: "0 \<le> A" and C: "0 \<le> C"
    using K by (simp_all add: A_def C_def pnorm_nonneg)
  have polar: "DiffdirLL_ADC uk s (map2 (+) x d)
      = DiffdirLL_ADC uk s x + lin d + DiffdirLL_ADC uk s d" if "length d = 7" for d
    using assms that
    by (elim length7E)
       (simp add: lin_def cs_def DiffdirLL_ADC_def power2_eq_square algebra_simps)
  have split: "w (map2 (+) x d) = w x + L d + R d" if "length d = 7" for d
    by (simp add: w_def L_def R_def polar [OF that] algebra_simps)
  have Lb: "cmod (L d) \<le> A * pnorm d" if "length d = 7" for d
  proof -
    have "cmod (L d) = cmod (bval s) * cmod (\<Sum>(c, e)\<leftarrow>zip cs d. c * e)"
      by (simp add: L_def lin_def norm_mult mult.commute)
    also have "\<dots> \<le> cmod (bval s) * (pnorm cs * pnorm d)"
      by (intro mult_left_mono zip_sum_pnorm) simp
    finally show ?thesis by (simp add: A_def mult.assoc)
  qed
  have Rb: "cmod (R d) \<le> C * (pnorm d * pnorm d)" if "length d = 7" for d
  proof -
    have "cmod (R d) = cmod (bval s) * cmod (DiffdirLL_ADC uk s d)"
      by (simp add: R_def norm_mult mult.commute)
    also have "\<dots> \<le> cmod (bval s) * (K * (pnorm d * pnorm d))"
      by (intro mult_left_mono quad [OF that]) simp
    finally show ?thesis by (simp add: C_def mult.assoc)
  qed
  have lint: "k * exp (w x) * (d ! 0) + x ! 0 * k * exp (w x) * L d
      = (\<Sum>(g, e)\<leftarrow>zip (DiffdirLL_grad uk s ph x) d. g * e)" if "length d = 7" for d
    using that
    by (elim length7E)
       (simp add: k_def w_def L_def lin_def cs_def DiffdirLL_grad_def Let_def algebra_simps)
  show ?thesis
    unfolding first_order_def
  proof (intro allI impI)
    fix eps :: real assume eps: "0 < eps"
    from exp_product_first_order [where w = w and L = L and R = R and n = 7
        and A = A and C = C and x = x and ?x0.0 = "x ! 0" and k = k and eps = eps,
        OF A C split Lb Rb hd_le_pnorm7 eps]
    obtain del where del: "0 < del" and bound: "\<And>d. length d = 7 \<Longrightarrow> pnorm d < del \<Longrightarrow>
       cmod ((x ! 0 + d ! 0) * k * exp (w (map2 (+) x d)) - x ! 0 * k * exp (w x)
           - (k * exp (w x) * (d ! 0) + x ! 0 * k * exp (w x) * L d)) \<le> eps * pnorm d"
      by blast
    have "\<forall>d. length d = length x \<longrightarrow> pnorm d < del \<longrightarrow>
        cmod (DiffdirLL_signal uk s (map2 (+) x d) * ph - DiffdirLL_signal uk s x * ph
              - (\<Sum>(gu, e)\<leftarrow>zip (DiffdirLL_grad uk s ph x) d. gu * e)) \<le> eps * pnorm d"
    proof (intro allI impI)
      fix d :: "complex list"
      assume "length d = length x" and small: "pnorm d < del"
      then have len: "length d = 7" using assms by simp
      have eq: "DiffdirLL_signal uk s (map2 (+) x d) * ph - DiffdirLL_signal uk s x * ph
              - (\<Sum>(gu, e)\<leftarrow>zip (DiffdirLL_grad uk s ph x) d. gu * e)
          = (x ! 0 + d ! 0) * k * exp (w (map2 (+) x d)) - x ! 0 * k * exp (w x)
           - (k * exp (w x) * (d ! 0) + x ! 0 * k * exp (w x) * L d)"
        unfolding lint [OF len] DiffdirLL_signal_def map2_plus_nth0 [OF assms len]
        by (simp add: k_def w_def)
      show "cmod (DiffdirLL_signal uk s (map2 (+) x d) * ph - DiffdirLL_signal uk s x * ph
              - (\<Sum>(gu, e)\<leftarrow>zip (DiffdirLL_grad uk s ph x) d. gu * e)) \<le> eps * pnorm d"
        unfolding eq by (rule bound [OF len small])
    qed
    with del show "\<exists>del>0. \<forall>d. length d = length x \<longrightarrow> pnorm d < del \<longrightarrow>
        cmod (DiffdirLL_signal uk s (map2 (+) x d) * ph - DiffdirLL_signal uk s x * ph
              - (\<Sum>(gu, e)\<leftarrow>zip (DiffdirLL_grad uk s ph x) d. gu * e)) \<le> eps * pnorm d"
      by blast
  qed
qed

lemma length_voxel [simp]: "length (voxel x v) = 7"
  by (simp add: voxel_def)

lemma model_forward_nth:
  assumes "model_forward signal uk scans phase x = Inr S"
    and "i < length scans" "v < length (x ! 0)"
  shows "S ! i ! v = forward_entry signal uk (scans ! i) (phase ! i ! v) (voxel x v)"
  using assms by (auto simp: model_forward_def split: if_splits)

lemma model_gradient_nth:
  assumes "model_gradient grad uk scans phase x = Inr G"
    and "u < 7" "i < length scans" "v < length (x ! 0)"
  shows "G ! u ! i ! v = gradient_entry grad uk (scans ! i) (phase ! i ! v) (voxel x v) u"
  using assms by (auto simp: model_gradient_def split: if_splits)

text \<open>
  While no operation leaves the normal range, the program computes the formulas.
\<close>

lemma Diffdir_ADC_tracks: "ctracks (Diffdir_ADC_c64 uk s x) (Diffdir_ADC uk s x)"
  unfolding Diffdir_ADC_c64_def Diffdir_ADC_def ukc_def dir0_def dir1_def dir2_def
  by (intro ctracks_intros)

lemma Diffdir_forward_tracks:
  "ctracks (Diffdir_forward_c64 uk s ph x) (Diffdir_signal uk s x * ph)"
  unfolding Diffdir_forward_c64_def Diffdir_signal_def ukc_def bval_def
  by (intro ctracks_intros Diffdir_ADC_tracks)

lemma Diffdir_grad_tracks:
  "list_all2 ctracks (Diffdir_grad_c64 uk s ph x) (Diffdir_grad uk s ph x)"
  unfolding Diffdir_grad_c64_def Diffdir_grad_def Let_def ukc_def dir0_def dir1_def dir2_def
    bval_def list_all2_Cons list.rel_inject
  by (intro conjI ctracks_intros Diffdir_ADC_tracks list.rel_intros)

lemma DiffdirLL_ADC_tracks: "ctracks (DiffdirLL_ADC_c64 uk s x) (DiffdirLL_ADC uk s x)"
  unfolding DiffdirLL_ADC_c64_def DiffdirLL_ADC_def ukc_def dir0_def dir1_def dir2_def
  by (intro ctracks_intros)

lemma DiffdirLL_forward_tracks:
  "ctracks (DiffdirLL_forward_c64 uk s ph x) (DiffdirLL_signal uk s x * ph)"
  unfolding DiffdirLL_forward_c64_def DiffdirLL_signal_def ukc_def bval_def
  by (intro ctracks_intros DiffdirLL_ADC_tracks)

lemma DiffdirLL_grad_tracks:
  "list_all2 ctracks (DiffdirLL_grad_c64 uk s ph x) (DiffdirLL_grad uk s ph x)"
  unfolding DiffdirLL_grad_c64_def DiffdirLL_grad_def Let_def ukc_def dir0_def dir1_def
    dir2_def bval_def list_all2_Cons list.rel_inject
  by (intro conjI ctracks_intros DiffdirLL_ADC_tracks list.rel_intros)

lemma length_Diffdir_grad [simp]:
  "length (Diffdir_grad uk s ph x) = 7" "length (DiffdirLL_grad uk s ph x) = 7"
  by (simp_all add: Diffdir_grad_def DiffdirLL_grad_def Let_def)

lemma forward_entry_ok:
  assumes "ctracks (fwd uk s ph x) z" "c_ok (fwd uk s ph x)"
  shows "forward_entry fwd uk s ph x = CFin z"
  using assms by (simp add: forward_entry_def cval_of_tracked)

lemma gradient_entry_ok:
  assumes "list_all2 ctracks (grad uk s ph x) g" "u < length g" "c_ok (grad uk s ph x ! u)"
  shows "gradient_entry grad uk s ph x u = CFin (g ! u)"
proof -
  have "ctracks (grad uk s ph x ! u) (g ! u)"
    using assms(1,2) by (simp add: list_all2_conv_all_nth)
  with assms(3) show ?thesis
    by (simp add: gradient_entry_def cval_of_tracked)
qed

text \<open>
  Claim C3, as amended. For the two diffusion models, every input on which the
  evaluations return, every unknown \<open>u\<close>, scan \<open>i\<close> and voxel \<open>v\<close>: the Jacobian formula at
  \<open>u\<close> is the partial derivative of the signal formula, times the phase, in the unknown
  \<open>u\<close>; the signal at \<open>x + d\<close> is the signal at \<open>x\<close> plus \<open>\<Sum>\<^sub>u grad[u] * d[u]\<close> plus a
  remainder that is \<open>o(\<parallel>d\<parallel>)\<close>; the entry of the forward array is the signal times the
  phase when no operation of its computation leaves the normal range of single
  precision, and the entry of the Jacobian array is the derivative when no operation of
  its computation leaves that range. The rounding of the operations is left out.
\<close>

theorem jacobian_is_derivative_of_forward:
  assumes "(forward, jacobian, signal, grad, fwd_single, grad_single) =
        (Diffdir_execute_forward_3D, Diffdir_execute_gradient_3D, Diffdir_signal, Diffdir_grad,
         Diffdir_forward_c64, Diffdir_grad_c64)
      \<or> (forward, jacobian, signal, grad, fwd_single, grad_single) =
        (DiffdirLL_execute_forward_3D, DiffdirLL_execute_gradient_3D, DiffdirLL_signal,
         DiffdirLL_grad, DiffdirLL_forward_c64, DiffdirLL_grad_c64)"
    and "forward uk scans phase x = Inr S"
    and "jacobian uk scans phase x = Inr G"
    and "u < 7" "i < length scans" "v < length (x ! 0)"
  shows "((\<lambda>z. signal uk (scans ! i) ((voxel x v)[u := z]) * phase ! i ! v)
            has_field_derivative grad uk (scans ! i) (phase ! i ! v) (voxel x v) ! u)
           (at (voxel x v ! u)) \<and>
         first_order (\<lambda>y. signal uk (scans ! i) y * phase ! i ! v) (voxel x v)
           (grad uk (scans ! i) (phase ! i ! v) (voxel x v)) \<and>
         (c_ok (fwd_single uk (scans ! i) (phase ! i ! v) (voxel x v)) \<longrightarrow>
            S ! i ! v = CFin (signal uk (scans ! i) (voxel x v) * phase ! i ! v)) \<and>
         (c_ok (grad_single uk (scans ! i) (phase ! i ! v) (voxel x v) ! u) \<longrightarrow>
            G ! u ! i ! v = CFin (grad uk (scans ! i) (phase ! i ! v) (voxel x v) ! u))"
proof -
  have fwd: "model_forward fwd_single uk scans phase x = Inr S"
    and jac: "model_gradient grad_single uk scans phase x = Inr G"
    using assms(1-3)
    by (auto simp: Diffdir_execute_forward_3D_def Diffdir_execute_gradient_3D_def
        DiffdirLL_execute_forward_3D_def DiffdirLL_execute_gradient_3D_def)
  have ft: "ctracks (fwd_single uk s ph y) (signal uk s y * ph)" for s ph y
    using assms(1) Diffdir_forward_tracks DiffdirLL_forward_tracks by auto
  have gt: "list_all2 ctracks (grad_single uk s ph y) (grad uk s ph y)" for s ph y
    using assms(1) Diffdir_grad_tracks DiffdirLL_grad_tracks by auto
  have gl: "length (grad uk s ph y) = 7" for s ph y
    using assms(1) by auto
  have "((\<lambda>z. signal uk (scans ! i) ((voxel x v)[u := z]) * phase ! i ! v)
            has_field_derivative grad uk (scans ! i) (phase ! i ! v) (voxel x v) ! u)
           (at (voxel x v ! u))"
    using assms(1) Diffdir_partial [OF length_voxel assms(4)]
      DiffdirLL_partial [OF length_voxel assms(4)]
    by auto
  moreover have "first_order (\<lambda>y. signal uk (scans ! i) y * phase ! i ! v) (voxel x v)
           (grad uk (scans ! i) (phase ! i ! v) (voxel x v))"
    using assms(1) Diffdir_first_order [OF length_voxel] DiffdirLL_first_order [OF length_voxel]
    by auto
  moreover have "c_ok (fwd_single uk (scans ! i) (phase ! i ! v) (voxel x v)) \<longrightarrow>
            S ! i ! v = CFin (signal uk (scans ! i) (voxel x v) * phase ! i ! v)"
    unfolding model_forward_nth [OF fwd assms(5,6)]
    using forward_entry_ok [of fwd_single uk "scans ! i" "phase ! i ! v" "voxel x v", OF ft]
    by blast
  moreover have "c_ok (grad_single uk (scans ! i) (phase ! i ! v) (voxel x v) ! u) \<longrightarrow>
            G ! u ! i ! v = CFin (grad uk (scans ! i) (phase ! i ! v) (voxel x v) ! u)"
    unfolding model_gradient_nth [OF jac assms(4-6)]
    using gradient_entry_ok [of grad_single uk "scans ! i" "phase ! i ! v" "voxel x v", OF gt]
      assms(4) gl
    by simp
  ultimately show ?thesis
    by blast
qed

lemma voxel_x_unit: "voxel x_unit 0 = [1, 0, 0, 0, 0, 0, 0]"
  by (simp add: voxel_def x_unit_def upt_0_7)

lemma voxel_x_steep: "voxel x_steep 0 = [2 ^ 122, 0, 0, 0, 0, 0, 0]"
  by (simp add: voxel_def x_steep_def upt_0_7)

lemma model_arrays_one_voxel:
  assumes "length x = 7" "list_all (\<lambda>row. length row = Suc 0) x"
  shows "model_forward fwd uk_ones [s] [[ph]] x =
           Inr [[forward_entry fwd uk_ones s ph (voxel x 0)]]"
    and "model_gradient grad uk_ones [s] [[ph]] x =
           Inr (map (\<lambda>u. [[gradient_entry grad uk_ones s ph (voxel x 0) u]])
                  [0, 1, 2, 3, 4, 5, 6])"
proof -
  from assms have l: "length (x ! 0) = Suc 0"
    by (auto simp: list_all_length)
  have a: "is_array (Suc 0) x" "is_array (Suc 0) [[ph]]" "length uk_ones = 7"
    using assms by (simp_all add: is_array_def uk_ones_def)
  show "model_forward fwd uk_ones [s] [[ph]] x =
           Inr [[forward_entry fwd uk_ones s ph (voxel x 0)]]"
    by (simp add: model_forward_def l a assms(1))
  show "model_gradient grad uk_ones [s] [[ph]] x =
           Inr (map (\<lambda>u. [[gradient_entry grad uk_ones s ph (voxel x 0) u]])
                  [0, 1, 2, 3, 4, 5, 6])"
    by (simp add: model_gradient_def l a assms(1) upt_0_7)
qed

lemma Diffdir_grad_x_unit:
  "Diffdir_grad uk_ones scan0 1 [1, 0, 0, 0, 0, 0, 0] = [1, - 1, 0, 0, 0, 0, 0]"
  by (simp add: Diffdir_grad_def Diffdir_ADC_def uk_ones_def scan0_def ukc_def bval_def
      dir0_def dir1_def dir2_def Let_def)

lemma Diffdir_ADC_c64_zero_tensor:
  "Diffdir_ADC_c64 uk_ones scan0 [a, 0, 0, 0, 0, 0, 0] = cin 0"
  "Diffdir_ADC_c64 uk_ones scan_b [a, 0, 0, 0, 0, 0, 0] = cin 0"
  by (simp_all add: Diffdir_ADC_c64_def uk_ones_def scan0_def scan_b_def c64_eval)

lemma Diffdir_exp_zero_tensor:
  "cexp64 (- Diffdir_ADC_c64 uk_ones scan0 [a, 0, 0, 0, 0, 0, 0] * rin (sc_b scan0)) = cin 1"
  "cexp64 (- Diffdir_ADC_c64 uk_ones scan_b [a, 0, 0, 0, 0, 0, 0] * rin (sc_b scan_b)) = cin 1"
  by (simp_all add: Diffdir_ADC_c64_zero_tensor) (simp_all add: scan0_def scan_b_def c64_eval)

lemma Diffdir_c64_x_unit:
  "Diffdir_forward_c64 uk_ones scan0 1 [1, 0, 0, 0, 0, 0, 0] = cin 1"
  "Diffdir_grad_c64 uk_ones scan0 1 [1, 0, 0, 0, 0, 0, 0] =
     [cin 1, cin (- 1), cin 0, cin 0, cin 0, cin 0, cin 0]"
  unfolding Diffdir_forward_c64_def Diffdir_grad_c64_def Let_def Diffdir_exp_zero_tensor
  by (simp_all add: uk_ones_def scan0_def c64_eval)

lemma cval_of_cin [simp]: "cval_of (cin z) = CFin z"
  by (simp add: cval_of_def cin_def fl_of_def)

lemma c_ok_cin [simp]: "c_ok (cin z)"
  by (simp add: c_ok_def cin_def fl_of_def)

lemma Diffdir_arrays_x_unit:
  "Diffdir_execute_forward_3D uk_ones [scan0] [[1]] x_unit = Inr [[CFin 1]]"
  "Diffdir_execute_gradient_3D uk_ones [scan0] [[1]] x_unit =
     Inr [[[CFin 1]], [[CFin (- 1)]], [[CFin 0]], [[CFin 0]], [[CFin 0]], [[CFin 0]], [[CFin 0]]]"
proof -
  have x: "length x_unit = 7" "list_all (\<lambda>row. length row = Suc 0) x_unit"
    by (simp_all add: x_unit_def)
  show "Diffdir_execute_forward_3D uk_ones [scan0] [[1]] x_unit = Inr [[CFin 1]]"
    by (simp add: Diffdir_execute_forward_3D_def model_arrays_one_voxel [OF x]
        forward_entry_def voxel_x_unit Diffdir_c64_x_unit)
  show "Diffdir_execute_gradient_3D uk_ones [scan0] [[1]] x_unit =
     Inr [[[CFin 1]], [[CFin (- 1)]], [[CFin 0]], [[CFin 0]], [[CFin 0]], [[CFin 0]], [[CFin 0]]]"
    by (simp add: Diffdir_execute_gradient_3D_def model_arrays_one_voxel [OF x]
        gradient_entry_def voxel_x_unit Diffdir_c64_x_unit)
qed

text \<open>
  The theorem at \<open>M0 = 1\<close> and a zero tensor, for the unknown \<open>ADC_x\<close>: no operation
  leaves the normal range, and the arrays hold the signal and the derivatives.
\<close>

theorem jacobian_is_derivative_of_forward_witness:
  "Diffdir_execute_forward_3D uk_ones [scan0] [[1]] x_unit = Inr [[CFin 1]] \<and>
   Diffdir_execute_gradient_3D uk_ones [scan0] [[1]] x_unit =
     Inr [[[CFin 1]], [[CFin (- 1)]], [[CFin 0]], [[CFin 0]], [[CFin 0]], [[CFin 0]], [[CFin 0]]] \<and>
   c_ok (Diffdir_forward_c64 uk_ones scan0 1 [1, 0, 0, 0, 0, 0, 0]) \<and>
   c_ok (Diffdir_grad_c64 uk_ones scan0 1 [1, 0, 0, 0, 0, 0, 0] ! 1) \<and>
   ((\<lambda>z. Diffdir_signal uk_ones scan0 [1, z, 0, 0, 0, 0, 0] * 1) has_field_derivative - 1) (at 0) \<and>
   first_order (\<lambda>y. Diffdir_signal uk_ones scan0 y * 1) [1, 0, 0, 0, 0, 0, 0]
     [1, - 1, 0, 0, 0, 0, 0]"
  using jacobian_is_derivative_of_forward
    [where forward = Diffdir_execute_forward_3D and jacobian = Diffdir_execute_gradient_3D
       and signal = Diffdir_signal and grad = Diffdir_grad
       and fwd_single = Diffdir_forward_c64 and grad_single = Diffdir_grad_c64 and uk = uk_ones
       and scans = "[scan0]" and phase = "[[1]]" and x = x_unit and S = "[[CFin 1]]"
       and G = "[[[CFin 1]], [[CFin (- 1)]], [[CFin 0]], [[CFin 0]], [[CFin 0]], [[CFin 0]],
                 [[CFin 0]]]"
       and u = 1 and i = 0 and v = 0]
    Diffdir_arrays_x_unit
  by (simp add: voxel_x_unit Diffdir_grad_x_unit Diffdir_c64_x_unit) (simp add: x_unit_def)

text \<open>
  An overflow inside the computation, in the model \<^verbatim>\<open>DiffdirLL.py\<close>: at
  \<open>x[1] = 2 ^ 65\<close> and a diffusion direction along the second axis the square
  \<open>x[1]**2\<close> is an infinity, its product with the factor zero is NaN, and the
  entries of the two arrays are zeroed, where the signal and its derivative in \<open>M0\<close>
  are 1.
\<close>

lemma DiffdirLL_ADC_square_overflow:
  "DiffdirLL_ADC_c64 uk_ones scan_y [1, 2 ^ 65, 0, 0, 0, 0, 0] =
     C64 (Fl NaN False) (Fl NaN False)"
  by (simp add: DiffdirLL_ADC_c64_def uk_ones_def scan_y_def c64_eval fl_arith_nonfinite
      f32_overflow)

lemma DiffdirLL_square_overflow:
  "forward_entry DiffdirLL_forward_c64 uk_ones scan_y 1 [1, 2 ^ 65, 0, 0, 0, 0, 0] = CFin 0"
  "gradient_entry DiffdirLL_grad_c64 uk_ones scan_y 1 [1, 2 ^ 65, 0, 0, 0, 0, 0] 0 = CFin 0"
  "DiffdirLL_signal uk_ones scan_y [1, 2 ^ 65, 0, 0, 0, 0, 0] * 1 = 1"
  "DiffdirLL_grad uk_ones scan_y 1 [1, 2 ^ 65, 0, 0, 0, 0, 0] ! 0 = 1"
  unfolding forward_entry_def gradient_entry_def DiffdirLL_forward_c64_def
    DiffdirLL_grad_c64_def Let_def DiffdirLL_ADC_square_overflow
  by (simp_all add: uk_ones_def scan_y_def c64_eval fl_arith_nonfinite cval_of_def cexp64_def
      DiffdirLL_signal_def DiffdirLL_grad_def DiffdirLL_ADC_def ukc_def dir0_def dir1_def
      dir2_def bval_def)

lemma Diffdir_grad_x_steep:
  "Diffdir_grad uk_ones scan_b 1 (voxel x_steep 0) = [1, - (2 ^ 128), 0, 0, 0, 0, 0]"
  by (simp add: Diffdir_grad_def Diffdir_ADC_def uk_ones_def scan_b_def ukc_def bval_def
      dir0_def dir1_def dir2_def Let_def voxel_x_steep)

lemma Diffdir_entries_x_steep:
  "forward_entry Diffdir_forward_c64 uk_ones scan_b 1 (voxel x_steep 0) = CFin (2 ^ 122)"
  "map (gradient_entry Diffdir_grad_c64 uk_ones scan_b 1 (voxel x_steep 0))
     [0, 1, 2, 3, 4, 5, 6] = [CFin 1, CFin 0, CFin 0, CFin 0, CFin 0, CFin 0, CFin 0]"
  unfolding forward_entry_def gradient_entry_def Diffdir_forward_c64_def Diffdir_grad_c64_def
    Let_def voxel_x_steep Diffdir_exp_zero_tensor
  by (simp_all add: uk_ones_def scan_b_def c64_eval fl_arith_nonfinite f32_overflow cval_of_def
      complex_eq_iff)

text \<open>
  Claim C3 as stated fails where the signal is finite and the derivative is not in the
  single precision range. At \<open>M0 = 2 ^ 122\<close>, a zero tensor and \<open>b = 64\<close> along the first
  axis, the signal is \<open>2 ^ 122\<close> and the forward array holds it; the derivative in \<open>ADC_x\<close>
  is \<open>- 2 ^ 128\<close>, which overflows, and the Jacobian array holds \<open>0\<close> there.
\<close>

theorem jacobian_overflow_counterexample:
  "Diffdir_execute_forward_3D uk_ones [scan_b] [[1]] x_steep = Inr [[CFin (2 ^ 122)]] \<and>
   Diffdir_execute_gradient_3D uk_ones [scan_b] [[1]] x_steep =
     Inr [[[CFin 1]], [[CFin 0]], [[CFin 0]], [[CFin 0]], [[CFin 0]], [[CFin 0]], [[CFin 0]]] \<and>
   ((\<lambda>z. Diffdir_signal uk_ones scan_b ((voxel x_steep 0)[1 := z]) * 1)
      has_field_derivative - (2 ^ 128)) (at (voxel x_steep 0 ! 1))"
proof -
  have x: "length x_steep = 7" "list_all (\<lambda>row. length row = Suc 0) x_steep"
    by (simp_all add: x_steep_def)
  have a: "Diffdir_execute_forward_3D uk_ones [scan_b] [[1]] x_steep = Inr [[CFin (2 ^ 122)]]"
    by (simp only: Diffdir_execute_forward_3D_def model_arrays_one_voxel [OF x]
        Diffdir_entries_x_steep)
  have b: "Diffdir_execute_gradient_3D uk_ones [scan_b] [[1]] x_steep =
     Inr [[[CFin 1]], [[CFin 0]], [[CFin 0]], [[CFin 0]], [[CFin 0]], [[CFin 0]], [[CFin 0]]]"
    using Diffdir_entries_x_steep(2)
    by (simp add: Diffdir_execute_gradient_3D_def model_arrays_one_voxel [OF x])
  have c: "((\<lambda>z. Diffdir_signal uk_ones scan_b ((voxel x_steep 0)[1 := z]) * 1)
      has_field_derivative - (2 ^ 128)) (at (voxel x_steep 0 ! 1))"
    using Diffdir_partial [of "voxel x_steep 0" 1 uk_ones scan_b 1]
    by (simp add: Diffdir_grad_x_steep)
  from a b c show ?thesis
    by (intro conjI)
qed

end
